theory Spec2Isabelle
  imports Main "HOL-Library.AList"
begin

section \<open>JavaScript values, exceptions and effects\<close>

text \<open>
  The services are TypeScript classes whose payloads are typed \<open>any\<close>. A payload is a
  JavaScript value: \<open>JObj\<close> lists the own properties of an object in insertion order,
  \<open>JDate\<close> is a \<open>Date\<close> (milliseconds), \<open>JNum\<close> an integral number (a non-integral
  number behaves like any non-zero one in the tests the code makes).
\<close>

datatype jsval =
    JUndefined
  | JNull
  | JBool bool
  | JNum int
  | JStr string
  | JDate nat
  | JArr "jsval list"
  | JObj "(string \<times> jsval) list"

type_synonym obj = "(string \<times> jsval) list"

text \<open>
  A thrown value is an \<open>Error\<close> object: its class (for \<open>instanceof\<close>) and its
  message (every \<open>catch\<close> block of the code reads \<open>error.message\<close>).
\<close>

datatype exn_class = ErrorC | TypeErrorC | SyntaxErrorC | ValidationErrorC | OtherC string

datatype exn = Exn (cls: exn_class) (message: string)

text \<open>JavaScript truthiness, as tested by \<open>!x\<close> and \<open>if (x)\<close>.\<close>

fun truthy :: "jsval \<Rightarrow> bool" where
  "truthy JUndefined = False"
| "truthy JNull = False"
| "truthy (JBool b) = b"
| "truthy (JNum n) = (n \<noteq> 0)"
| "truthy (JStr s) = (s \<noteq> [])"
| "truthy (JDate t) = True"
| "truthy (JArr xs) = True"
| "truthy (JObj kvs) = True"

text \<open>\<open>o.p\<close> on a typed object (a record of the source with optional fields).\<close>

definition field_of :: "obj \<Rightarrow> string \<Rightarrow> jsval" where
  "field_of kvs p = (case map_of kvs p of None \<Rightarrow> JUndefined | Some v \<Rightarrow> v)"

text \<open>
  \<open>v.p\<close> on a value of type \<open>any\<close>: reading a property of \<open>undefined\<close> or \<open>null\<close>
  throws a TypeError; arrays and strings have a \<open>length\<close>; every other read of a name
  that is not an own property gives \<open>undefined\<close>.
\<close>

fun get_prop :: "jsval \<Rightarrow> string \<Rightarrow> exn + jsval" where
  "get_prop JUndefined p =
     Inl (Exn TypeErrorC (''Cannot read properties of undefined (reading '' @ p @ '')''))"
| "get_prop JNull p =
     Inl (Exn TypeErrorC (''Cannot read properties of null (reading '' @ p @ '')''))"
| "get_prop (JObj kvs) p = Inr (field_of kvs p)"
| "get_prop (JArr xs) p = Inr (if p = ''length'' then JNum (int (length xs)) else JUndefined)"
| "get_prop (JStr s) p = Inr (if p = ''length'' then JNum (int (length s)) else JUndefined)"
| "get_prop v p = Inr JUndefined"

text \<open>Decimal rendering of a count inside a template literal.\<close>

fun show_nat :: "nat \<Rightarrow> string" where
  "show_nat n =
     (if n < 10 then [char_of (48 + n)]
      else show_nat (n div 10) @ [char_of (48 + n mod 10)])"

declare show_nat.simps [simp del]

text \<open>
  What a run does besides computing: the calls it makes on its collaborators (handlers,
  services, repositories: all outside this code), and the lines it writes to its logger
  and to the console. They are recorded, in order, in the \<open>trace\<close> of the state; \<open>world\<close>
  is the state of everything outside (database, external API, clock), which only the
  collaborators change.
\<close>

datatype level = LOG | INFO | WARN | ERROR | DEBUG

datatype event =
    Logged level string "exn option" obj
  | Console string "jsval list"
  | Called string "jsval list"

record 'w st =
  world :: 'w
  trace :: "event list"

text \<open>
  A computation on a state ends with a value or with a thrown value. What the job and
  the project handler catch are \<open>Error\<close> objects (\<open>prog\<close>).
\<close>

type_synonym ('s, 'e, 'a) run = "'s \<Rightarrow> ('e + 'a) \<times> 's"

type_synonym ('s, 'a) prog = "('s, exn, 'a) run"

definition ret :: "'a \<Rightarrow> ('s, 'e, 'a) run" where
  "ret a s = (Inr a, s)"

definition throw :: "'e \<Rightarrow> ('s, 'e, 'a) run" where
  "throw e s = (Inl e, s)"

text \<open>\<open>const x = await m; f x\<close>: an exception of \<open>m\<close> skips \<open>f\<close>.\<close>

definition bindE :: "('s, 'e, 'a) run \<Rightarrow> ('a \<Rightarrow> ('s, 'e, 'b) run) \<Rightarrow> ('s, 'e, 'b) run" where
  "bindE m f s = (case m s of (Inl e, s') \<Rightarrow> (Inl e, s') | (Inr a, s') \<Rightarrow> f a s')"

text \<open>\<open>try { m } catch (error) { h error }\<close>.\<close>

definition try_catch ::
  "('s, 'e, 'a) run \<Rightarrow> ('e \<Rightarrow> ('s, 'e, 'a) run) \<Rightarrow> ('s, 'e, 'a) run" where
  "try_catch m h s = (case m s of (Inl e, s') \<Rightarrow> h e s' | (Inr a, s') \<Rightarrow> (Inr a, s'))"

text \<open>
  \<open>try { m } finally { fin }\<close> for a \<open>finally\<close> block that only assigns: it runs on
  every exit of \<open>m\<close>, and the outcome of \<open>m\<close> (value or exception) is kept.
\<close>

definition try_finally :: "('s, 'e, 'a) run \<Rightarrow> ('s \<Rightarrow> 's) \<Rightarrow> ('s, 'e, 'a) run" where
  "try_finally m fin s = (case m s of (r, s') \<Rightarrow> (r, fin s'))"

text \<open>A call of a collaborator: recorded, then answered by the collaborator.\<close>

definition ext ::
  "string \<Rightarrow> jsval list \<Rightarrow> ('w \<Rightarrow> ('e + 'r) \<times> 'w) \<Rightarrow> (('w, 'z) st_scheme, 'e, 'r) run" where
  "ext name args f s =
     (case f (world s) of
        (r, w') \<Rightarrow> (r, s\<lparr>world := w', trace := trace s @ [Called name args]\<rparr>))"

text \<open>The loggers and the console write a line and do not throw.\<close>

definition logger ::
  "level \<Rightarrow> string \<Rightarrow> exn option \<Rightarrow> obj \<Rightarrow> (('w, 'z) st_scheme, 'e, unit) run" where
  "logger l msg err meta s = (Inr (), s\<lparr>trace := trace s @ [Logged l msg err meta]\<rparr>)"

definition console :: "string \<Rightarrow> jsval list \<Rightarrow> (('w, 'z) st_scheme, 'e, unit) run" where
  "console msg args s = (Inr (), s\<lparr>trace := trace s @ [Console msg args]\<rparr>)"

text \<open>A value computed without effect, or the exception its computation throws.\<close>

definition lift :: "'e + 'a \<Rightarrow> ('s, 'e, 'a) run" where
  "lift r s = (r, s)"

subsection \<open>Rejections of the handlers\<close>

text \<open>
  The handlers behind the router are typed \<open>Promise<any>\<close>: what they reject with, and
  so what the \<open>catch\<close> of the message callback receives, is an \<open>Error\<close> object or any
  other JavaScript value, \<open>undefined\<close> and \<open>null\<close> included.
\<close>

datatype thrown = Error_object exn | Thrown_value jsval

fun nullish :: "jsval \<Rightarrow> bool" where
  "nullish JUndefined = True"
| "nullish JNull = True"
| "nullish v = False"

fun nullish_thrown :: "thrown \<Rightarrow> bool" where
  "nullish_thrown (Error_object e) = False"
| "nullish_thrown (Thrown_value v) = nullish v"

text \<open>
  \<open>error.message\<close> on what was caught: the message of an \<open>Error\<close>, a property read
  on any other value, which throws a TypeError on \<open>undefined\<close> and \<open>null\<close>.
\<close>

fun message_of :: "thrown \<Rightarrow> exn + jsval" where
  "message_of (Error_object e) = Inr (JStr (message e))"
| "message_of (Thrown_value v) = get_prop v ''message''"

text \<open>The \<open>Error\<close> object a log line shows, when what was caught is one.\<close>

fun error_of :: "thrown \<Rightarrow> exn option" where
  "error_of (Error_object e) = Some e"
| "error_of (Thrown_value v) = None"

text \<open>An exception raised by the code itself (a TypeError, a SyntaxError) is an \<open>Error\<close>.\<close>

definition lift_error :: "exn + 'a \<Rightarrow> ('s, thrown, 'a) run" where
  "lift_error r s = ((case r of Inl e \<Rightarrow> Inl (Error_object e) | Inr a \<Rightarrow> Inr a), s)"

section \<open>The scheduled sync job (CronJobService)\<close>

record CronJobStatus =
  isRunning :: bool
  lastExecution :: "nat option"
  lastSuccess :: "nat option"
  lastError :: "string option"
  totalExecutions :: nat
  successfulExecutions :: nat
  failedExecutions :: nat

text \<open>The field initialiser of \<open>jobStatus\<close>.\<close>

definition initial_jobStatus :: CronJobStatus where
  "initial_jobStatus =
     \<lparr>isRunning = False, lastExecution = None, lastSuccess = None, lastError = None,
      totalExecutions = 0, successfulExecutions = 0, failedExecutions = 0\<rparr>"

record 'w cron_st = "'w st" +
  jobStatus :: CronJobStatus

text \<open>
  \<open>ExternalApiResponse\<close>: \<open>success\<close> and the optional \<open>data\<close> array. The array
  is declared \<open>PrathamContentData[]\<close>; what arrives from the external API is JSON, so
  an item is any value here, \<open>null\<close> included.
\<close>

record ExternalApiResponse =
  resp_success :: bool
  resp_data :: "jsval list option"

text \<open>
  The collaborators of the job, none of them in this code: the external API client, the
  transform service, the two TypeORM repositories and the clock. Each may throw.
\<close>

record 'w cron_env =
  fetchCourseData :: "'w \<Rightarrow> (exn + ExternalApiResponse) \<times> 'w"
  fetchQuestionSetData :: "'w \<Rightarrow> (exn + ExternalApiResponse) \<times> 'w"
  transformExternalCourseData :: "jsval \<Rightarrow> 'w \<Rightarrow> (exn + obj) \<times> 'w"
  transformQuestionSetData :: "jsval \<Rightarrow> 'w \<Rightarrow> (exn + obj) \<times> 'w"
  courseRepo_findOne :: "jsval \<Rightarrow> 'w \<Rightarrow> (exn + obj option) \<times> 'w"
  courseRepo_update :: "jsval \<Rightarrow> obj \<Rightarrow> 'w \<Rightarrow> (exn + unit) \<times> 'w"
  courseRepo_save :: "obj \<Rightarrow> 'w \<Rightarrow> (exn + unit) \<times> 'w"
  questionSetRepo_findOne :: "jsval \<Rightarrow> 'w \<Rightarrow> (exn + obj option) \<times> 'w"
  questionSetRepo_update :: "jsval \<Rightarrow> obj \<Rightarrow> 'w \<Rightarrow> (exn + unit) \<times> 'w"
  questionSetRepo_save :: "obj \<Rightarrow> 'w \<Rightarrow> (exn + unit) \<times> 'w"
  Date_now :: "'w \<Rightarrow> nat"

record process_result =
  totalProcessed :: nat
  duration :: int

text \<open>\<open>Date.now()\<close> and \<open>new Date()\<close> read the clock of the world.\<close>

definition now_ms :: "'w cron_env \<Rightarrow> ('w cron_st, nat) prog" where
  "now_ms env s = (Inr (Date_now env (world s)), s)"

definition where_identifier :: "jsval \<Rightarrow> jsval" where
  "where_identifier ident = JObj [(''where'', JObj [(''identifier'', ident)])]"

definition saveCourseData :: "'w cron_env \<Rightarrow> obj \<Rightarrow> ('w cron_st, unit) prog" where
  "saveCourseData env courseData =
     try_catch
       (bindE (ext ''courseRepo.findOne'' [where_identifier (field_of courseData ''identifier'')]
                 (courseRepo_findOne env (field_of courseData ''identifier'')))
          (\<lambda>existingCourse.
             case existingCourse of
               Some found \<Rightarrow>
                 bindE (now_ms env) (\<lambda>t.
                 bindE (ext ''courseRepo.update''
                          [JObj [(''identifier'', field_of courseData ''identifier'')],
                           JObj (AList.update ''updated_at'' (JDate t) courseData)]
                          (courseRepo_update env (field_of courseData ''identifier'')
                             (AList.update ''updated_at'' (JDate t) courseData)))
                   (\<lambda>_. logger DEBUG ''Updated existing course'' None
                          [(''identifier'', field_of courseData ''identifier'')]))
             | None \<Rightarrow>
                 bindE (ext ''courseRepo.save'' [JObj courseData] (courseRepo_save env courseData))
                   (\<lambda>_. logger DEBUG ''Created new course'' None
                          [(''identifier'', field_of courseData ''identifier'')])))
       (\<lambda>error.
          bindE (logger ERROR ''Failed to save course data'' (Some error)
                   [(''identifier'', field_of courseData ''identifier'')])
            (\<lambda>_. throw error))"

definition saveQuestionSetData :: "'w cron_env \<Rightarrow> obj \<Rightarrow> ('w cron_st, unit) prog" where
  "saveQuestionSetData env questionSetData =
     try_catch
       (bindE (ext ''questionSetRepo.findOne''
                 [where_identifier (field_of questionSetData ''identifier'')]
                 (questionSetRepo_findOne env (field_of questionSetData ''identifier'')))
          (\<lambda>existingQuestionSet.
             case existingQuestionSet of
               Some found \<Rightarrow>
                 bindE (now_ms env) (\<lambda>t.
                 bindE (ext ''questionSetRepo.update''
                          [JObj [(''identifier'', field_of questionSetData ''identifier'')],
                           JObj (AList.update ''updated_at'' (JDate t) questionSetData)]
                          (questionSetRepo_update env (field_of questionSetData ''identifier'')
                             (AList.update ''updated_at'' (JDate t) questionSetData)))
                   (\<lambda>_. logger DEBUG ''Updated existing question set'' None
                          [(''identifier'', field_of questionSetData ''identifier'')]))
             | None \<Rightarrow>
                 bindE (ext ''questionSetRepo.save'' [JObj questionSetData]
                          (questionSetRepo_save env questionSetData))
                   (\<lambda>_. logger DEBUG ''Created new question set'' None
                          [(''identifier'', field_of questionSetData ''identifier'')])))
       (\<lambda>error.
          bindE (logger ERROR ''Failed to save question set data'' (Some error)
                   [(''identifier'', field_of questionSetData ''identifier'')])
            (\<lambda>_. throw error))"

text \<open>The body of the \<open>for ... of\<close> loop over the courses, inside its own \<open>try\<close>.\<close>

definition course_item :: "'w cron_env \<Rightarrow> jsval \<Rightarrow> ('w cron_st, unit) prog" where
  "course_item env courseData =
     bindE (ext ''transformService.transformExternalCourseData'' [courseData]
              (transformExternalCourseData env courseData))
       (\<lambda>transformedCourse. saveCourseData env transformedCourse)"

text \<open>
  The loop: \<open>totalProcessed++\<close> after an item that went through; after one that threw,
  the \<open>catch\<close> reads \<open>courseData.identifier\<close> for its error line and goes on to the
  next item. That read is made inside the \<open>catch\<close>: on an item that is \<open>null\<close> or
  \<open>undefined\<close> it throws a TypeError, which leaves the loop.
\<close>

fun course_loop :: "'w cron_env \<Rightarrow> jsval list \<Rightarrow> nat \<Rightarrow> ('w cron_st, nat) prog" where
  "course_loop env [] n s = (Inr n, s)"
| "course_loop env (courseData # rest) n s =
     (case course_item env courseData s of
        (Inr u, s') \<Rightarrow> course_loop env rest (n + 1) s'
      | (Inl error, s') \<Rightarrow>
          (case get_prop courseData ''identifier'' of
             Inl type_error \<Rightarrow> (Inl type_error, s')
           | Inr ident \<Rightarrow>
               course_loop env rest n
                 (snd ((logger ERROR ''Failed to process course data'' (Some error)
                          [(''identifier'', ident)] :: ('w cron_st, unit) prog) s'))))"

definition question_set_item :: "'w cron_env \<Rightarrow> jsval \<Rightarrow> ('w cron_st, unit) prog" where
  "question_set_item env questionSetData =
     bindE (ext ''transformService.transformQuestionSetData'' [questionSetData]
              (transformQuestionSetData env questionSetData))
       (\<lambda>transformedQuestionSet. saveQuestionSetData env transformedQuestionSet)"

fun question_set_loop ::
  "'w cron_env \<Rightarrow> jsval list \<Rightarrow> nat \<Rightarrow> ('w cron_st, nat) prog" where
  "question_set_loop env [] n s = (Inr n, s)"
| "question_set_loop env (questionSetData # rest) n s =
     (case question_set_item env questionSetData s of
        (Inr u, s') \<Rightarrow> question_set_loop env rest (n + 1) s'
      | (Inl error, s') \<Rightarrow>
          (case get_prop questionSetData ''identifier'' of
             Inl type_error \<Rightarrow> (Inl type_error, s')
           | Inr ident \<Rightarrow>
               question_set_loop env rest n
                 (snd ((logger ERROR ''Failed to process question set data'' (Some error)
                          [(''identifier'', ident)] :: ('w cron_st, unit) prog) s'))))"

text \<open>
  The guard \<open>!apiResponse.success || !apiResponse.data || apiResponse.data.length === 0\<close>:
  \<open>None\<close> when it holds (nothing to do), the items to process otherwise.
\<close>

definition available_items :: "ExternalApiResponse \<Rightarrow> jsval list option" where
  "available_items apiResponse =
     (if resp_success apiResponse then
        (case resp_data apiResponse of
           None \<Rightarrow> None
         | Some items \<Rightarrow> (if length items = 0 then None else Some items))
      else None)"

text \<open>\<open>apiResponse.data?.length || 0\<close>.\<close>

definition dataLength :: "ExternalApiResponse \<Rightarrow> nat" where
  "dataLength apiResponse = (case resp_data apiResponse of None \<Rightarrow> 0 | Some items \<Rightarrow> length items)"

definition no_data_meta :: "ExternalApiResponse \<Rightarrow> obj" where
  "no_data_meta apiResponse =
     [(''success'', JBool (resp_success apiResponse)),
      (''dataLength'', JNum (int (dataLength apiResponse)))]"

text \<open>
  How a \<open>try\<close> block ends when it does not throw: by a \<open>return\<close> inside it, or by
  reaching its end (the statements after the \<open>try\<close> then run).
\<close>

datatype ('r, 'a) completion = Returned 'r | Fell_through 'a

definition processCourseData :: "'w cron_env \<Rightarrow> ('w cron_st, process_result) prog" where
  "processCourseData env =
     bindE (now_ms env) (\<lambda>startTime.
     bindE
       (try_catch
          (bindE (logger INFO ''Fetching course data from Pratham Digital API'' None []) (\<lambda>_.
           bindE (ext ''externalApiService.fetchCourseData'' [] (fetchCourseData env))
             (\<lambda>apiResponse.
                case available_items apiResponse of
                  None \<Rightarrow>
                    bindE (logger INFO ''No course data available from Pratham Digital API'' None
                             (no_data_meta apiResponse)) (\<lambda>_.
                    bindE (now_ms env) (\<lambda>t.
                    ret (Returned \<lparr>totalProcessed = 0, duration = int t - int startTime\<rparr>)))
                | Some items \<Rightarrow>
                    bindE (logger INFO
                             (''Processing '' @ show_nat (length items) @ '' courses'')
                             None []) (\<lambda>_.
                    bindE (course_loop env items 0) (\<lambda>n.
                    bindE (logger INFO
                             (''Successfully processed '' @ show_nat n @ '' courses'')
                             None [])
                      (\<lambda>_. ret (Fell_through n)))))))
          (\<lambda>error.
             bindE (logger ERROR ''Failed to process course data'' (Some error) [])
               (\<lambda>_. throw error)))
       (\<lambda>c. case c of
            Returned r \<Rightarrow> ret r
          | Fell_through n \<Rightarrow>
              bindE (now_ms env) (\<lambda>t.
              ret \<lparr>totalProcessed = n, duration = int t - int startTime\<rparr>)))"

definition processQuestionSetData :: "'w cron_env \<Rightarrow> ('w cron_st, process_result) prog" where
  "processQuestionSetData env =
     bindE (now_ms env) (\<lambda>startTime.
     bindE
       (try_catch
          (bindE (logger INFO ''Fetching question set data from Pratham Digital API'' None [])
             (\<lambda>_.
           bindE (ext ''externalApiService.fetchQuestionSetData'' [] (fetchQuestionSetData env))
             (\<lambda>apiResponse.
                case available_items apiResponse of
                  None \<Rightarrow>
                    bindE (logger INFO
                             ''No question set data available from Pratham Digital API'' None
                             (no_data_meta apiResponse)) (\<lambda>_.
                    bindE (now_ms env) (\<lambda>t.
                    ret (Returned \<lparr>totalProcessed = 0, duration = int t - int startTime\<rparr>)))
                | Some items \<Rightarrow>
                    bindE (logger INFO
                             (''Processing '' @ show_nat (length items) @ '' question sets'')
                             None []) (\<lambda>_.
                    bindE (question_set_loop env items 0) (\<lambda>n.
                    bindE (logger INFO
                             (''Successfully processed '' @ show_nat n @ '' question sets'')
                             None [])
                      (\<lambda>_. ret (Fell_through n)))))))
          (\<lambda>error.
             bindE (logger ERROR ''Failed to process question set data'' (Some error) [])
               (\<lambda>_. throw error)))
       (\<lambda>c. case c of
            Returned r \<Rightarrow> ret r
          | Fell_through n \<Rightarrow>
              bindE (now_ms env) (\<lambda>t.
              ret \<lparr>totalProcessed = n, duration = int t - int startTime\<rparr>)))"

text \<open>
  \<open>executeCronJob\<close>. The guard returns at once while a run is in flight. Otherwise the
  run marks itself, counts itself, and runs the two sub-pulls inside
  \<open>try / catch / finally\<close>.
\<close>

definition start_run :: "nat \<Rightarrow> CronJobStatus \<Rightarrow> CronJobStatus" where
  "start_run t j =
     j\<lparr>isRunning := True, lastExecution := Some t, totalExecutions := totalExecutions j + 1\<rparr>"

definition record_success :: "nat \<Rightarrow> CronJobStatus \<Rightarrow> CronJobStatus" where
  "record_success t j =
     j\<lparr>lastSuccess := Some t, successfulExecutions := successfulExecutions j + 1,
       lastError := None\<rparr>"

definition record_failure :: "exn \<Rightarrow> CronJobStatus \<Rightarrow> CronJobStatus" where
  "record_failure error j =
     j\<lparr>failedExecutions := failedExecutions j + 1, lastError := Some (message error)\<rparr>"

definition release :: "CronJobStatus \<Rightarrow> CronJobStatus" where
  "release j = j\<lparr>isRunning := False\<rparr>"

definition update_status ::
  "(CronJobStatus \<Rightarrow> CronJobStatus) \<Rightarrow> ('w cron_st, unit) prog" where
  "update_status f s = (Inr (), s\<lparr>jobStatus := f (jobStatus s)\<rparr>)"

definition execution_meta :: "CronJobStatus \<Rightarrow> obj" where
  "execution_meta j = [(''executionNumber'', JNum (int (totalExecutions j)))]"

definition executeCronJob :: "'w cron_env \<Rightarrow> ('w cron_st, unit) prog" where
  "executeCronJob env s =
     (if isRunning (jobStatus s) then
        logger WARN ''Cron job is already running, skipping this execution'' None [] s
      else
        try_finally
          (try_catch
             (bindE (\<lambda>s1. logger INFO ''Starting daily cron job execution'' None
                            (execution_meta (jobStatus s1)
                               @ [(''timestamp'',
                                   case lastExecution (jobStatus s1) of
                                     None \<Rightarrow> JUndefined | Some t \<Rightarrow> JDate t)]) s1) (\<lambda>_.
              bindE (processCourseData env) (\<lambda>_.
              bindE (processQuestionSetData env) (\<lambda>_.
              bindE (now_ms env) (\<lambda>t.
              bindE (update_status (record_success t)) (\<lambda>_.
              (\<lambda>s1. logger INFO ''Daily cron job completed successfully'' None
                      (execution_meta (jobStatus s1)) s1)))))))
             (\<lambda>error.
                bindE (update_status (record_failure error)) (\<lambda>_.
                (\<lambda>s1. logger ERROR ''Daily cron job failed'' (Some error)
                        (execution_meta (jobStatus s1)
                           @ [(''errorCount'', JNum (int (failedExecutions (jobStatus s1))))])
                        s1))))
          (\<lambda>s1. s1\<lparr>jobStatus := release (jobStatus s1)\<rparr>)
          (s\<lparr>jobStatus := start_run (Date_now env (world s)) (jobStatus s)\<rparr>))"

definition triggerManualExecution :: "'w cron_env \<Rightarrow> ('w cron_st, unit) prog" where
  "triggerManualExecution env =
     bindE (logger INFO ''Manual cron job execution triggered'' None [])
       (\<lambda>_. executeCronJob env)"

text \<open>\<open>getJobStatus\<close> returns a copy of the status.\<close>

definition getJobStatus :: "'w cron_st \<Rightarrow> CronJobStatus" where
  "getJobStatus s = jobStatus s"

section \<open>The message router (KafkaConsumerService)\<close>

text \<open>
  What the router and the project handler use and do not define: \<open>JSON.parse\<close>,
  \<open>JSON.stringify\<close> (with its indentation), the conversion of a value inside a
  template literal, the methods of the injected handlers (\<open>handler\<close>, by name) and of
  the injected services (\<open>collaborator\<close>, by name), and the two validators imported
  from the types module.
\<close>

record 'w js_env =
  JSON_parse :: "string \<Rightarrow> exn + jsval"
  JSON_stringify :: "jsval \<Rightarrow> nat \<Rightarrow> jsval"
  String_of :: "jsval \<Rightarrow> string"
  handler :: "string \<Rightarrow> jsval \<Rightarrow> 'w \<Rightarrow> (thrown + jsval) \<times> 'w"
  collaborator :: "string \<Rightarrow> jsval \<Rightarrow> 'w \<Rightarrow> (exn + jsval) \<times> 'w"
  validateRequired :: "jsval \<Rightarrow> string \<Rightarrow> exn option"
  validateString :: "jsval \<Rightarrow> string \<Rightarrow> exn option"

text \<open>\<open>${v}\<close> in a template literal: a string is itself.\<close>

definition tpl :: "'w js_env \<Rightarrow> jsval \<Rightarrow> string" where
  "tpl env v = (case v of JStr s \<Rightarrow> s | _ \<Rightarrow> String_of env v)"

text \<open>A call of a handler method; its rejection is passed on as it is.\<close>

definition call ::
  "'w js_env \<Rightarrow> string \<Rightarrow> jsval \<Rightarrow> (('w, 'z) st_scheme, thrown, jsval) run" where
  "call env name arg = ext name [arg] (handler env name arg)"

text \<open>\<open>const { eventType, data } = event\<close> throws on \<open>null\<close> and \<open>undefined\<close>.\<close>

definition destructure :: "jsval \<Rightarrow> string \<Rightarrow> exn + jsval" where
  "destructure v p =
     (case v of
        JUndefined \<Rightarrow>
          Inl (Exn TypeErrorC (''Cannot destructure property '' @ p @ '' of undefined''))
      | JNull \<Rightarrow> Inl (Exn TypeErrorC (''Cannot destructure property '' @ p @ '' of null''))
      | _ \<Rightarrow> get_prop v p)"

definition handleUserEvent ::
  "'w js_env \<Rightarrow> jsval \<Rightarrow> jsval \<Rightarrow> ('w st, thrown, jsval) run" where
  "handleUserEvent env eventType d =
     (if eventType = JStr ''USER_CREATED'' \<or> eventType = JStr ''USER_UPDATED'' then
        call env ''userHandler.handleUserUpsert'' d
      else if eventType = JStr ''USER_DELETED'' then
        call env ''userHandler.handleUserDelete'' d
      else if eventType = JStr ''COHORT_CREATED'' \<or> eventType = JStr ''COHORT_UPDATED'' then
        call env ''userHandler.handleCohortUpsert'' d
      else if eventType = JStr ''COHORT_DELETED'' then
        call env ''userHandler.handleCohortDelete'' d
      else
        bindE (logger WARN (''Unhandled user eventType: '' @ tpl env eventType) None [])
          (\<lambda>_. ret JUndefined))"

definition handleEventEvent ::
  "'w js_env \<Rightarrow> jsval \<Rightarrow> jsval \<Rightarrow> ('w st, thrown, jsval) run" where
  "handleEventEvent env eventType d =
     bindE (logger LOG (''Handling event-event type: '' @ tpl env eventType) None []) (\<lambda>_.
     if eventType = JStr ''EVENT_CREATED'' \<or> eventType = JStr ''EVENT_UPDATED'' then
       call env ''eventHandler.handleEventUpsert'' d
     else if eventType = JStr ''EVENT_DELETED'' then
       call env ''eventHandler.handleEventDelete'' d
     else
       bindE (logger WARN (''Unhandled event eventType: '' @ tpl env eventType) None [])
         (\<lambda>_. ret JUndefined))"

definition handleAttendanceEvent ::
  "'w js_env \<Rightarrow> jsval \<Rightarrow> jsval \<Rightarrow> ('w st, thrown, jsval) run" where
  "handleAttendanceEvent env eventType d =
     bindE (logger LOG (''Handling attendance-event type: '' @ tpl env eventType) None [])
       (\<lambda>_.
     if eventType = JStr ''ATTENDANCE_CREATED'' \<or> eventType = JStr ''ATTENDANCE_UPDATED'' then
       call env ''attendanceHandler.handleAttendanceUpsert'' d
     else if eventType = JStr ''ATTENDANCE_DELETED'' then
       call env ''attendanceHandler.handleAttendanceDelete'' d
     else
       bindE (logger WARN (''Unhandled attendance eventType: '' @ tpl env eventType) None [])
         (\<lambda>_. ret JUndefined))"

definition handleAssessmentEvent ::
  "'w js_env \<Rightarrow> jsval \<Rightarrow> jsval \<Rightarrow> ('w st, thrown, jsval) run" where
  "handleAssessmentEvent env eventType d =
     bindE (logger LOG (''Handling assessment-event type: '' @ tpl env eventType) None [])
       (\<lambda>_.
     if eventType = JStr ''ASSESSMENT_CREATED'' \<or> eventType = JStr ''ASSESSMENT_UPDATED'' then
       call env ''assessmentHandler.handleAssessmentUpsert'' d
     else if eventType = JStr ''ASSESSMENT_DELETED'' then
       call env ''assessmentHandler.handleAssessmentDelete'' d
     else
       bindE (logger WARN (''Unhandled assessment eventType: '' @ tpl env eventType) None [])
         (\<lambda>_. ret JUndefined))"

text \<open>
  The console lines of the two handlers below, and the two routing lines of
  \<open>processEvent\<close>, start with an emoji in the source; it is left out here.
\<close>

definition handleCourseEvent ::
  "'w js_env \<Rightarrow> jsval \<Rightarrow> jsval \<Rightarrow> ('w st, thrown, jsval) run" where
  "handleCourseEvent env eventType d =
     bindE (console (''[KafkaConsumer] handleCourseEvent called with eventType: ''
                       @ tpl env eventType) []) (\<lambda>_.
     bindE (console ''[KafkaConsumer] Course event data:'' [JSON_stringify env d 2]) (\<lambda>_.
     bindE (logger LOG (''Handling course-event type: '' @ tpl env eventType) None []) (\<lambda>_.
     if eventType = JStr ''COURSE_ENROLLMENT_CREATED'' then
       bindE (console
                ''[KafkaConsumer] Calling courseHandler.handleCourseEnrollmentCreated...'' [])
         (\<lambda>_. call env ''courseHandler.handleCourseEnrollmentCreated'' d)
     else if eventType = JStr ''COURSE_STATUS_UPDATED'' then
       bindE (console ''[KafkaConsumer] Calling courseHandler.handleUserCourseUpdate...'' [])
         (\<lambda>_. call env ''courseHandler.handleUserCourseUpdate'' d)
     else
       bindE (console (''[KafkaConsumer] Unhandled course eventType: '' @ tpl env eventType) [])
         (\<lambda>_.
       bindE (logger WARN (''Unhandled course eventType: '' @ tpl env eventType) None [])
         (\<lambda>_. ret JUndefined)))))"

definition handleContentEvent ::
  "'w js_env \<Rightarrow> jsval \<Rightarrow> jsval \<Rightarrow> ('w st, thrown, jsval) run" where
  "handleContentEvent env eventType d =
     bindE (console (''[KafkaConsumer] handleContentEvent called with eventType: ''
                       @ tpl env eventType) []) (\<lambda>_.
     bindE (console ''[KafkaConsumer] Content event data:'' [JSON_stringify env d 2]) (\<lambda>_.
     bindE (logger LOG (''Handling content-event type: '' @ tpl env eventType) None []) (\<lambda>_.
     if eventType = JStr ''CONTENT_TRACKING_CREATED'' then
       bindE (console
                ''[KafkaConsumer] Calling contentHandler.handleContentTrackingCreated...'' [])
         (\<lambda>_. call env ''contentHandler.handleContentTrackingCreated'' d)
     else
       bindE (console (''[KafkaConsumer] Unhandled content eventType: '' @ tpl env eventType) [])
         (\<lambda>_.
       bindE (logger WARN (''Unhandled content eventType: '' @ tpl env eventType) None [])
         (\<lambda>_. ret JUndefined)))))"

text \<open>\<open>await h; return\<close> (or \<open>break\<close>): the value of \<open>h\<close> is dropped.\<close>

definition discard :: "('s, 'e, 'a) run \<Rightarrow> ('s, 'e, unit) run" where
  "discard m = bindE m (\<lambda>_. ret ())"

definition received_banner ::
  "'w js_env \<Rightarrow> string \<Rightarrow> jsval \<Rightarrow> jsval \<Rightarrow> ('w st, thrown, unit) run" where
  "received_banner env topic eventType d =
     bindE (console ''=== KAFKA MESSAGE RECEIVED ==='' []) (\<lambda>_.
     bindE (console ''Topic:'' [JStr topic]) (\<lambda>_.
     bindE (console ''EventType:'' [eventType]) (\<lambda>_.
     bindE (console ''Data:'' [JSON_stringify env d 2]) (\<lambda>_.
     console ''==============================='' []))))"

definition invalid_event_message :: "'w js_env \<Rightarrow> string \<Rightarrow> jsval \<Rightarrow> string" where
  "invalid_event_message env topic event =
     ''Invalid event received from topic '' @ topic @ '': ''
       @ tpl env (JSON_stringify env event 0)"

definition processEvent :: "'w js_env \<Rightarrow> string \<Rightarrow> jsval \<Rightarrow> ('w st, thrown, unit) run" where
  "processEvent env topic event =
     bindE (lift_error (destructure event ''eventType'')) (\<lambda>eventType.
     bindE (lift_error (destructure event ''data'')) (\<lambda>d.
     bindE (received_banner env topic eventType d) (\<lambda>_.
     if \<not> truthy eventType \<or> \<not> truthy d then
       logger WARN (invalid_event_message env topic event) None []
     else if eventType = JStr ''COURSE_ENROLLMENT_CREATED'' then
       bindE (console
                ''ROUTING: Course enrollment event detected, routing to course handler'' [])
         (\<lambda>_. discard (handleCourseEvent env eventType d))
     else if eventType = JStr ''CONTENT_TRACKING_CREATED'' then
       bindE (console
                ''ROUTING: Content tracking event detected, routing to content handler'' [])
         (\<lambda>_. discard (handleContentEvent env eventType d))
     else if topic = ''user-topic'' then discard (handleUserEvent env eventType d)
     else if topic = ''event-topic'' then discard (handleEventEvent env eventType d)
     else if topic = ''attendance-topic'' then discard (handleAttendanceEvent env eventType d)
     else if topic = ''course-topic'' then discard (handleCourseEvent env eventType d)
     else if topic = ''assessment-topic'' then discard (handleAssessmentEvent env eventType d)
     else logger WARN (''Unhandled Kafka topic: '' @ topic) None [])))"

text \<open>
  The \<open>catch\<close> of the callback, in both routers: it writes one error line made of
  \<open>error.message\<close> (and passes \<open>error.stack\<close> to the logger). The two property
  reads are made on whatever was thrown; on \<open>undefined\<close> or \<open>null\<close> the first of
  them throws a TypeError, inside the \<open>catch\<close>, and the callback rejects with it.
\<close>

definition report_message_error :: "'w js_env \<Rightarrow> thrown \<Rightarrow> ('w st, thrown, unit) run" where
  "report_message_error env error =
     bindE (lift_error (message_of error)) (\<lambda>error_message.
     logger ERROR (''Error processing Kafka message: '' @ tpl env error_message)
       (error_of error) [])"

text \<open>
  The \<open>eachMessage\<close> callback given to the consumer. \<open>message.value\<close> is a buffer or
  \<open>null\<close>; \<open>!value\<close> holds for \<open>null\<close> and for the empty string.
\<close>

definition eachMessage_try ::
  "'w js_env \<Rightarrow> string \<Rightarrow> string option \<Rightarrow> ('w st, thrown, unit) run" where
  "eachMessage_try env topic msg_value =
     (case msg_value of
        None \<Rightarrow> logger WARN ''Received empty Kafka message'' None []
      | Some v \<Rightarrow>
          if v = [] then logger WARN ''Received empty Kafka message'' None []
          else bindE (lift_error (JSON_parse env v)) (\<lambda>event. processEvent env topic event))"

definition eachMessage ::
  "'w js_env \<Rightarrow> string \<Rightarrow> string option \<Rightarrow> ('w st, thrown, unit) run" where
  "eachMessage env topic msg_value =
     try_catch (eachMessage_try env topic msg_value) (report_message_error env)"

text \<open>
  The consumer hands the messages to the callback one after the other; a rejection of
  the callback ends the loop here.
\<close>

fun consume ::
  "'w js_env \<Rightarrow> (string \<times> string option) list \<Rightarrow> ('w st, thrown, unit) run" where
  "consume env [] = ret ()"
| "consume env (m # ms) = bindE (eachMessage env (fst m) (snd m)) (\<lambda>_. consume env ms)"

subsection \<open>The earlier router (kafka/kafka-consumer.ts)\<close>

text \<open>
  The file \<open>kafka/kafka-consumer.ts\<close> holds a second class of the same name, with the
  user handler only. Its user dispatch is the one above; its two other dispatchers log.
\<close>

definition legacy_handleEventEvent ::
  "'w js_env \<Rightarrow> jsval \<Rightarrow> jsval \<Rightarrow> ('w st, thrown, jsval) run" where
  "legacy_handleEventEvent env eventType d =
     bindE (logger LOG (''Handling event-event type: '' @ tpl env eventType) None [])
       (\<lambda>_. ret JUndefined)"

definition legacy_handleAttendanceEvent ::
  "'w js_env \<Rightarrow> jsval \<Rightarrow> jsval \<Rightarrow> ('w st, thrown, jsval) run" where
  "legacy_handleAttendanceEvent env eventType d =
     bindE (logger LOG (''Handling attendance-event type: '' @ tpl env eventType) None [])
       (\<lambda>_. ret JUndefined)"

definition legacy_processEvent :: "'w js_env \<Rightarrow> string \<Rightarrow> jsval \<Rightarrow> ('w st, thrown, unit) run" where
  "legacy_processEvent env topic event =
     bindE (lift_error (destructure event ''eventType'')) (\<lambda>eventType.
     bindE (lift_error (destructure event ''data'')) (\<lambda>d.
     if \<not> truthy eventType \<or> \<not> truthy d then
       logger WARN (invalid_event_message env topic event) None []
     else if topic = ''user-topic'' then discard (handleUserEvent env eventType d)
     else if topic = ''event-events'' then discard (legacy_handleEventEvent env eventType d)
     else if topic = ''attendance-events'' then
       discard (legacy_handleAttendanceEvent env eventType d)
     else logger WARN (''Unhandled Kafka topic: '' @ topic) None []))"

definition legacy_eachMessage_try ::
  "'w js_env \<Rightarrow> string \<Rightarrow> string option \<Rightarrow> ('w st, thrown, unit) run" where
  "legacy_eachMessage_try env topic msg_value =
     (case msg_value of
        None \<Rightarrow> logger WARN ''Received empty Kafka message'' None []
      | Some v \<Rightarrow>
          if v = [] then logger WARN ''Received empty Kafka message'' None []
          else
            bindE (lift_error (JSON_parse env v)) (\<lambda>event.
            bindE (logger DEBUG (''Received event from topic ['' @ topic @ '']: '' @ v) None [])
              (\<lambda>_. legacy_processEvent env topic event)))"

definition legacy_eachMessage ::
  "'w js_env \<Rightarrow> string \<Rightarrow> string option \<Rightarrow> ('w st, thrown, unit) run" where
  "legacy_eachMessage env topic msg_value =
     try_catch (legacy_eachMessage_try env topic msg_value) (report_message_error env)"

fun legacy_consume ::
  "'w js_env \<Rightarrow> (string \<times> string option) list \<Rightarrow> ('w st, thrown, unit) run" where
  "legacy_consume env [] = ret ()"
| "legacy_consume env (m # ms) =
     bindE (legacy_eachMessage env (fst m) (snd m)) (\<lambda>_. legacy_consume env ms)"

section \<open>The project handler (ProjectHandler)\<close>

text \<open>A call of a method of the transform service or of the database service.\<close>

definition call_service ::
  "'w js_env \<Rightarrow> string \<Rightarrow> jsval \<Rightarrow> (('w, 'z) st_scheme, jsval) prog" where
  "call_service env name arg = ext name [arg] (collaborator env name arg)"

text \<open>A validator call: it returns, or throws what the validator throws.\<close>

definition check :: "exn option \<Rightarrow> ('s, unit) prog" where
  "check r s = ((case r of None \<Rightarrow> Inr () | Some e \<Rightarrow> Inl e), s)"

text \<open>An \<open>Error\<close> object passed to the console.\<close>

definition error_object :: "exn \<Rightarrow> jsval" where
  "error_object e = JObj [(''message'', JStr (message e))]"

text \<open>
  The \<open>catch\<close> block of both handler methods: a \<open>ValidationError\<close> is replaced by a
  new \<open>Error\<close> with the prefixed message, anything else is thrown again as it is.
\<close>

definition project_catch :: "string \<Rightarrow> string \<Rightarrow> exn \<Rightarrow> ('w st, 'a) prog" where
  "project_catch validation_line error_line error =
     (if cls error = ValidationErrorC then
        bindE (console validation_line [JStr (message error)])
          (\<lambda>_. throw (Exn ErrorC (''Validation failed: '' @ message error)))
      else
        bindE (console error_line [error_object error]) (\<lambda>_. throw error))"

definition handleProjectCreated_try :: "'w js_env \<Rightarrow> jsval \<Rightarrow> ('w st, jsval) prog" where
  "handleProjectCreated_try env d =
     bindE (lift (get_prop d ''projectTemplate'')) (\<lambda>projectTemplate.
     bindE (check (validateRequired env projectTemplate ''projectTemplate'')) (\<lambda>_.
     bindE (lift (get_prop d ''projectTemplateTasks'')) (\<lambda>projectTemplateTasks.
     bindE (check (validateRequired env projectTemplateTasks ''projectTemplateTasks'')) (\<lambda>_.
     bindE (lift (get_prop projectTemplate ''projectTemplateId'')) (\<lambda>projectTemplateId.
     bindE (check (validateString env projectTemplateId ''projectTemplateId'')) (\<lambda>_.
     bindE (lift (get_prop d ''totalTasks'')) (\<lambda>totalTasks.
     bindE (console
              (''[ProjectHandler] Processing project creation: projectTemplateId=''
                 @ tpl env projectTemplateId @ '', totalTasks='' @ tpl env totalTasks) [])
       (\<lambda>_.
     bindE (call_service env ''transformService.transformProjectData'' d) (\<lambda>transformedProjectData.
     bindE (call_service env ''dbService.upsertProject'' transformedProjectData) (\<lambda>_.
     bindE (lift (get_prop transformedProjectData ''ProjectId'')) (\<lambda>projectId.
     bindE (lift (get_prop transformedProjectData ''ProjectName'')) (\<lambda>projectName.
     bindE (console
              (''[ProjectHandler] Project created/updated successfully: ProjectId=''
                 @ tpl env projectId @ '', ProjectName='' @ tpl env projectName) [])
       (\<lambda>_.
     bindE (call_service env ''transformService.transformProjectTasksData'' d) (\<lambda>transformedTasksData.
     bindE (call_service env ''dbService.upsertProjectTasks'' transformedTasksData) (\<lambda>tasksResult.
     bindE (lift (get_prop tasksResult ''count'')) (\<lambda>tasksCount.
     bindE (console
              (''[ProjectHandler] Project tasks processed: '' @ tpl env tasksCount
                 @ '' tasks upserted for ProjectId='' @ tpl env projectId) [])
       (\<lambda>_.
     ret (JObj [(''success'', JBool True), (''projectId'', projectId),
                (''tasksCount'', tasksCount)]))))))))))))))))))"

definition handleProjectCreated :: "'w js_env \<Rightarrow> jsval \<Rightarrow> ('w st, jsval) prog" where
  "handleProjectCreated env d =
     try_catch (handleProjectCreated_try env d)
       (project_catch ''Validation failed in handleProjectCreated:''
          ''Error handling project creation:'')"

text \<open>\<open>data.tasks?.length || 0\<close>.\<close>

definition length_or_0 :: "jsval \<Rightarrow> jsval" where
  "length_or_0 v =
     (case v of
        JUndefined \<Rightarrow> JNum 0
      | JNull \<Rightarrow> JNum 0
      | _ \<Rightarrow> (case get_prop v ''length'' of
                Inr l \<Rightarrow> (if truthy l then l else JNum 0)
              | Inl e \<Rightarrow> JNum 0))"

definition handleProjectSyncUpdate_try :: "'w js_env \<Rightarrow> jsval \<Rightarrow> ('w st, jsval) prog" where
  "handleProjectSyncUpdate_try env d =
     bindE (lift (get_prop d ''_id'')) (\<lambda>project_id.
     bindE (check (validateRequired env project_id ''Project ID (_id)'')) (\<lambda>_.
     bindE (check (validateString env project_id ''_id'')) (\<lambda>_.
     bindE (lift (get_prop d ''solutionId'')) (\<lambda>solutionId.
     bindE (check (validateRequired env solutionId ''Solution ID'')) (\<lambda>_.
     bindE (lift (get_prop d ''tasks'')) (\<lambda>tasks.
     bindE (check (validateRequired env tasks ''Tasks array'')) (\<lambda>_.
     bindE (lift (get_prop d ''userId'')) (\<lambda>userId.
     bindE (lift (get_prop d ''status'')) (\<lambda>status.
     bindE (console
              (''[ProjectHandler] Processing project sync update: _id='' @ tpl env project_id
                 @ '', solutionId='' @ tpl env solutionId @ '', userId='' @ tpl env userId
                 @ '', status='' @ tpl env status
                 @ '', totalTasks='' @ tpl env (length_or_0 tasks)) [])
       (\<lambda>_.
     bindE (call_service env ''transformService.transformProjectTaskTrackingData'' d)
       (\<lambda>trackingRecords.
     bindE (lift (get_prop trackingRecords ''length'')) (\<lambda>completed.
     bindE (console
              (''[ProjectHandler] Found '' @ tpl env completed @ '' completed tasks to track'')
              [])
       (\<lambda>_.
     if completed = JNum 0 then
       bindE (console
                (''[ProjectHandler] No completed tasks to insert for project ''
                   @ tpl env solutionId) [])
         (\<lambda>_.
       ret (JObj [(''success'', JBool True), (''projectId'', solutionId),
                  (''status'', status), (''totalTasks'', length_or_0 tasks),
                  (''completedTasks'', JNum 0), (''inserted'', JNum 0),
                  (''skipped'', JNum 0)]))
     else
       bindE (call_service env ''dbService.upsertProjectTaskTrackings'' trackingRecords) (\<lambda>result.
       bindE (lift (get_prop result ''inserted'')) (\<lambda>inserted.
       bindE (lift (get_prop result ''skipped'')) (\<lambda>skipped.
       bindE (console
                (''[ProjectHandler] Project sync complete: projectId='' @ tpl env solutionId
                   @ '', inserted='' @ tpl env inserted @ '', skipped='' @ tpl env skipped) [])
         (\<lambda>_.
       ret (JObj [(''success'', JBool True), (''projectId'', solutionId),
                  (''status'', status), (''totalTasks'', length_or_0 tasks),
                  (''completedTasks'', completed), (''inserted'', inserted),
                  (''skipped'', skipped)]))))))))))))))))))"

definition handleProjectSyncUpdate :: "'w js_env \<Rightarrow> jsval \<Rightarrow> ('w st, jsval) prog" where
  "handleProjectSyncUpdate env d =
     try_catch (handleProjectSyncUpdate_try env d)
       (project_catch ''Validation failed in handleProjectSyncUpdate:''
          ''Error handling project sync update:'')"

section \<open>Sequences of triggers and readings of the trace\<close>

text \<open>
  The job is started by the schedule or by hand; each run is awaited to its end before
  the next trigger is looked at (a trigger that arrives during a run meets
  \<open>isRunning = true\<close>, which is the first branch of \<open>executeCronJob\<close>).
\<close>

datatype trigger = Scheduled | Manual

fun run_triggers :: "'w cron_env \<Rightarrow> trigger list \<Rightarrow> 'w cron_st \<Rightarrow> 'w cron_st" where
  "run_triggers env [] s = s"
| "run_triggers env (Scheduled # ts) s = run_triggers env ts (snd (executeCronJob env s))"
| "run_triggers env (Manual # ts) s = run_triggers env ts (snd (triggerManualExecution env s))"

text \<open>The events a run added to the trace it started from.\<close>

definition new_events :: "('w, 'z) st_scheme \<Rightarrow> ('w, 'z) st_scheme \<Rightarrow> event list" where
  "new_events s s' = drop (length (trace s)) (trace s')"

fun is_call :: "string \<Rightarrow> event \<Rightarrow> bool" where
  "is_call name (Called n args) = (n = name)"
| "is_call name ev = False"

fun is_any_call :: "event \<Rightarrow> bool" where
  "is_any_call (Called n args) = True"
| "is_any_call ev = False"

text \<open>The error line the batch loop writes for one item: message, error, identifier.\<close>

fun is_item_failure :: "string \<Rightarrow> event \<Rightarrow> bool" where
  "is_item_failure msg (Logged l m err meta) =
     (l = ERROR \<and> m = msg \<and> err \<noteq> None \<and> map fst meta = [''identifier''])"
| "is_item_failure msg ev = False"

fun is_warning :: "event \<Rightarrow> bool" where
  "is_warning (Logged l m err meta) = (l = WARN)"
| "is_warning ev = False"

text \<open>A call on the database service.\<close>

fun is_storage_call :: "event \<Rightarrow> bool" where
  "is_storage_call (Called n args) = (take 10 n = ''dbService.'')"
| "is_storage_call ev = False"

text \<open>An error line of a logger.\<close>

fun is_error_line :: "event \<Rightarrow> bool" where
  "is_error_line (Logged l m err meta) = (l = ERROR)"
| "is_error_line ev = False"

section \<open>Concrete collaborators\<close>

text \<open>
  An in-memory stand-in for the collaborators of the job: the external API answers with
  the items held in the world, a transformation throws on an item without a \<open>name\<close>
  (reading the name of \<open>null\<close> is a TypeError), a repository is a table from identifier
  to row, \<open>save\<close> stores the row it is given, \<open>update\<close> overwrites the fields it is
  given, and a repository operation named in \<open>failing\<close> throws.
\<close>

record mem_world =
  api_courses :: "jsval list"
  api_question_sets :: "jsval list"
  courses :: "(jsval \<times> obj) list"
  question_sets :: "(jsval \<times> obj) list"
  failing :: "string list"
  clock :: nat

definition mem_transform :: "jsval \<Rightarrow> mem_world \<Rightarrow> (exn + obj) \<times> mem_world" where
  "mem_transform item w =
     (case get_prop item ''name'' of
        Inl type_error \<Rightarrow> (Inl type_error, w)
      | Inr name \<Rightarrow>
          (if name = JUndefined then (Inl (Exn ErrorC ''name is missing''), w)
           else (case item of JObj kvs \<Rightarrow> (Inr kvs, w) | _ \<Rightarrow> (Inr [], w))))"

definition mem_guard ::
  "string \<Rightarrow> mem_world \<Rightarrow> (exn + 'a) \<times> mem_world \<Rightarrow> (exn + 'a) \<times> mem_world" where
  "mem_guard name w r =
     (if name \<in> set (failing w) then (Inl (Exn ErrorC ''connection lost''), w) else r)"

definition merge_fields :: "obj \<Rightarrow> obj \<Rightarrow> obj" where
  "merge_fields row changes = foldl (\<lambda>r kv. AList.update (fst kv) (snd kv) r) row changes"

definition mem_update :: "jsval \<Rightarrow> obj \<Rightarrow> (jsval \<times> obj) list \<Rightarrow> (jsval \<times> obj) list" where
  "mem_update ident changes table =
     map (\<lambda>kr. if fst kr = ident then (fst kr, merge_fields (snd kr) changes) else kr) table"

definition mem_env :: "mem_world cron_env" where
  "mem_env =
     \<lparr>fetchCourseData =
        (\<lambda>w. (Inr \<lparr>resp_success = True, resp_data = Some (api_courses w)\<rparr>, w)),
      fetchQuestionSetData =
        (\<lambda>w. (Inr \<lparr>resp_success = True, resp_data = Some (api_question_sets w)\<rparr>, w)),
      transformExternalCourseData = mem_transform,
      transformQuestionSetData = mem_transform,
      courseRepo_findOne =
        (\<lambda>ident w. mem_guard ''courseRepo.findOne'' w (Inr (map_of (courses w) ident), w)),
      courseRepo_update =
        (\<lambda>ident changes w.
           mem_guard ''courseRepo.update'' w
             (Inr (), w\<lparr>courses := mem_update ident changes (courses w)\<rparr>)),
      courseRepo_save =
        (\<lambda>row w.
           mem_guard ''courseRepo.save'' w
             (Inr (), w\<lparr>courses := courses w @ [(field_of row ''identifier'', row)]\<rparr>)),
      questionSetRepo_findOne =
        (\<lambda>ident w.
           mem_guard ''questionSetRepo.findOne'' w (Inr (map_of (question_sets w) ident), w)),
      questionSetRepo_update =
        (\<lambda>ident changes w.
           mem_guard ''questionSetRepo.update'' w
             (Inr (), w\<lparr>question_sets := mem_update ident changes (question_sets w)\<rparr>)),
      questionSetRepo_save =
        (\<lambda>row w.
           mem_guard ''questionSetRepo.save'' w
             (Inr (),
              w\<lparr>question_sets := question_sets w @ [(field_of row ''identifier'', row)]\<rparr>)),
      Date_now = clock\<rparr>"

definition course_a :: obj where
  "course_a = [(''identifier'', JStr ''do_1''), (''name'', JStr ''Algebra'')]"

definition course_b :: obj where
  "course_b = [(''identifier'', JStr ''do_2'')]"

definition course_c :: obj where
  "course_c = [(''identifier'', JStr ''do_3''), (''name'', JStr ''Chemistry'')]"

definition question_set_a :: obj where
  "question_set_a = [(''identifier'', JStr ''qs_1'')]"

definition question_set_b :: obj where
  "question_set_b = [(''identifier'', JStr ''qs_2''), (''name'', JStr ''Fractions quiz'')]"

definition mem_start :: "mem_world cron_st" where
  "mem_start =
     \<lparr>world = \<lparr>api_courses = [JObj course_a, JObj course_b, JObj course_c],
               api_question_sets = [JObj question_set_a, JObj question_set_b],
               courses = [], question_sets = [], failing = [], clock = 1000\<rparr>,
      trace = [],
      jobStatus = initial_jobStatus\<rparr>"

text \<open>The same start with one course and one question set already stored.\<close>

definition mem_stored :: "mem_world cron_st" where
  "mem_stored =
     mem_start\<lparr>world := (world mem_start)\<lparr>courses := [(JStr ''do_1'', course_a)],
                 question_sets := [(JStr ''qs_2'', question_set_b)]\<rparr>\<rparr>"

text \<open>A state in which the named repository operation throws.\<close>

definition mem_failing :: "string \<Rightarrow> mem_world cron_st \<Rightarrow> mem_world cron_st" where
  "mem_failing name s = s\<lparr>world := (world s)\<lparr>failing := [name]\<rparr>\<rparr>"

text \<open>The start with a batch whose first item is \<open>null\<close>.\<close>

definition mem_null_batch :: "mem_world cron_st" where
  "mem_null_batch =
     mem_start\<lparr>world := (world mem_start)\<lparr>api_courses := [JNull, JObj course_c]\<rparr>\<rparr>"

text \<open>The same collaborators behind an external API that cannot be reached.\<close>

definition unreachable_env :: "mem_world cron_env" where
  "unreachable_env =
     mem_env\<lparr>fetchCourseData := (\<lambda>w. (Inl (Exn ErrorC ''connect ECONNREFUSED''), w))\<rparr>"

text \<open>The same collaborators behind an external API that answers with the same batches
  whatever the state.\<close>

definition steady_env :: "mem_world cron_env" where
  "steady_env =
     mem_env\<lparr>fetchCourseData :=
               (\<lambda>w. (Inr \<lparr>resp_success = True,
                          resp_data = Some [JObj course_a, JObj course_b, JObj course_c]\<rparr>, w)),
             fetchQuestionSetData :=
               (\<lambda>w. (Inr \<lparr>resp_success = True,
                          resp_data = Some [JObj question_set_a, JObj question_set_b]\<rparr>, w))\<rparr>"

text \<open>A state in which a run is in flight.\<close>

definition mem_running :: "mem_world cron_st" where
  "mem_running = mem_start\<lparr>jobStatus := start_run 1000 initial_jobStatus\<rparr>"

text \<open>
  A stand-in for what the router and the project handler use: a parser that knows four
  texts, validators that reject a missing value and a non-string, a transformation that
  keeps the completed tasks, a database service whose project upsert fails and a user
  handler whose delete fails.
\<close>

definition completed_tasks :: "jsval \<Rightarrow> jsval" where
  "completed_tasks d =
     (case get_prop d ''tasks'' of
        Inr (JArr ts) \<Rightarrow> JArr (filter (\<lambda>t. get_prop t ''status'' = Inr (JStr ''completed'')) ts)
      | _ \<Rightarrow> JArr [])"

definition enrollment_event :: jsval where
  "enrollment_event =
     JObj [(''eventType'', JStr ''COURSE_ENROLLMENT_CREATED''),
           (''data'', JObj [(''userId'', JStr ''u1'')])]"

definition tracking_event :: jsval where
  "tracking_event =
     JObj [(''eventType'', JStr ''CONTENT_TRACKING_CREATED''),
           (''data'', JObj [(''contentId'', JStr ''c9'')])]"

definition delete_event :: jsval where
  "delete_event =
     JObj [(''eventType'', JStr ''USER_DELETED''),
           (''data'', JObj [(''identifier'', JStr ''u1'')])]"

definition js_demo_env :: "nat js_env" where
  "js_demo_env =
     \<lparr>JSON_parse =
        (\<lambda>input. if input = ''{}'' then Inr (JObj [])
                 else if input = ''null'' then Inr JNull
                 else if input = ''enrollment'' then Inr enrollment_event
                 else if input = ''delete-user'' then Inr delete_event
                 else Inl (Exn SyntaxErrorC ''Unexpected token in JSON'')),
      JSON_stringify = (\<lambda>v indent. JStr ''[json]''),
      String_of = (\<lambda>v. ''[value]''),
      handler =
        (\<lambda>name arg w.
           if name = ''userHandler.handleUserDelete''
           then (Inl (Error_object (Exn ErrorC ''user not found'')), w + 1)
           else (Inr arg, w + 1)),
      collaborator =
        (\<lambda>name arg w.
           if name = ''transformService.transformProjectTaskTrackingData''
           then (Inr (completed_tasks arg), w + 1)
           else if name = ''dbService.upsertProject''
           then (Inl (Exn ErrorC ''connection refused''), w + 1)
           else (Inr arg, w + 1)),
      validateRequired =
        (\<lambda>v name. if v = JUndefined \<or> v = JNull
                    then Some (Exn ValidationErrorC (name @ '' is required'')) else None),
      validateString =
        (\<lambda>v name. case v of JStr s \<Rightarrow> None
                    | _ \<Rightarrow> Some (Exn ValidationErrorC (name @ '' must be a string'')))\<rparr>"

text \<open>The same stand-in with a user handler whose delete rejects with \<open>undefined\<close>.\<close>

definition js_reject_env :: "nat js_env" where
  "js_reject_env =
     js_demo_env\<lparr>handler :=
       (\<lambda>name arg w.
          if name = ''userHandler.handleUserDelete''
          then (Inl (Thrown_value JUndefined), w + 1)
          else (Inr arg, w + 1))\<rparr>"

definition js_start :: "nat st" where
  "js_start = \<lparr>world = 0, trace = []\<rparr>"

definition sync_payload :: jsval where
  "sync_payload =
     JObj [(''_id'', JStr ''p1''), (''solutionId'', JStr ''s1''), (''userId'', JStr ''u1''),
           (''status'', JStr ''started''),
           (''tasks'', JArr [JObj [(''taskId'', JStr ''t1''), (''status'', JStr ''notStarted'')]])]"

definition created_payload :: jsval where
  "created_payload =
     JObj [(''projectTemplate'', JObj [(''projectTemplateId'', JStr ''pt1'')]),
           (''projectTemplateTasks'', JArr []), (''totalTasks'', JNum 0)]"

section \<open>Vocabulary of the proofs\<close>

text \<open>A program that leaves \<open>jobStatus\<close> as it found it.\<close>

definition keeps_status :: "('w cron_st, 'a) prog \<Rightarrow> bool" where
  "keeps_status m = (\<forall>s. jobStatus (snd (m s)) = jobStatus s)"

text \<open>The status a run leaves, from the status it found.\<close>

definition after_success :: "nat \<Rightarrow> nat \<Rightarrow> CronJobStatus \<Rightarrow> CronJobStatus" where
  "after_success t0 t j = release (record_success t (start_run t0 j))"

definition after_failure :: "nat \<Rightarrow> exn \<Rightarrow> CronJobStatus \<Rightarrow> CronJobStatus" where
  "after_failure t0 e j = release (record_failure e (start_run t0 j))"

text \<open>The invariant of the counters.\<close>

definition counters_agree :: "CronJobStatus \<Rightarrow> bool" where
  "counters_agree j =
     (\<not> isRunning j \<and> totalExecutions j = successfulExecutions j + failedExecutions j)"

text \<open>
  An event that is neither the error line of the batch loop nor a call of the
  transformation; a program that only appends events of a given kind to the trace.
\<close>

definition calm :: "string \<Rightarrow> string \<Rightarrow> event \<Rightarrow> bool" where
  "calm msg name ev = (\<not> is_item_failure msg ev \<and> \<not> is_call name ev)"

definition adds :: "(event \<Rightarrow> bool) \<Rightarrow> (('w, 'z) st_scheme, 'a) prog \<Rightarrow> bool" where
  "adds P m = (\<forall>s. \<exists>t. trace (snd (m s)) = trace s @ t \<and> list_all P t)"

text \<open>A program of the router that never ends with \<open>undefined\<close> or \<open>null\<close> thrown.\<close>

definition contained :: "('s, thrown, 'a) run \<Rightarrow> bool" where
  "contained m = (\<forall>s t. fst (m s) = Inl t \<longrightarrow> \<not> nullish_thrown t)"

section \<open>The overlap guard and the release of the guard\<close>

lemmas prog_defs = bindE_def ret_def throw_def lift_def lift_error_def logger_def console_def
  try_catch_def try_finally_def ext_def check_def discard_def call_def call_service_def
  now_ms_def update_status_def

lemma unreachable_run:
  "jobStatus (snd (executeCronJob unreachable_env mem_start)) =
     \<lparr>isRunning = False, lastExecution = Some 1000, lastSuccess = None,
      lastError = Some ''connect ECONNREFUSED'', totalExecutions = 1,
      successfulExecutions = 0, failedExecutions = 1\<rparr>"
  by code_simp

lemma successful_run:
  "jobStatus (snd (executeCronJob mem_env mem_start)) =
     \<lparr>isRunning = False, lastExecution = Some 1000, lastSuccess = Some 1000,
      lastError = None, totalExecutions = 1,
      successfulExecutions = 1, failedExecutions = 0\<rparr>"
  by code_simp

lemma mem_start_idle: "\<not> isRunning (jobStatus mem_start)"
  by (simp add: mem_start_def initial_jobStatus_def)

lemma mem_running_busy: "isRunning (jobStatus mem_running)"
  by (simp add: mem_running_def mem_start_def start_run_def)

text \<open>
  C1. An invocation of \<open>executeCronJob\<close> that starts while \<open>isRunning\<close> is true returns
  at once: the state it leaves is the state it found with one more line in the trace, the
  skip warning, so no field of \<open>jobStatus\<close> has changed. The same holds when the
  invocation comes through \<open>triggerManualExecution\<close>, which writes its own information
  line before it calls \<open>executeCronJob\<close>.
\<close>

theorem executeCronJob_skips_while_running:
  assumes "isRunning (jobStatus s)"
  shows "executeCronJob env s =
           (Inr (), s\<lparr>trace := trace s @
              [Logged WARN ''Cron job is already running, skipping this execution'' None []]\<rparr>)
         \<and> jobStatus (snd (executeCronJob env s)) = jobStatus s
         \<and> triggerManualExecution env s =
           (Inr (), s\<lparr>trace := trace s @
              [Logged INFO ''Manual cron job execution triggered'' None [],
               Logged WARN ''Cron job is already running, skipping this execution'' None []]\<rparr>)
         \<and> jobStatus (snd (triggerManualExecution env s)) = jobStatus s"
  using assms by (simp add: executeCronJob_def triggerManualExecution_def prog_defs)

theorem executeCronJob_skips_while_running_witness:
  "isRunning (jobStatus mem_running)
   \<and> jobStatus (snd (executeCronJob mem_env mem_running)) = jobStatus mem_running
   \<and> jobStatus (snd (triggerManualExecution mem_env mem_running)) = jobStatus mem_running
   \<and> new_events mem_running (snd (executeCronJob mem_env mem_running)) =
       [Logged WARN ''Cron job is already running, skipping this execution'' None []]"
  using executeCronJob_skips_while_running [OF mem_running_busy, of mem_env] mem_running_busy
  by (simp add: new_events_def)

text \<open>
  C2. A run that is not skipped ends with \<open>isRunning\<close> false, whatever the collaborators
  return or throw during it (the theorem holds for every environment): the \<open>finally\<close>
  block releases the guard, and the \<open>catch\<close> block has absorbed the exception, so
  \<open>executeCronJob\<close> itself returns normally.
\<close>

theorem executeCronJob_releases_guard:
  assumes "\<not> isRunning (jobStatus s)"
  shows "\<not> isRunning (jobStatus (snd (executeCronJob env s)))
         \<and> fst (executeCronJob env s) = Inr ()
         \<and> \<not> isRunning (jobStatus (snd (triggerManualExecution env s)))"
  using assms
  by (simp add: executeCronJob_def triggerManualExecution_def try_finally_def try_catch_def
      bindE_def logger_def update_status_def release_def split: prod.splits sum.splits)

theorem executeCronJob_releases_guard_witness:
  "\<not> isRunning (jobStatus mem_start)
   \<and> \<not> isRunning (jobStatus (snd (executeCronJob unreachable_env mem_start)))
   \<and> failedExecutions (jobStatus (snd (executeCronJob unreachable_env mem_start))) = 1
   \<and> fst (executeCronJob unreachable_env mem_start) = Inr ()"
  using executeCronJob_releases_guard [OF mem_start_idle, of unreachable_env] mem_start_idle
  by (simp add: unreachable_run)

section \<open>The counters of the job\<close>

lemma keeps_ret: "keeps_status (ret a)"
  by (simp add: keeps_status_def ret_def)

lemma keeps_throw: "keeps_status (throw e)"
  by (simp add: keeps_status_def throw_def)

lemma keeps_logger: "keeps_status (logger l m e meta)"
  by (simp add: keeps_status_def logger_def)

lemma keeps_now_ms: "keeps_status (now_ms env)"
  by (simp add: keeps_status_def now_ms_def)

lemma keeps_ext: "keeps_status (ext name args f)"
  by (simp add: keeps_status_def ext_def split: prod.splits)

lemma keeps_bindE: "keeps_status m \<Longrightarrow> (\<And>a. keeps_status (f a)) \<Longrightarrow> keeps_status (bindE m f)"
  by (auto simp: keeps_status_def bindE_def split: prod.splits sum.splits) (metis snd_conv)+

lemma keeps_try_catch:
  "keeps_status m \<Longrightarrow> (\<And>e. keeps_status (h e)) \<Longrightarrow> keeps_status (try_catch m h)"
  by (auto simp: keeps_status_def try_catch_def split: prod.splits sum.splits) (metis snd_conv)+

lemma keeps_option:
  "keeps_status a \<Longrightarrow> (\<And>x. keeps_status (b x)) \<Longrightarrow> keeps_status (case v of None \<Rightarrow> a | Some x \<Rightarrow> b x)"
  by (cases v) simp_all

lemma keeps_completion:
  "(\<And>r. keeps_status (a r)) \<Longrightarrow> (\<And>x. keeps_status (b x)) \<Longrightarrow>
   keeps_status (case c of Returned r \<Rightarrow> a r | Fell_through x \<Rightarrow> b x)"
  by (cases c) simp_all

lemmas keeps_intros = keeps_bindE keeps_try_catch keeps_option keeps_completion keeps_ret keeps_throw keeps_logger
  keeps_now_ms keeps_ext

lemma keeps_saveCourseData: "keeps_status (saveCourseData env c)"
  unfolding saveCourseData_def by (intro keeps_intros)

lemma keeps_saveQuestionSetData: "keeps_status (saveQuestionSetData env c)"
  unfolding saveQuestionSetData_def by (intro keeps_intros)

lemma keeps_course_item: "keeps_status (course_item env c)"
  unfolding course_item_def by (intro keeps_intros keeps_saveCourseData)

lemma keeps_question_set_item: "keeps_status (question_set_item env c)"
  unfolding question_set_item_def by (intro keeps_intros keeps_saveQuestionSetData)

lemma keeps_course_loop: "keeps_status (course_loop env items n)"
  unfolding keeps_status_def
proof (induction items arbitrary: n)
  case Nil
  show ?case by simp
next
  case (Cons x xs)
  show ?case
  proof
    fix s
    obtain r s1 where step: "course_item env x s = (r, s1)" by (cases "course_item env x s")
    have same: "jobStatus s1 = jobStatus s"
      using keeps_course_item [of env x] step by (metis keeps_status_def snd_conv)
    show "jobStatus (snd (course_loop env (x # xs) n s)) = jobStatus s"
      using step same Cons.IH
      by (cases r; cases "get_prop x ''identifier''") (simp_all add: logger_def)
  qed
qed

lemma keeps_question_set_loop: "keeps_status (question_set_loop env items n)"
  unfolding keeps_status_def
proof (induction items arbitrary: n)
  case Nil
  show ?case by simp
next
  case (Cons x xs)
  show ?case
  proof
    fix s
    obtain r s1 where step: "question_set_item env x s = (r, s1)"
      by (cases "question_set_item env x s")
    have same: "jobStatus s1 = jobStatus s"
      using keeps_question_set_item [of env x] step by (metis keeps_status_def snd_conv)
    show "jobStatus (snd (question_set_loop env (x # xs) n s)) = jobStatus s"
      using step same Cons.IH
      by (cases r; cases "get_prop x ''identifier''") (simp_all add: logger_def)
  qed
qed

lemma keeps_processCourseData: "keeps_status (processCourseData env)"
  unfolding processCourseData_def by (intro keeps_intros keeps_course_loop)

lemma keeps_processQuestionSetData: "keeps_status (processQuestionSetData env)"
  unfolding processQuestionSetData_def by (intro keeps_intros keeps_question_set_loop)


lemma processCourseData_status: "jobStatus (snd (processCourseData env s)) = jobStatus s"
  using keeps_processCourseData [of env] by (simp add: keeps_status_def)

lemma processQuestionSetData_status:
  "jobStatus (snd (processQuestionSetData env s)) = jobStatus s"
  using keeps_processQuestionSetData [of env] by (simp add: keeps_status_def)

lemma executeCronJob_outcome:
  assumes idle: "\<not> isRunning (jobStatus s)"
  shows "(\<exists>t. jobStatus (snd (executeCronJob env s)) =
              after_success (Date_now env (world s)) t (jobStatus s))
         \<or> (\<exists>e. jobStatus (snd (executeCronJob env s)) =
              after_failure (Date_now env (world s)) e (jobStatus s))"
proof -
  define j0 where "j0 = start_run (Date_now env (world s)) (jobStatus s)"
  define s0 where "s0 = s\<lparr>jobStatus := j0\<rparr>"
  define s1 where "s1 = snd (logger INFO ''Starting daily cron job execution'' None
                            (execution_meta (jobStatus s0)
                               @ [(''timestamp'',
                                   case lastExecution (jobStatus s0) of
                                     None \<Rightarrow> JUndefined | Some t \<Rightarrow> JDate t)]) s0)"
  obtain r2 s2 where c: "processCourseData env s1 = (r2, s2)"
    by (cases "processCourseData env s1")
  obtain r3 s3 where q: "processQuestionSetData env s2 = (r3, s3)"
    by (cases "processQuestionSetData env s2")
  have j1: "jobStatus s1 = j0" by (simp add: s1_def s0_def logger_def)
  have j2: "jobStatus s2 = j0" using processCourseData_status [of env s1] c j1 by simp
  have j3: "jobStatus s3 = j0" using processQuestionSetData_status [of env s2] q j2 by simp
  show ?thesis
  proof (cases r2)
    case (Inl e)
    have "jobStatus (snd (executeCronJob env s)) = release (record_failure e j0)"
      using idle c Inl j2
      by (simp add: executeCronJob_def prog_defs s1_def s0_def j0_def)
    then show ?thesis by (auto simp: after_failure_def j0_def)
  next
    case (Inr a)
    show ?thesis
    proof (cases r3)
      case (Inl e)
      have "jobStatus (snd (executeCronJob env s)) = release (record_failure e j0)"
        using idle c q Inl \<open>r2 = Inr a\<close> j3
        by (simp add: executeCronJob_def prog_defs s1_def s0_def j0_def)
      then show ?thesis by (auto simp: after_failure_def j0_def)
    next
      case (Inr b)
      have "jobStatus (snd (executeCronJob env s)) =
              release (record_success (Date_now env (world s3)) j0)"
        using idle c q Inr \<open>r2 = Inr a\<close> j3
        by (simp add: executeCronJob_def prog_defs s1_def s0_def j0_def)
      then show ?thesis by (auto simp: after_success_def j0_def)
    qed
  qed
qed

lemma triggerManualExecution_status:
  "jobStatus (snd (triggerManualExecution env s)) =
     jobStatus (snd (executeCronJob env
       (s\<lparr>trace := trace s @
          [Logged INFO ''Manual cron job execution triggered'' None []]\<rparr>)))"
  by (simp add: triggerManualExecution_def bindE_def logger_def)

lemma counters_agree_step:
  assumes "counters_agree (jobStatus s)"
  shows "counters_agree (jobStatus (snd (executeCronJob env s)))
       \<and> totalExecutions (jobStatus (snd (executeCronJob env s))) = totalExecutions (jobStatus s) + 1"
  using assms executeCronJob_outcome [of s env]
  by (auto simp: counters_agree_def after_success_def after_failure_def release_def
      record_success_def record_failure_def start_run_def)

lemma counters_agree_manual:
  assumes "counters_agree (jobStatus s)"
  shows "counters_agree (jobStatus (snd (triggerManualExecution env s)))
       \<and> totalExecutions (jobStatus (snd (triggerManualExecution env s))) = totalExecutions (jobStatus s) + 1"
proof -
  let ?s1 = "s\<lparr>trace := trace s @
               [Logged INFO ''Manual cron job execution triggered'' None []]\<rparr>"
  have "counters_agree (jobStatus ?s1)"
    using assms by simp
  from counters_agree_step [OF this, of env] show ?thesis
    by (simp add: triggerManualExecution_status)
qed

lemma run_triggers_counters:
  "counters_agree (jobStatus s) \<Longrightarrow>
   counters_agree (jobStatus (run_triggers env ts s))
   \<and> totalExecutions (jobStatus (run_triggers env ts s)) = totalExecutions (jobStatus s) + length ts"
proof (induction ts arbitrary: s)
  case Nil
  then show ?case by simp
next
  case (Cons x xs)
  show ?case
  proof (cases x)
    case Scheduled
    from counters_agree_step [OF Cons.prems, of env] Cons.IH [of "snd (executeCronJob env s)"]
    show ?thesis using Scheduled by simp
  next
    case Manual
    from counters_agree_manual [OF Cons.prems, of env]
      Cons.IH [of "snd (triggerManualExecution env s)"]
    show ?thesis using Manual by simp
  qed
qed

text \<open>
  C10. After any sequence of triggers, each run awaited to its end, from the initial
  status: \<open>isRunning\<close> is false and \<open>totalExecutions\<close> is the sum of
  \<open>successfulExecutions\<close> and \<open>failedExecutions\<close> (and the number of triggers). A run
  that is not skipped adds one to \<open>totalExecutions\<close> and one to exactly one of the two
  other counters; a successful run leaves \<open>lastError\<close> undefined. The counters are
  JavaScript numbers, exact up to \<open>2^53\<close>; they are natural numbers here.
\<close>

theorem counters_add_up:
  "(jobStatus s0 = initial_jobStatus \<longrightarrow>
      \<not> isRunning (jobStatus (run_triggers env ts s0))
      \<and> totalExecutions (jobStatus (run_triggers env ts s0)) =
          successfulExecutions (jobStatus (run_triggers env ts s0))
          + failedExecutions (jobStatus (run_triggers env ts s0))
      \<and> totalExecutions (jobStatus (run_triggers env ts s0)) = length ts)
   \<and> (\<not> isRunning (jobStatus s) \<longrightarrow>
        totalExecutions (jobStatus (snd (executeCronJob env s))) = totalExecutions (jobStatus s) + 1
        \<and> ((successfulExecutions (jobStatus (snd (executeCronJob env s))) =
               successfulExecutions (jobStatus s) + 1
             \<and> failedExecutions (jobStatus (snd (executeCronJob env s))) =
               failedExecutions (jobStatus s)
             \<and> lastError (jobStatus (snd (executeCronJob env s))) = None)
            \<or> (successfulExecutions (jobStatus (snd (executeCronJob env s))) =
                  successfulExecutions (jobStatus s)
                \<and> failedExecutions (jobStatus (snd (executeCronJob env s))) =
                  failedExecutions (jobStatus s) + 1
                \<and> lastError (jobStatus (snd (executeCronJob env s))) \<noteq> None)))"
proof -
  have inv: "counters_agree initial_jobStatus"
    by (simp add: counters_agree_def initial_jobStatus_def)
  have a: "jobStatus s0 = initial_jobStatus \<Longrightarrow>
      \<not> isRunning (jobStatus (run_triggers env ts s0))
      \<and> totalExecutions (jobStatus (run_triggers env ts s0)) =
          successfulExecutions (jobStatus (run_triggers env ts s0))
          + failedExecutions (jobStatus (run_triggers env ts s0))
      \<and> totalExecutions (jobStatus (run_triggers env ts s0)) = length ts"
    using run_triggers_counters [of s0 env ts] inv
    by (simp add: counters_agree_def initial_jobStatus_def)
  have b: "\<not> isRunning (jobStatus s) \<Longrightarrow>
        totalExecutions (jobStatus (snd (executeCronJob env s))) = totalExecutions (jobStatus s) + 1
        \<and> ((successfulExecutions (jobStatus (snd (executeCronJob env s))) =
               successfulExecutions (jobStatus s) + 1
             \<and> failedExecutions (jobStatus (snd (executeCronJob env s))) =
               failedExecutions (jobStatus s)
             \<and> lastError (jobStatus (snd (executeCronJob env s))) = None)
            \<or> (successfulExecutions (jobStatus (snd (executeCronJob env s))) =
                  successfulExecutions (jobStatus s)
                \<and> failedExecutions (jobStatus (snd (executeCronJob env s))) =
                  failedExecutions (jobStatus s) + 1
                \<and> lastError (jobStatus (snd (executeCronJob env s))) \<noteq> None))"
    using executeCronJob_outcome [of s env]
    by (auto simp: after_success_def after_failure_def release_def
      record_success_def record_failure_def start_run_def)
  from a b show ?thesis by blast
qed

theorem counters_add_up_witness:
  "jobStatus mem_start = initial_jobStatus
   \<and> \<not> isRunning (jobStatus mem_start)
   \<and> totalExecutions (jobStatus (run_triggers mem_env [Scheduled, Manual] mem_start)) = 2
   \<and> totalExecutions (jobStatus (run_triggers mem_env [Scheduled, Manual] mem_start)) =
       successfulExecutions (jobStatus (run_triggers mem_env [Scheduled, Manual] mem_start))
       + failedExecutions (jobStatus (run_triggers mem_env [Scheduled, Manual] mem_start))
   \<and> totalExecutions (jobStatus (snd (executeCronJob unreachable_env mem_start))) = 1
   \<and> failedExecutions (jobStatus (snd (executeCronJob unreachable_env mem_start))) = 1
   \<and> successfulExecutions (jobStatus (snd (executeCronJob mem_env mem_start))) = 1"
proof -
  have i: "jobStatus mem_start = initial_jobStatus" by (simp add: mem_start_def)
  have z: "totalExecutions (jobStatus mem_start) = 0"
    by (simp add: mem_start_def initial_jobStatus_def)
  from counters_add_up [of mem_start mem_env "[Scheduled, Manual]" mem_start]
    counters_add_up [of mem_start unreachable_env "[]" mem_start]
    i mem_start_idle z
  show ?thesis by (simp add: unreachable_run successful_run)
qed

section \<open>Failures of single items in a batch\<close>

lemma adds_ret: "adds P (ret a)"
  by (simp add: adds_def ret_def)

lemma adds_throw: "adds P (throw e)"
  by (simp add: adds_def throw_def)

lemma adds_now_ms: "adds P (now_ms env)"
  by (simp add: adds_def now_ms_def)

lemma adds_logger: "P (Logged l m e meta) \<Longrightarrow> adds P (logger l m e meta)"
  by (simp add: adds_def logger_def)

lemma adds_ext: "P (Called name args) \<Longrightarrow> adds P (ext name args f)"
  by (simp add: adds_def ext_def split: prod.splits)

lemma adds_bindE:
  assumes m: "adds P m" and f: "\<And>a. adds P (f a)"
  shows "adds P (bindE m f)"
  unfolding adds_def
proof
  fix s
  obtain r s1 where ms: "m s = (r, s1)" by (cases "m s")
  from m ms obtain t1 where t1: "trace s1 = trace s @ t1" "list_all P t1"
    unfolding adds_def by (metis snd_conv)
  show "\<exists>t. trace (snd (bindE m f s)) = trace s @ t \<and> list_all P t"
  proof (cases r)
    case (Inl e)
    then show ?thesis using ms t1 by (simp add: bindE_def)
  next
    case (Inr a)
    from f [of a] obtain t2 where "trace (snd (f a s1)) = trace s1 @ t2" "list_all P t2"
      unfolding adds_def by blast
    then show ?thesis using ms Inr t1 by (simp add: bindE_def)
  qed
qed

lemma adds_try_catch:
  assumes m: "adds P m" and h: "\<And>e. adds P (h e)"
  shows "adds P (try_catch m h)"
  unfolding adds_def
proof
  fix s
  obtain r s1 where ms: "m s = (r, s1)" by (cases "m s")
  from m ms obtain t1 where t1: "trace s1 = trace s @ t1" "list_all P t1"
    unfolding adds_def by (metis snd_conv)
  show "\<exists>t. trace (snd (try_catch m h s)) = trace s @ t \<and> list_all P t"
  proof (cases r)
    case (Inr a)
    then show ?thesis using ms t1 by (simp add: try_catch_def)
  next
    case (Inl e)
    from h [of e] obtain t2 where "trace (snd (h e s1)) = trace s1 @ t2" "list_all P t2"
      unfolding adds_def by blast
    then show ?thesis using ms Inl t1 by (simp add: try_catch_def)
  qed
qed

lemma adds_option:
  "adds P a \<Longrightarrow> (\<And>x. adds P (b x)) \<Longrightarrow> adds P (case v of None
      \<Rightarrow> a | Some x \<Rightarrow> b x)"
  by (cases v) simp_all

lemmas adds_intros = adds_bindE adds_try_catch adds_option adds_ret adds_throw adds_now_ms
  adds_logger adds_ext

lemma saveCourseData_calm:
  "adds (calm ''Failed to process course data''
           ''transformService.transformExternalCourseData'') (saveCourseData env c)"
  unfolding saveCourseData_def by (intro adds_intros) (simp_all add: calm_def)

lemma saveQuestionSetData_calm:
  "adds (calm ''Failed to process question set data''
           ''transformService.transformQuestionSetData'') (saveQuestionSetData env c)"
  unfolding saveQuestionSetData_def by (intro adds_intros) (simp_all add: calm_def)

lemma calm_filters:
  assumes "list_all (calm msg name) t"
  shows "filter (is_item_failure msg) t = []" and "filter (is_call name) t = []"
  using assms by (induction t) (simp_all add: calm_def)

lemma course_item_trace:
  "\<exists>t. trace (snd (course_item env x s)) =
         trace s @ Called ''transformService.transformExternalCourseData'' [x] # t
       \<and> list_all (calm ''Failed to process course data''
                     ''transformService.transformExternalCourseData'') t"
proof -
  obtain r w where tr: "transformExternalCourseData env x (world s) = (r, w)"
    by (cases "transformExternalCourseData env x (world s)")
  show ?thesis
  proof (cases r)
    case (Inl e)
    then show ?thesis using tr by (simp add: course_item_def bindE_def ext_def)
  next
    case (Inr c)
    let ?s1 = "s\<lparr>world := w, trace := trace s @
                 [Called ''transformService.transformExternalCourseData'' [x]]\<rparr>"
    from saveCourseData_calm [of env c] obtain t
      where "trace (snd (saveCourseData env c ?s1)) = trace ?s1 @ t"
        "list_all (calm ''Failed to process course data''
                     ''transformService.transformExternalCourseData'') t"
      unfolding adds_def by blast
    then show ?thesis using tr Inr by (simp add: course_item_def bindE_def ext_def)
  qed
qed

lemma course_loop_trace:
  assumes "list_all (\<lambda>x. \<not> nullish x) items"
  shows "\<exists>k t. fst (course_loop env items n s) = Inr k
       \<and> trace (snd (course_loop env items n s)) = trace s @ t
       \<and> k + length (filter (is_item_failure ''Failed to process course data'') t) = n +
           length items
       \<and> filter (is_call ''transformService.transformExternalCourseData'') t =
           map (\<lambda>x. Called ''transformService.transformExternalCourseData'' [x]) items
       \<and> (\<forall>ev \<in> set (filter (is_item_failure ''Failed to process course data'')
           t).
            \<exists>x \<in> set items. \<exists>e ident. get_prop x ''identifier'' = Inr ident
              \<and> ev = Logged ERROR ''Failed to process course data'' (Some e)
                  [(''identifier'', ident)])"
  using assms
proof (induction items arbitrary: n s)
  case Nil
  show ?case by simp
next
  case (Cons x xs)
  from Cons.prems have nx: "\<not> nullish x" and rest: "list_all (\<lambda>x. \<not> nullish x)
      xs"
    by simp_all
  from nx obtain ident where ident: "get_prop x ''identifier'' = Inr ident"
    by (cases x) simp_all
  obtain r s1 where step: "course_item env x s = (r, s1)" by (cases "course_item env x s")
  from course_item_trace [of env x s] step obtain t1 where
    t1: "trace s1 = trace s @ Called ''transformService.transformExternalCourseData'' [x] # t1"
    and c1: "list_all (calm ''Failed to process course data''
                     ''transformService.transformExternalCourseData'') t1"
    by auto
  note f1 = calm_filters [OF c1]
  show ?case
  proof (cases r)
    case (Inr u)
    from Cons.IH [OF rest, of "n + 1" s1] obtain k t2 where
      "fst (course_loop env xs (n + 1) s1) = Inr k"
      "trace (snd (course_loop env xs (n + 1) s1)) = trace s1 @ t2"
      "k + length (filter (is_item_failure ''Failed to process course data'') t2) = n + 1 + length
          xs"
      "filter (is_call ''transformService.transformExternalCourseData'') t2 =
           map (\<lambda>x. Called ''transformService.transformExternalCourseData'' [x]) xs"
      "\<forall>ev \<in> set (filter (is_item_failure ''Failed to process course data'') t2).
            \<exists>x \<in> set xs. \<exists>e ident. get_prop x ''identifier'' = Inr ident
              \<and> ev = Logged ERROR ''Failed to process course data'' (Some e)
                  [(''identifier'', ident)]"
      by blast
    then show ?thesis using step Inr t1 f1
      by (intro exI [of _ k] exI [of _ "Called ''transformService.transformExternalCourseData''
          [x] # t1 @ t2"])
        (auto simp: filter_empty_conv)
  next
    case (Inl e)
    let ?s2 = "s1\<lparr>trace := trace s1 @
                 [Logged ERROR ''Failed to process course data'' (Some e) [(''identifier'',
                     ident)]]\<rparr>"
    from Cons.IH [OF rest, of n ?s2] obtain k t2 where
      "fst (course_loop env xs n ?s2) = Inr k"
      "trace (snd (course_loop env xs n ?s2)) = trace ?s2 @ t2"
      "k + length (filter (is_item_failure ''Failed to process course data'') t2) = n + length xs"
      "filter (is_call ''transformService.transformExternalCourseData'') t2 =
           map (\<lambda>x. Called ''transformService.transformExternalCourseData'' [x]) xs"
      "\<forall>ev \<in> set (filter (is_item_failure ''Failed to process course data'') t2).
            \<exists>x \<in> set xs. \<exists>e ident. get_prop x ''identifier'' = Inr ident
              \<and> ev = Logged ERROR ''Failed to process course data'' (Some e)
                  [(''identifier'', ident)]"
      by blast
    then show ?thesis using step Inl t1 f1 ident
      by (intro exI [of _ k] exI [of _ "Called ''transformService.transformExternalCourseData''
          [x] # t1 @
             Logged ERROR ''Failed to process course data'' (Some e) [(''identifier'', ident)] #
                 t2"])
        (auto simp: logger_def filter_empty_conv)
  qed
qed

lemma processCourseData_batch:
  assumes "fetchCourseData env (world s) = (Inr r, w)" and "available_items r = Some items"
    and "list_all (\<lambda>x. \<not> nullish x) items"
  shows "\<exists>k d. fst (processCourseData env s) = Inr \<lparr>totalProcessed = k, duration =
      d\<rparr>
         \<and> k + length (filter (is_item_failure ''Failed to process course data'')
                          (new_events s (snd (processCourseData env s)))) = length items
         \<and> filter (is_call ''transformService.transformExternalCourseData'')
              (new_events s (snd (processCourseData env s))) =
            map (\<lambda>x. Called ''transformService.transformExternalCourseData'' [x]) items
         \<and> (\<forall>ev \<in> set (filter (is_item_failure ''Failed to process course data'')
                             (new_events s (snd (processCourseData env s)))).
              \<exists>x \<in> set items. \<exists>e ident. get_prop x ''identifier'' = Inr ident
                \<and> ev = Logged ERROR ''Failed to process course data'' (Some e)
                    [(''identifier'', ident)])"
proof -
  let ?s1 = "s\<lparr>world := w, trace := trace s @
               [Logged INFO ''Fetching course data from Pratham Digital API'' None [],
                Called ''externalApiService.fetchCourseData'' [],
                Logged INFO (''Processing '' @ show_nat (length items) @ '' courses'') None
                    []]\<rparr>"
  obtain rl s2 where loop: "course_loop env items 0 ?s1 = (rl, s2)"
    by (cases "course_loop env items 0 ?s1")
  from course_loop_trace [OF assms(3), of env 0 ?s1] loop obtain k t where
    k: "rl = Inr k"
    and t: "trace s2 = trace ?s1 @ t"
    and cnt: "k + length (filter (is_item_failure ''Failed to process course data'') t)
               = length items"
    and calls: "filter (is_call ''transformService.transformExternalCourseData'') t =
           map (\<lambda>x. Called ''transformService.transformExternalCourseData'' [x]) items"
    and ids: "\<forall>ev \<in> set (filter (is_item_failure ''Failed to process course data'')
        t).
            \<exists>x \<in> set items. \<exists>e ident. get_prop x ''identifier'' = Inr ident
              \<and> ev = Logged ERROR ''Failed to process course data'' (Some e)
                  [(''identifier'', ident)]"
    by auto
  have run: "processCourseData env s =
      (Inr \<lparr>totalProcessed = k,
            duration = int (Date_now env (world s2)) - int (Date_now env (world s))\<rparr>,
       s2\<lparr>trace := trace s2 @
            [Logged INFO (''Successfully processed '' @ show_nat k @ '' courses'') None
                []]\<rparr>)"
    using assms(1,2) loop k by (simp add: processCourseData_def prog_defs)
  show ?thesis
    using run t cnt calls ids by (simp add: new_events_def)
qed

lemma processCourseData_returns:
  assumes "fst (fetchCourseData env (world s)) = Inr r"
    and "\<forall>items. available_items r = Some items \<longrightarrow> list_all (\<lambda>x.
        \<not> nullish x) items"
  shows "\<exists>p. fst (processCourseData env s) = Inr p"
proof -
  obtain w where f: "fetchCourseData env (world s) = (Inr r, w)"
    using assms(1) by (cases "fetchCourseData env (world s)") simp
  show ?thesis
  proof (cases "available_items r")
    case None
    then show ?thesis using f by (simp add: processCourseData_def prog_defs)
  next
    case (Some items)
    with assms(2) have "list_all (\<lambda>x. \<not> nullish x) items" by blast
    from processCourseData_batch [OF f Some this] show ?thesis by blast
  qed
qed

lemma course_step:
  "(transformExternalCourseData env x (world s) = (Inl e, wa)
      \<and> get_prop x ''identifier'' = Inr ident \<longrightarrow>
    course_loop env (x # rest) n s =
      course_loop env rest n
        (s\<lparr>world := wa, trace := trace s @
           [Called ''transformService.transformExternalCourseData'' [x],
            Logged ERROR ''Failed to process course data'' (Some e) [(''identifier'',
                ident)]]\<rparr>))"
  "(transformExternalCourseData env x (world s) = (Inr c, wa)
      \<and> courseRepo_findOne env (field_of c ''identifier'') wa = (Inl e, wb)
      \<and> get_prop x ''identifier'' = Inr ident \<longrightarrow>
    course_loop env (x # rest) n s =
      course_loop env rest n
        (s\<lparr>world := wb, trace := trace s @
           [Called ''transformService.transformExternalCourseData'' [x],
            Called ''courseRepo.findOne'' [where_identifier (field_of c ''identifier'')],
            Logged ERROR ''Failed to save course data'' (Some e)
              [(''identifier'', field_of c ''identifier'')],
            Logged ERROR ''Failed to process course data'' (Some e) [(''identifier'',
                ident)]]\<rparr>))"
  "(transformExternalCourseData env x (world s) = (Inr c, wa)
      \<and> courseRepo_findOne env (field_of c ''identifier'') wa = (Inr None, wb)
      \<and> courseRepo_save env c wb = (Inl e, wc)
      \<and> get_prop x ''identifier'' = Inr ident \<longrightarrow>
    course_loop env (x # rest) n s =
      course_loop env rest n
        (s\<lparr>world := wc, trace := trace s @
           [Called ''transformService.transformExternalCourseData'' [x],
            Called ''courseRepo.findOne'' [where_identifier (field_of c ''identifier'')],
            Called ''courseRepo.save'' [JObj c],
            Logged ERROR ''Failed to save course data'' (Some e)
              [(''identifier'', field_of c ''identifier'')],
            Logged ERROR ''Failed to process course data'' (Some e) [(''identifier'',
                ident)]]\<rparr>))"
  "(transformExternalCourseData env x (world s) = (Inr c, wa)
      \<and> courseRepo_findOne env (field_of c ''identifier'') wa = (Inr (Some row), wb)
      \<and> courseRepo_update env (field_of c ''identifier'')
           (AList.update ''updated_at'' (JDate (Date_now env wb)) c) wb = (Inl e, wc)
      \<and> get_prop x ''identifier'' = Inr ident \<longrightarrow>
    course_loop env (x # rest) n s =
      course_loop env rest n
        (s\<lparr>world := wc, trace := trace s @
           [Called ''transformService.transformExternalCourseData'' [x],
            Called ''courseRepo.findOne'' [where_identifier (field_of c ''identifier'')],
            Called ''courseRepo.update''
              [JObj [(''identifier'', field_of c ''identifier'')],
               JObj (AList.update ''updated_at'' (JDate (Date_now env wb)) c)],
            Logged ERROR ''Failed to save course data'' (Some e)
              [(''identifier'', field_of c ''identifier'')],
            Logged ERROR ''Failed to process course data'' (Some e) [(''identifier'',
                ident)]]\<rparr>))"
  "(transformExternalCourseData env x (world s) = (Inr c, wa)
      \<and> courseRepo_findOne env (field_of c ''identifier'') wa = (Inr None, wb)
      \<and> courseRepo_save env c wb = (Inr (), wc) \<longrightarrow>
    course_loop env (x # rest) n s =
      course_loop env rest (n + 1)
        (s\<lparr>world := wc, trace := trace s @
           [Called ''transformService.transformExternalCourseData'' [x],
            Called ''courseRepo.findOne'' [where_identifier (field_of c ''identifier'')],
            Called ''courseRepo.save'' [JObj c],
            Logged DEBUG ''Created new course'' None
              [(''identifier'', field_of c ''identifier'')]]\<rparr>))"
  "(transformExternalCourseData env x (world s) = (Inr c, wa)
      \<and> courseRepo_findOne env (field_of c ''identifier'') wa = (Inr (Some row), wb)
      \<and> courseRepo_update env (field_of c ''identifier'')
           (AList.update ''updated_at'' (JDate (Date_now env wb)) c) wb = (Inr (), wc)
               \<longrightarrow>
    course_loop env (x # rest) n s =
      course_loop env rest (n + 1)
        (s\<lparr>world := wc, trace := trace s @
           [Called ''transformService.transformExternalCourseData'' [x],
            Called ''courseRepo.findOne'' [where_identifier (field_of c ''identifier'')],
            Called ''courseRepo.update''
              [JObj [(''identifier'', field_of c ''identifier'')],
               JObj (AList.update ''updated_at'' (JDate (Date_now env wb)) c)],
            Logged DEBUG ''Updated existing course'' None
              [(''identifier'', field_of c ''identifier'')]]\<rparr>))"
  by (simp_all add: course_item_def saveCourseData_def prog_defs)

lemma question_set_item_trace:
  "\<exists>t. trace (snd (question_set_item env x s)) =
         trace s @ Called ''transformService.transformQuestionSetData'' [x] # t
       \<and> list_all (calm ''Failed to process question set data''
                     ''transformService.transformQuestionSetData'') t"
proof -
  obtain r w where tr: "transformQuestionSetData env x (world s) = (r, w)"
    by (cases "transformQuestionSetData env x (world s)")
  show ?thesis
  proof (cases r)
    case (Inl e)
    then show ?thesis using tr by (simp add: question_set_item_def bindE_def ext_def)
  next
    case (Inr c)
    let ?s1 = "s\<lparr>world := w, trace := trace s @
                 [Called ''transformService.transformQuestionSetData'' [x]]\<rparr>"
    from saveQuestionSetData_calm [of env c] obtain t
      where "trace (snd (saveQuestionSetData env c ?s1)) = trace ?s1 @ t"
        "list_all (calm ''Failed to process question set data''
                     ''transformService.transformQuestionSetData'') t"
      unfolding adds_def by blast
    then show ?thesis using tr Inr by (simp add: question_set_item_def bindE_def ext_def)
  qed
qed

lemma question_set_loop_trace:
  assumes "list_all (\<lambda>x. \<not> nullish x) items"
  shows "\<exists>k t. fst (question_set_loop env items n s) = Inr k
       \<and> trace (snd (question_set_loop env items n s)) = trace s @ t
       \<and> k + length (filter (is_item_failure ''Failed to process question set data'') t) = n
           + length items
       \<and> filter (is_call ''transformService.transformQuestionSetData'') t =
           map (\<lambda>x. Called ''transformService.transformQuestionSetData'' [x]) items
       \<and> (\<forall>ev \<in> set (filter (is_item_failure
           ''Failed to process question set data'') t).
            \<exists>x \<in> set items. \<exists>e ident. get_prop x ''identifier'' = Inr ident
              \<and> ev = Logged ERROR ''Failed to process question set data'' (Some e)
                  [(''identifier'', ident)])"
  using assms
proof (induction items arbitrary: n s)
  case Nil
  show ?case by simp
next
  case (Cons x xs)
  from Cons.prems have nx: "\<not> nullish x" and rest: "list_all (\<lambda>x. \<not> nullish x)
      xs"
    by simp_all
  from nx obtain ident where ident: "get_prop x ''identifier'' = Inr ident"
    by (cases x) simp_all
  obtain r s1 where step: "question_set_item env x s = (r, s1)" by (cases "question_set_item env x
      s")
  from question_set_item_trace [of env x s] step obtain t1 where
    t1: "trace s1 = trace s @ Called ''transformService.transformQuestionSetData'' [x] # t1"
    and c1: "list_all (calm ''Failed to process question set data''
                     ''transformService.transformQuestionSetData'') t1"
    by auto
  note f1 = calm_filters [OF c1]
  show ?case
  proof (cases r)
    case (Inr u)
    from Cons.IH [OF rest, of "n + 1" s1] obtain k t2 where
      "fst (question_set_loop env xs (n + 1) s1) = Inr k"
      "trace (snd (question_set_loop env xs (n + 1) s1)) = trace s1 @ t2"
      "k + length (filter (is_item_failure ''Failed to process question set data'') t2) = n + 1 +
          length xs"
      "filter (is_call ''transformService.transformQuestionSetData'') t2 =
           map (\<lambda>x. Called ''transformService.transformQuestionSetData'' [x]) xs"
      "\<forall>ev \<in> set (filter (is_item_failure ''Failed to process question set data'')
          t2).
            \<exists>x \<in> set xs. \<exists>e ident. get_prop x ''identifier'' = Inr ident
              \<and> ev = Logged ERROR ''Failed to process question set data'' (Some e)
                  [(''identifier'', ident)]"
      by blast
    then show ?thesis using step Inr t1 f1
      by (intro exI [of _ k] exI [of _ "Called ''transformService.transformQuestionSetData'' [x] #
          t1 @ t2"])
        (auto simp: filter_empty_conv)
  next
    case (Inl e)
    let ?s2 = "s1\<lparr>trace := trace s1 @
                 [Logged ERROR ''Failed to process question set data'' (Some e) [(''identifier'',
                     ident)]]\<rparr>"
    from Cons.IH [OF rest, of n ?s2] obtain k t2 where
      "fst (question_set_loop env xs n ?s2) = Inr k"
      "trace (snd (question_set_loop env xs n ?s2)) = trace ?s2 @ t2"
      "k + length (filter (is_item_failure ''Failed to process question set data'') t2) = n +
          length xs"
      "filter (is_call ''transformService.transformQuestionSetData'') t2 =
           map (\<lambda>x. Called ''transformService.transformQuestionSetData'' [x]) xs"
      "\<forall>ev \<in> set (filter (is_item_failure ''Failed to process question set data'')
          t2).
            \<exists>x \<in> set xs. \<exists>e ident. get_prop x ''identifier'' = Inr ident
              \<and> ev = Logged ERROR ''Failed to process question set data'' (Some e)
                  [(''identifier'', ident)]"
      by blast
    then show ?thesis using step Inl t1 f1 ident
      by (intro exI [of _ k] exI [of _ "Called ''transformService.transformQuestionSetData'' [x] #
          t1 @
             Logged ERROR ''Failed to process question set data'' (Some e) [(''identifier'',
                 ident)] # t2"])
        (auto simp: logger_def filter_empty_conv)
  qed
qed

lemma processQuestionSetData_batch:
  assumes "fetchQuestionSetData env (world s) = (Inr r, w)" and "available_items r = Some items"
    and "list_all (\<lambda>x. \<not> nullish x) items"
  shows "\<exists>k d. fst (processQuestionSetData env s) = Inr \<lparr>totalProcessed = k,
      duration = d\<rparr>
         \<and> k + length (filter (is_item_failure ''Failed to process question set data'')
                          (new_events s (snd (processQuestionSetData env s)))) = length items
         \<and> filter (is_call ''transformService.transformQuestionSetData'')
              (new_events s (snd (processQuestionSetData env s))) =
            map (\<lambda>x. Called ''transformService.transformQuestionSetData'' [x]) items
         \<and> (\<forall>ev \<in> set (filter (is_item_failure
             ''Failed to process question set data'')
                             (new_events s (snd (processQuestionSetData env s)))).
              \<exists>x \<in> set items. \<exists>e ident. get_prop x ''identifier'' = Inr ident
                \<and> ev = Logged ERROR ''Failed to process question set data'' (Some e)
                    [(''identifier'', ident)])"
proof -
  let ?s1 = "s\<lparr>world := w, trace := trace s @
               [Logged INFO ''Fetching question set data from Pratham Digital API'' None [],
                Called ''externalApiService.fetchQuestionSetData'' [],
                Logged INFO (''Processing '' @ show_nat (length items) @ '' question sets'') None
                    []]\<rparr>"
  obtain rl s2 where loop: "question_set_loop env items 0 ?s1 = (rl, s2)"
    by (cases "question_set_loop env items 0 ?s1")
  from question_set_loop_trace [OF assms(3), of env 0 ?s1] loop obtain k t where
    k: "rl = Inr k"
    and t: "trace s2 = trace ?s1 @ t"
    and cnt: "k + length (filter (is_item_failure ''Failed to process question set data'') t)
               = length items"
    and calls: "filter (is_call ''transformService.transformQuestionSetData'') t =
           map (\<lambda>x. Called ''transformService.transformQuestionSetData'' [x]) items"
    and ids: "\<forall>ev \<in> set (filter (is_item_failure
        ''Failed to process question set data'') t).
            \<exists>x \<in> set items. \<exists>e ident. get_prop x ''identifier'' = Inr ident
              \<and> ev = Logged ERROR ''Failed to process question set data'' (Some e)
                  [(''identifier'', ident)]"
    by auto
  have run: "processQuestionSetData env s =
      (Inr \<lparr>totalProcessed = k,
            duration = int (Date_now env (world s2)) - int (Date_now env (world s))\<rparr>,
       s2\<lparr>trace := trace s2 @
            [Logged INFO (''Successfully processed '' @ show_nat k @ '' question sets'') None
                []]\<rparr>)"
    using assms(1,2) loop k by (simp add: processQuestionSetData_def prog_defs)
  show ?thesis
    using run t cnt calls ids by (simp add: new_events_def)
qed

lemma processQuestionSetData_returns:
  assumes "fst (fetchQuestionSetData env (world s)) = Inr r"
    and "\<forall>items. available_items r = Some items \<longrightarrow> list_all (\<lambda>x.
        \<not> nullish x) items"
  shows "\<exists>p. fst (processQuestionSetData env s) = Inr p"
proof -
  obtain w where f: "fetchQuestionSetData env (world s) = (Inr r, w)"
    using assms(1) by (cases "fetchQuestionSetData env (world s)") simp
  show ?thesis
  proof (cases "available_items r")
    case None
    then show ?thesis using f by (simp add: processQuestionSetData_def prog_defs)
  next
    case (Some items)
    with assms(2) have "list_all (\<lambda>x. \<not> nullish x) items" by blast
    from processQuestionSetData_batch [OF f Some this] show ?thesis by blast
  qed
qed

lemma question_set_step:
  "(transformQuestionSetData env x (world s) = (Inl e, wa)
      \<and> get_prop x ''identifier'' = Inr ident \<longrightarrow>
    question_set_loop env (x # rest) n s =
      question_set_loop env rest n
        (s\<lparr>world := wa, trace := trace s @
           [Called ''transformService.transformQuestionSetData'' [x],
            Logged ERROR ''Failed to process question set data'' (Some e) [(''identifier'',
                ident)]]\<rparr>))"
  "(transformQuestionSetData env x (world s) = (Inr c, wa)
      \<and> questionSetRepo_findOne env (field_of c ''identifier'') wa = (Inl e, wb)
      \<and> get_prop x ''identifier'' = Inr ident \<longrightarrow>
    question_set_loop env (x # rest) n s =
      question_set_loop env rest n
        (s\<lparr>world := wb, trace := trace s @
           [Called ''transformService.transformQuestionSetData'' [x],
            Called ''questionSetRepo.findOne'' [where_identifier (field_of c ''identifier'')],
            Logged ERROR ''Failed to save question set data'' (Some e)
              [(''identifier'', field_of c ''identifier'')],
            Logged ERROR ''Failed to process question set data'' (Some e) [(''identifier'',
                ident)]]\<rparr>))"
  "(transformQuestionSetData env x (world s) = (Inr c, wa)
      \<and> questionSetRepo_findOne env (field_of c ''identifier'') wa = (Inr None, wb)
      \<and> questionSetRepo_save env c wb = (Inl e, wc)
      \<and> get_prop x ''identifier'' = Inr ident \<longrightarrow>
    question_set_loop env (x # rest) n s =
      question_set_loop env rest n
        (s\<lparr>world := wc, trace := trace s @
           [Called ''transformService.transformQuestionSetData'' [x],
            Called ''questionSetRepo.findOne'' [where_identifier (field_of c ''identifier'')],
            Called ''questionSetRepo.save'' [JObj c],
            Logged ERROR ''Failed to save question set data'' (Some e)
              [(''identifier'', field_of c ''identifier'')],
            Logged ERROR ''Failed to process question set data'' (Some e) [(''identifier'',
                ident)]]\<rparr>))"
  "(transformQuestionSetData env x (world s) = (Inr c, wa)
      \<and> questionSetRepo_findOne env (field_of c ''identifier'') wa = (Inr (Some row), wb)
      \<and> questionSetRepo_update env (field_of c ''identifier'')
           (AList.update ''updated_at'' (JDate (Date_now env wb)) c) wb = (Inl e, wc)
      \<and> get_prop x ''identifier'' = Inr ident \<longrightarrow>
    question_set_loop env (x # rest) n s =
      question_set_loop env rest n
        (s\<lparr>world := wc, trace := trace s @
           [Called ''transformService.transformQuestionSetData'' [x],
            Called ''questionSetRepo.findOne'' [where_identifier (field_of c ''identifier'')],
            Called ''questionSetRepo.update''
              [JObj [(''identifier'', field_of c ''identifier'')],
               JObj (AList.update ''updated_at'' (JDate (Date_now env wb)) c)],
            Logged ERROR ''Failed to save question set data'' (Some e)
              [(''identifier'', field_of c ''identifier'')],
            Logged ERROR ''Failed to process question set data'' (Some e) [(''identifier'',
                ident)]]\<rparr>))"
  "(transformQuestionSetData env x (world s) = (Inr c, wa)
      \<and> questionSetRepo_findOne env (field_of c ''identifier'') wa = (Inr None, wb)
      \<and> questionSetRepo_save env c wb = (Inr (), wc) \<longrightarrow>
    question_set_loop env (x # rest) n s =
      question_set_loop env rest (n + 1)
        (s\<lparr>world := wc, trace := trace s @
           [Called ''transformService.transformQuestionSetData'' [x],
            Called ''questionSetRepo.findOne'' [where_identifier (field_of c ''identifier'')],
            Called ''questionSetRepo.save'' [JObj c],
            Logged DEBUG ''Created new question set'' None
              [(''identifier'', field_of c ''identifier'')]]\<rparr>))"
  "(transformQuestionSetData env x (world s) = (Inr c, wa)
      \<and> questionSetRepo_findOne env (field_of c ''identifier'') wa = (Inr (Some row), wb)
      \<and> questionSetRepo_update env (field_of c ''identifier'')
           (AList.update ''updated_at'' (JDate (Date_now env wb)) c) wb = (Inr (), wc)
               \<longrightarrow>
    question_set_loop env (x # rest) n s =
      question_set_loop env rest (n + 1)
        (s\<lparr>world := wc, trace := trace s @
           [Called ''transformService.transformQuestionSetData'' [x],
            Called ''questionSetRepo.findOne'' [where_identifier (field_of c ''identifier'')],
            Called ''questionSetRepo.update''
              [JObj [(''identifier'', field_of c ''identifier'')],
               JObj (AList.update ''updated_at'' (JDate (Date_now env wb)) c)],
            Logged DEBUG ''Updated existing question set'' None
              [(''identifier'', field_of c ''identifier'')]]\<rparr>))"
  by (simp_all add: question_set_item_def saveQuestionSetData_def prog_defs)

lemma run_succeeds:
  assumes idle: "\<not> isRunning (jobStatus s)"
    and c: "\<forall>w. \<exists>r. fst (fetchCourseData env w) = Inr r
              \<and> (\<forall>items. available_items r = Some items \<longrightarrow>
                    list_all (\<lambda>x. \<not> nullish x) items)"
    and q: "\<forall>w. \<exists>r. fst (fetchQuestionSetData env w) = Inr r
              \<and> (\<forall>items. available_items r = Some items \<longrightarrow>
                    list_all (\<lambda>x. \<not> nullish x) items)"
  shows "\<exists>t. jobStatus (snd (executeCronJob env s)) =
              after_success (Date_now env (world s)) t (jobStatus s)"
proof -
  define j0 where "j0 = start_run (Date_now env (world s)) (jobStatus s)"
  define s0 where "s0 = s\<lparr>jobStatus := j0\<rparr>"
  define s1 where "s1 = snd (logger INFO ''Starting daily cron job execution'' None
                            (execution_meta (jobStatus s0)
                               @ [(''timestamp'',
                                   case lastExecution (jobStatus s0) of
                                     None \<Rightarrow> JUndefined | Some t \<Rightarrow> JDate
                                         t)]) s0)"
  obtain r2 s2 where c2: "processCourseData env s1 = (r2, s2)"
    by (cases "processCourseData env s1")
  obtain r3 s3 where q3: "processQuestionSetData env s2 = (r3, s3)"
    by (cases "processQuestionSetData env s2")
  from c obtain rc where "fst (fetchCourseData env (world s1)) = Inr rc"
    "\<forall>items. available_items rc = Some items \<longrightarrow> list_all (\<lambda>x.
        \<not> nullish x) items"
    by blast
  from processCourseData_returns [OF this] c2 obtain a where a: "r2 = Inr a" by auto
  from q obtain rq where "fst (fetchQuestionSetData env (world s2)) = Inr rq"
    "\<forall>items. available_items rq = Some items \<longrightarrow> list_all (\<lambda>x.
        \<not> nullish x) items"
    by blast
  from processQuestionSetData_returns [OF this] q3 obtain b where b: "r3 = Inr b" by auto
  have j1: "jobStatus s1 = j0" by (simp add: s1_def s0_def logger_def)
  have j2: "jobStatus s2 = j0" using processCourseData_status [of env s1] c2 j1 by simp
  have j3: "jobStatus s3 = j0" using processQuestionSetData_status [of env s2] q3 j2 by simp
  have "jobStatus (snd (executeCronJob env s)) =
          release (record_success (Date_now env (world s3)) j0)"
    using idle c2 q3 a b j3
    by (simp add: executeCronJob_def prog_defs s1_def s0_def j0_def)
  then show ?thesis by (auto simp: after_success_def j0_def)
qed

lemma run_counters:
  "\<not> isRunning (jobStatus s)
        \<and> (\<forall>w. \<exists>r. fst (fetchCourseData env w) = Inr r
              \<and> (\<forall>items. available_items r = Some items \<longrightarrow>
                    list_all (\<lambda>x. \<not> nullish x) items))
        \<and> (\<forall>w. \<exists>r. fst (fetchQuestionSetData env w) = Inr r
              \<and> (\<forall>items. available_items r = Some items \<longrightarrow>
                    list_all (\<lambda>x. \<not> nullish x) items)) \<longrightarrow>
      successfulExecutions (jobStatus (snd (executeCronJob env s))) =
        successfulExecutions (jobStatus s) + 1
      \<and> failedExecutions (jobStatus (snd (executeCronJob env s))) =
        failedExecutions (jobStatus s)
      \<and> lastError (jobStatus (snd (executeCronJob env s))) = None"
proof
  assume h: "\<not> isRunning (jobStatus s)
        \<and> (\<forall>w. \<exists>r. fst (fetchCourseData env w) = Inr r
              \<and> (\<forall>items. available_items r = Some items \<longrightarrow>
                    list_all (\<lambda>x. \<not> nullish x) items))
        \<and> (\<forall>w. \<exists>r. fst (fetchQuestionSetData env w) = Inr r
              \<and> (\<forall>items. available_items r = Some items \<longrightarrow>
                    list_all (\<lambda>x. \<not> nullish x) items))"
  from h run_succeeds [of s env] obtain t where
    t: "jobStatus (snd (executeCronJob env s)) =
          after_success (Date_now env (world s)) t (jobStatus s)"
    by blast
  show "successfulExecutions (jobStatus (snd (executeCronJob env s))) =
        successfulExecutions (jobStatus s) + 1
      \<and> failedExecutions (jobStatus (snd (executeCronJob env s))) =
        failedExecutions (jobStatus s)
      \<and> lastError (jobStatus (snd (executeCronJob env s))) = None"
    by (simp add: t after_success_def release_def record_success_def start_run_def)
qed

lemma processCourseData_isolates:
  "(fetchCourseData env (world s) = (Inr r, w) \<and> available_items r = Some items
      \<and> list_all (\<lambda>x. \<not> nullish x) items \<longrightarrow>
      (\<exists>k d. fst (processCourseData env s) = Inr \<lparr>totalProcessed = k, duration =
          d\<rparr>
         \<and> k + length (filter (is_item_failure ''Failed to process course data'')
                          (new_events s (snd (processCourseData env s)))) = length items
         \<and> filter (is_call ''transformService.transformExternalCourseData'')
              (new_events s (snd (processCourseData env s))) =
            map (\<lambda>x. Called ''transformService.transformExternalCourseData'' [x]) items
         \<and> (\<forall>ev \<in> set (filter (is_item_failure ''Failed to process course data'')
                             (new_events s (snd (processCourseData env s)))).
              \<exists>x \<in> set items. \<exists>e ident. get_prop x ''identifier'' = Inr ident
                \<and> ev = Logged ERROR ''Failed to process course data'' (Some e)
                    [(''identifier'', ident)])))"
  using processCourseData_batch [of env s r w items] by blast

lemma processQuestionSetData_isolates:
  "(fetchQuestionSetData env (world s) = (Inr r, w) \<and> available_items r = Some items
      \<and> list_all (\<lambda>x. \<not> nullish x) items \<longrightarrow>
      (\<exists>k d. fst (processQuestionSetData env s) = Inr \<lparr>totalProcessed = k, duration
          = d\<rparr>
         \<and> k + length (filter (is_item_failure ''Failed to process question set data'')
                          (new_events s (snd (processQuestionSetData env s)))) = length items
         \<and> filter (is_call ''transformService.transformQuestionSetData'')
              (new_events s (snd (processQuestionSetData env s))) =
            map (\<lambda>x. Called ''transformService.transformQuestionSetData'' [x]) items
         \<and> (\<forall>ev \<in> set (filter (is_item_failure
             ''Failed to process question set data'')
                             (new_events s (snd (processQuestionSetData env s)))).
              \<exists>x \<in> set items. \<exists>e ident. get_prop x ''identifier'' = Inr ident
                \<and> ev = Logged ERROR ''Failed to process question set data'' (Some e)
                    [(''identifier'', ident)])))"
  using processQuestionSetData_batch [of env s r w items] by blast

lemmas mem_defs = mem_env_def mem_guard_def mem_transform_def mem_start_def mem_stored_def
  mem_failing_def course_a_def course_b_def course_c_def question_set_a_def question_set_b_def
  field_of_def

text \<open>
  C6, as amended. One step of the batch loop, in terms of what the collaborators do with
  the item \<open>x\<close>, whose \<open>identifier\<close> can be read (\<open>x\<close> is neither \<open>null\<close> nor
  \<open>undefined\<close>). If the transformation throws, or the lookup, the insert or the update
  of the save throws, then the item is not counted, the trace gets the error line
  \<open>Failed to process ...\<close> with the error thrown and the identifier of the item (after
  the line \<open>Failed to save ...\<close> when the save failed), and the loop goes on with the
  remaining items. If the transformation and the save go through, the item is counted
  and the loop goes on. This holds for the courses and for the question sets.
  Hence, in a sub-pull whose fetch returned items none of which is \<open>null\<close> or
  \<open>undefined\<close>: the sub-pull returns normally, every item of the batch is handed to the
  transformation in order, \<open>totalProcessed\<close> counts the items that went through, and
  every other item has left one error line that carries the identifier of an item of the
  batch. A run of the job whose two fetches answer with such batches is recorded as a
  success. In the witness each of the four failures and the two successes is run on one
  item, and the batch of three courses whose second item fails the transformation gives
  \<open>totalProcessed = 2\<close>.
\<close>

theorem batch_isolates_item_failures:
  "(transformExternalCourseData env x (world s) = (Inl e, wa)
      \<and> get_prop x ''identifier'' = Inr ident \<longrightarrow>
    course_loop env (x # rest) n s =
      course_loop env rest n
        (s\<lparr>world := wa, trace := trace s @
           [Called ''transformService.transformExternalCourseData'' [x],
            Logged ERROR ''Failed to process course data'' (Some e) [(''identifier'', ident)]]\<rparr>))
   \<and> (transformExternalCourseData env x (world s) = (Inr c, wa)
      \<and> courseRepo_findOne env (field_of c ''identifier'') wa = (Inl e, wb)
      \<and> get_prop x ''identifier'' = Inr ident \<longrightarrow>
    course_loop env (x # rest) n s =
      course_loop env rest n
        (s\<lparr>world := wb, trace := trace s @
           [Called ''transformService.transformExternalCourseData'' [x],
            Called ''courseRepo.findOne'' [where_identifier (field_of c ''identifier'')],
            Logged ERROR ''Failed to save course data'' (Some e)
              [(''identifier'', field_of c ''identifier'')],
            Logged ERROR ''Failed to process course data'' (Some e) [(''identifier'', ident)]]\<rparr>))
   \<and> (transformExternalCourseData env x (world s) = (Inr c, wa)
      \<and> courseRepo_findOne env (field_of c ''identifier'') wa = (Inr None, wb)
      \<and> courseRepo_save env c wb = (Inl e, wc)
      \<and> get_prop x ''identifier'' = Inr ident \<longrightarrow>
    course_loop env (x # rest) n s =
      course_loop env rest n
        (s\<lparr>world := wc, trace := trace s @
           [Called ''transformService.transformExternalCourseData'' [x],
            Called ''courseRepo.findOne'' [where_identifier (field_of c ''identifier'')],
            Called ''courseRepo.save'' [JObj c],
            Logged ERROR ''Failed to save course data'' (Some e)
              [(''identifier'', field_of c ''identifier'')],
            Logged ERROR ''Failed to process course data'' (Some e) [(''identifier'', ident)]]\<rparr>))
   \<and> (transformExternalCourseData env x (world s) = (Inr c, wa)
      \<and> courseRepo_findOne env (field_of c ''identifier'') wa = (Inr (Some row), wb)
      \<and> courseRepo_update env (field_of c ''identifier'')
           (AList.update ''updated_at'' (JDate (Date_now env wb)) c) wb = (Inl e, wc)
      \<and> get_prop x ''identifier'' = Inr ident \<longrightarrow>
    course_loop env (x # rest) n s =
      course_loop env rest n
        (s\<lparr>world := wc, trace := trace s @
           [Called ''transformService.transformExternalCourseData'' [x],
            Called ''courseRepo.findOne'' [where_identifier (field_of c ''identifier'')],
            Called ''courseRepo.update''
              [JObj [(''identifier'', field_of c ''identifier'')],
               JObj (AList.update ''updated_at'' (JDate (Date_now env wb)) c)],
            Logged ERROR ''Failed to save course data'' (Some e)
              [(''identifier'', field_of c ''identifier'')],
            Logged ERROR ''Failed to process course data'' (Some e) [(''identifier'', ident)]]\<rparr>))
   \<and> (transformExternalCourseData env x (world s) = (Inr c, wa)
      \<and> courseRepo_findOne env (field_of c ''identifier'') wa = (Inr None, wb)
      \<and> courseRepo_save env c wb = (Inr (), wc) \<longrightarrow>
    course_loop env (x # rest) n s =
      course_loop env rest (n + 1)
        (s\<lparr>world := wc, trace := trace s @
           [Called ''transformService.transformExternalCourseData'' [x],
            Called ''courseRepo.findOne'' [where_identifier (field_of c ''identifier'')],
            Called ''courseRepo.save'' [JObj c],
            Logged DEBUG ''Created new course'' None
              [(''identifier'', field_of c ''identifier'')]]\<rparr>))
   \<and> (transformExternalCourseData env x (world s) = (Inr c, wa)
      \<and> courseRepo_findOne env (field_of c ''identifier'') wa = (Inr (Some row), wb)
      \<and> courseRepo_update env (field_of c ''identifier'')
           (AList.update ''updated_at'' (JDate (Date_now env wb)) c) wb = (Inr (), wc) \<longrightarrow>
    course_loop env (x # rest) n s =
      course_loop env rest (n + 1)
        (s\<lparr>world := wc, trace := trace s @
           [Called ''transformService.transformExternalCourseData'' [x],
            Called ''courseRepo.findOne'' [where_identifier (field_of c ''identifier'')],
            Called ''courseRepo.update''
              [JObj [(''identifier'', field_of c ''identifier'')],
               JObj (AList.update ''updated_at'' (JDate (Date_now env wb)) c)],
            Logged DEBUG ''Updated existing course'' None
              [(''identifier'', field_of c ''identifier'')]]\<rparr>))
   \<and> (transformQuestionSetData env x (world s) = (Inl e, wa)
      \<and> get_prop x ''identifier'' = Inr ident \<longrightarrow>
    question_set_loop env (x # rest) n s =
      question_set_loop env rest n
        (s\<lparr>world := wa, trace := trace s @
           [Called ''transformService.transformQuestionSetData'' [x],
            Logged ERROR ''Failed to process question set data'' (Some e) [(''identifier'', ident)]]\<rparr>))
   \<and> (transformQuestionSetData env x (world s) = (Inr c, wa)
      \<and> questionSetRepo_findOne env (field_of c ''identifier'') wa = (Inl e, wb)
      \<and> get_prop x ''identifier'' = Inr ident \<longrightarrow>
    question_set_loop env (x # rest) n s =
      question_set_loop env rest n
        (s\<lparr>world := wb, trace := trace s @
           [Called ''transformService.transformQuestionSetData'' [x],
            Called ''questionSetRepo.findOne'' [where_identifier (field_of c ''identifier'')],
            Logged ERROR ''Failed to save question set data'' (Some e)
              [(''identifier'', field_of c ''identifier'')],
            Logged ERROR ''Failed to process question set data'' (Some e) [(''identifier'', ident)]]\<rparr>))
   \<and> (transformQuestionSetData env x (world s) = (Inr c, wa)
      \<and> questionSetRepo_findOne env (field_of c ''identifier'') wa = (Inr None, wb)
      \<and> questionSetRepo_save env c wb = (Inl e, wc)
      \<and> get_prop x ''identifier'' = Inr ident \<longrightarrow>
    question_set_loop env (x # rest) n s =
      question_set_loop env rest n
        (s\<lparr>world := wc, trace := trace s @
           [Called ''transformService.transformQuestionSetData'' [x],
            Called ''questionSetRepo.findOne'' [where_identifier (field_of c ''identifier'')],
            Called ''questionSetRepo.save'' [JObj c],
            Logged ERROR ''Failed to save question set data'' (Some e)
              [(''identifier'', field_of c ''identifier'')],
            Logged ERROR ''Failed to process question set data'' (Some e) [(''identifier'', ident)]]\<rparr>))
   \<and> (transformQuestionSetData env x (world s) = (Inr c, wa)
      \<and> questionSetRepo_findOne env (field_of c ''identifier'') wa = (Inr (Some row), wb)
      \<and> questionSetRepo_update env (field_of c ''identifier'')
           (AList.update ''updated_at'' (JDate (Date_now env wb)) c) wb = (Inl e, wc)
      \<and> get_prop x ''identifier'' = Inr ident \<longrightarrow>
    question_set_loop env (x # rest) n s =
      question_set_loop env rest n
        (s\<lparr>world := wc, trace := trace s @
           [Called ''transformService.transformQuestionSetData'' [x],
            Called ''questionSetRepo.findOne'' [where_identifier (field_of c ''identifier'')],
            Called ''questionSetRepo.update''
              [JObj [(''identifier'', field_of c ''identifier'')],
               JObj (AList.update ''updated_at'' (JDate (Date_now env wb)) c)],
            Logged ERROR ''Failed to save question set data'' (Some e)
              [(''identifier'', field_of c ''identifier'')],
            Logged ERROR ''Failed to process question set data'' (Some e) [(''identifier'', ident)]]\<rparr>))
   \<and> (transformQuestionSetData env x (world s) = (Inr c, wa)
      \<and> questionSetRepo_findOne env (field_of c ''identifier'') wa = (Inr None, wb)
      \<and> questionSetRepo_save env c wb = (Inr (), wc) \<longrightarrow>
    question_set_loop env (x # rest) n s =
      question_set_loop env rest (n + 1)
        (s\<lparr>world := wc, trace := trace s @
           [Called ''transformService.transformQuestionSetData'' [x],
            Called ''questionSetRepo.findOne'' [where_identifier (field_of c ''identifier'')],
            Called ''questionSetRepo.save'' [JObj c],
            Logged DEBUG ''Created new question set'' None
              [(''identifier'', field_of c ''identifier'')]]\<rparr>))
   \<and> (transformQuestionSetData env x (world s) = (Inr c, wa)
      \<and> questionSetRepo_findOne env (field_of c ''identifier'') wa = (Inr (Some row), wb)
      \<and> questionSetRepo_update env (field_of c ''identifier'')
           (AList.update ''updated_at'' (JDate (Date_now env wb)) c) wb = (Inr (), wc) \<longrightarrow>
    question_set_loop env (x # rest) n s =
      question_set_loop env rest (n + 1)
        (s\<lparr>world := wc, trace := trace s @
           [Called ''transformService.transformQuestionSetData'' [x],
            Called ''questionSetRepo.findOne'' [where_identifier (field_of c ''identifier'')],
            Called ''questionSetRepo.update''
              [JObj [(''identifier'', field_of c ''identifier'')],
               JObj (AList.update ''updated_at'' (JDate (Date_now env wb)) c)],
            Logged DEBUG ''Updated existing question set'' None
              [(''identifier'', field_of c ''identifier'')]]\<rparr>))
   \<and> (fetchCourseData env (world s) = (Inr r, w) \<and> available_items r = Some items
      \<and> list_all (\<lambda>x. \<not> nullish x) items \<longrightarrow>
      (\<exists>k d. fst (processCourseData env s) = Inr \<lparr>totalProcessed = k, duration = d\<rparr>
         \<and> k + length (filter (is_item_failure ''Failed to process course data'')
                          (new_events s (snd (processCourseData env s)))) = length items
         \<and> filter (is_call ''transformService.transformExternalCourseData'')
              (new_events s (snd (processCourseData env s))) =
            map (\<lambda>x. Called ''transformService.transformExternalCourseData'' [x]) items
         \<and> (\<forall>ev \<in> set (filter (is_item_failure ''Failed to process course data'')
                             (new_events s (snd (processCourseData env s)))).
              \<exists>x \<in> set items. \<exists>e ident. get_prop x ''identifier'' = Inr ident
                \<and> ev = Logged ERROR ''Failed to process course data'' (Some e) [(''identifier'', ident)])))
   \<and> (fetchQuestionSetData env (world s) = (Inr r, w) \<and> available_items r = Some items
      \<and> list_all (\<lambda>x. \<not> nullish x) items \<longrightarrow>
      (\<exists>k d. fst (processQuestionSetData env s) = Inr \<lparr>totalProcessed = k, duration = d\<rparr>
         \<and> k + length (filter (is_item_failure ''Failed to process question set data'')
                          (new_events s (snd (processQuestionSetData env s)))) = length items
         \<and> filter (is_call ''transformService.transformQuestionSetData'')
              (new_events s (snd (processQuestionSetData env s))) =
            map (\<lambda>x. Called ''transformService.transformQuestionSetData'' [x]) items
         \<and> (\<forall>ev \<in> set (filter (is_item_failure ''Failed to process question set data'')
                             (new_events s (snd (processQuestionSetData env s)))).
              \<exists>x \<in> set items. \<exists>e ident. get_prop x ''identifier'' = Inr ident
                \<and> ev = Logged ERROR ''Failed to process question set data'' (Some e) [(''identifier'', ident)])))
   \<and> (\<not> isRunning (jobStatus s)
        \<and> (\<forall>w. \<exists>r. fst (fetchCourseData env w) = Inr r
              \<and> (\<forall>items. available_items r = Some items \<longrightarrow>
                    list_all (\<lambda>x. \<not> nullish x) items))
        \<and> (\<forall>w. \<exists>r. fst (fetchQuestionSetData env w) = Inr r
              \<and> (\<forall>items. available_items r = Some items \<longrightarrow>
                    list_all (\<lambda>x. \<not> nullish x) items)) \<longrightarrow>
      successfulExecutions (jobStatus (snd (executeCronJob env s))) =
        successfulExecutions (jobStatus s) + 1
      \<and> failedExecutions (jobStatus (snd (executeCronJob env s))) =
        failedExecutions (jobStatus s)
      \<and> lastError (jobStatus (snd (executeCronJob env s))) = None)"
  by (intro conjI course_step question_set_step processCourseData_isolates
        processQuestionSetData_isolates run_counters)

theorem batch_isolates_item_failures_witness:
  "transformExternalCourseData mem_env (JObj course_b) (world mem_start) = (Inl (Exn ErrorC
      ''name is missing''), world mem_start)
   \<and> fst (course_loop mem_env [JObj course_b] 0 mem_start) = Inr 0
   \<and> new_events mem_start (snd (course_loop mem_env [JObj course_b] 0 mem_start)) =
      [Called ''transformService.transformExternalCourseData'' [JObj course_b],
       Logged ERROR ''Failed to process course data'' (Some (Exn ErrorC ''name is missing''))
           [(''identifier'', JStr ''do_2'')]]
   \<and> courseRepo_findOne mem_env (field_of course_a ''identifier'') (world (mem_failing
       ''courseRepo.findOne'' mem_start)) = (Inl (Exn ErrorC ''connection lost''), world
       (mem_failing ''courseRepo.findOne'' mem_start))
   \<and> fst (course_loop mem_env [JObj course_a] 0 (mem_failing ''courseRepo.findOne''
       mem_start)) = Inr 0
   \<and> new_events (mem_failing ''courseRepo.findOne'' mem_start) (snd (course_loop mem_env
       [JObj course_a] 0 (mem_failing ''courseRepo.findOne'' mem_start))) =
      [Called ''transformService.transformExternalCourseData'' [JObj course_a],
       Called ''courseRepo.findOne'' [where_identifier (JStr ''do_1'')],
       Logged ERROR ''Failed to save course data'' (Some (Exn ErrorC ''connection lost''))
           [(''identifier'', JStr ''do_1'')],
       Logged ERROR ''Failed to process course data'' (Some (Exn ErrorC ''connection lost''))
           [(''identifier'', JStr ''do_1'')]]
   \<and> courseRepo_save mem_env course_a (world (mem_failing ''courseRepo.save'' mem_start)) =
       (Inl (Exn ErrorC ''connection lost''), world (mem_failing ''courseRepo.save'' mem_start))
   \<and> fst (course_loop mem_env [JObj course_a] 0 (mem_failing ''courseRepo.save'' mem_start))
       = Inr 0
   \<and> new_events (mem_failing ''courseRepo.save'' mem_start) (snd (course_loop mem_env [JObj
       course_a] 0 (mem_failing ''courseRepo.save'' mem_start))) =
      [Called ''transformService.transformExternalCourseData'' [JObj course_a],
       Called ''courseRepo.findOne'' [where_identifier (JStr ''do_1'')],
       Called ''courseRepo.save'' [JObj course_a],
       Logged ERROR ''Failed to save course data'' (Some (Exn ErrorC ''connection lost''))
           [(''identifier'', JStr ''do_1'')],
       Logged ERROR ''Failed to process course data'' (Some (Exn ErrorC ''connection lost''))
           [(''identifier'', JStr ''do_1'')]]
   \<and> courseRepo_update mem_env (field_of course_a ''identifier'')
       (AList.update ''updated_at'' (JDate (Date_now mem_env (world (mem_failing
           ''courseRepo.update'' mem_stored)))) course_a) (world (mem_failing
           ''courseRepo.update'' mem_stored)) = (Inl (Exn ErrorC ''connection lost''), world
           (mem_failing ''courseRepo.update'' mem_stored))
   \<and> fst (course_loop mem_env [JObj course_a] 0 (mem_failing ''courseRepo.update''
       mem_stored)) = Inr 0
   \<and> new_events (mem_failing ''courseRepo.update'' mem_stored) (snd (course_loop mem_env
       [JObj course_a] 0 (mem_failing ''courseRepo.update'' mem_stored))) =
      [Called ''transformService.transformExternalCourseData'' [JObj course_a],
       Called ''courseRepo.findOne'' [where_identifier (JStr ''do_1'')],
       Called ''courseRepo.update''
          [JObj [(''identifier'', JStr ''do_1'')],
           JObj (AList.update ''updated_at'' (JDate 1000) course_a)],
       Logged ERROR ''Failed to save course data'' (Some (Exn ErrorC ''connection lost''))
           [(''identifier'', JStr ''do_1'')],
       Logged ERROR ''Failed to process course data'' (Some (Exn ErrorC ''connection lost''))
           [(''identifier'', JStr ''do_1'')]]
   \<and> courseRepo_save mem_env course_a (world mem_start) =
       (Inr (), (world mem_start)\<lparr>courses := [(JStr ''do_1'', course_a)]\<rparr>)
   \<and> fst (course_loop mem_env [JObj course_a] 0 mem_start) = Inr 1
   \<and> new_events mem_start (snd (course_loop mem_env [JObj course_a] 0 mem_start)) =
      [Called ''transformService.transformExternalCourseData'' [JObj course_a],
       Called ''courseRepo.findOne'' [where_identifier (JStr ''do_1'')],
       Called ''courseRepo.save'' [JObj course_a],
       Logged DEBUG ''Created new course'' None [(''identifier'', JStr ''do_1'')]]
   \<and> courseRepo_update mem_env (field_of course_a ''identifier'')
       (AList.update ''updated_at'' (JDate (Date_now mem_env (world mem_stored))) course_a) (world
           mem_stored) =
       (Inr (), (world mem_stored)\<lparr>courses := [(JStr ''do_1'', AList.update ''updated_at''
           (JDate 1000) course_a)]\<rparr>)
   \<and> fst (course_loop mem_env [JObj course_a] 0 mem_stored) = Inr 1
   \<and> new_events mem_stored (snd (course_loop mem_env [JObj course_a] 0 mem_stored)) =
      [Called ''transformService.transformExternalCourseData'' [JObj course_a],
       Called ''courseRepo.findOne'' [where_identifier (JStr ''do_1'')],
       Called ''courseRepo.update''
          [JObj [(''identifier'', JStr ''do_1'')],
           JObj (AList.update ''updated_at'' (JDate 1000) course_a)],
       Logged DEBUG ''Updated existing course'' None [(''identifier'', JStr ''do_1'')]]
   \<and> transformQuestionSetData mem_env (JObj question_set_a) (world mem_start) = (Inl (Exn
       ErrorC ''name is missing''), world mem_start)
   \<and> fst (question_set_loop mem_env [JObj question_set_a] 0 mem_start) = Inr 0
   \<and> new_events mem_start (snd (question_set_loop mem_env [JObj question_set_a] 0 mem_start))
       =
      [Called ''transformService.transformQuestionSetData'' [JObj question_set_a],
       Logged ERROR ''Failed to process question set data'' (Some (Exn ErrorC
           ''name is missing'')) [(''identifier'', JStr ''qs_1'')]]
   \<and> questionSetRepo_findOne mem_env (field_of question_set_b ''identifier'') (world
       (mem_failing ''questionSetRepo.findOne'' mem_start)) = (Inl (Exn ErrorC
       ''connection lost''), world (mem_failing ''questionSetRepo.findOne'' mem_start))
   \<and> fst (question_set_loop mem_env [JObj question_set_b] 0 (mem_failing
       ''questionSetRepo.findOne'' mem_start)) = Inr 0
   \<and> new_events (mem_failing ''questionSetRepo.findOne'' mem_start) (snd (question_set_loop
       mem_env [JObj question_set_b] 0 (mem_failing ''questionSetRepo.findOne'' mem_start))) =
      [Called ''transformService.transformQuestionSetData'' [JObj question_set_b],
       Called ''questionSetRepo.findOne'' [where_identifier (JStr ''qs_2'')],
       Logged ERROR ''Failed to save question set data'' (Some (Exn ErrorC ''connection lost''))
           [(''identifier'', JStr ''qs_2'')],
       Logged ERROR ''Failed to process question set data'' (Some (Exn ErrorC
           ''connection lost'')) [(''identifier'', JStr ''qs_2'')]]
   \<and> questionSetRepo_save mem_env question_set_b (world (mem_failing ''questionSetRepo.save''
       mem_start)) = (Inl (Exn ErrorC ''connection lost''), world (mem_failing
       ''questionSetRepo.save'' mem_start))
   \<and> fst (question_set_loop mem_env [JObj question_set_b] 0 (mem_failing
       ''questionSetRepo.save'' mem_start)) = Inr 0
   \<and> new_events (mem_failing ''questionSetRepo.save'' mem_start) (snd (question_set_loop
       mem_env [JObj question_set_b] 0 (mem_failing ''questionSetRepo.save'' mem_start))) =
      [Called ''transformService.transformQuestionSetData'' [JObj question_set_b],
       Called ''questionSetRepo.findOne'' [where_identifier (JStr ''qs_2'')],
       Called ''questionSetRepo.save'' [JObj question_set_b],
       Logged ERROR ''Failed to save question set data'' (Some (Exn ErrorC ''connection lost''))
           [(''identifier'', JStr ''qs_2'')],
       Logged ERROR ''Failed to process question set data'' (Some (Exn ErrorC
           ''connection lost'')) [(''identifier'', JStr ''qs_2'')]]
   \<and> questionSetRepo_update mem_env (field_of question_set_b ''identifier'')
       (AList.update ''updated_at'' (JDate (Date_now mem_env (world (mem_failing
           ''questionSetRepo.update'' mem_stored)))) question_set_b) (world (mem_failing
           ''questionSetRepo.update'' mem_stored)) = (Inl (Exn ErrorC ''connection lost''), world
           (mem_failing ''questionSetRepo.update'' mem_stored))
   \<and> fst (question_set_loop mem_env [JObj question_set_b] 0 (mem_failing
       ''questionSetRepo.update'' mem_stored)) = Inr 0
   \<and> new_events (mem_failing ''questionSetRepo.update'' mem_stored) (snd (question_set_loop
       mem_env [JObj question_set_b] 0 (mem_failing ''questionSetRepo.update'' mem_stored))) =
      [Called ''transformService.transformQuestionSetData'' [JObj question_set_b],
       Called ''questionSetRepo.findOne'' [where_identifier (JStr ''qs_2'')],
       Called ''questionSetRepo.update''
          [JObj [(''identifier'', JStr ''qs_2'')],
           JObj (AList.update ''updated_at'' (JDate 1000) question_set_b)],
       Logged ERROR ''Failed to save question set data'' (Some (Exn ErrorC ''connection lost''))
           [(''identifier'', JStr ''qs_2'')],
       Logged ERROR ''Failed to process question set data'' (Some (Exn ErrorC
           ''connection lost'')) [(''identifier'', JStr ''qs_2'')]]
   \<and> questionSetRepo_save mem_env question_set_b (world mem_start) =
       (Inr (), (world mem_start)\<lparr>question_sets := [(JStr ''qs_2'',
           question_set_b)]\<rparr>)
   \<and> fst (question_set_loop mem_env [JObj question_set_b] 0 mem_start) = Inr 1
   \<and> new_events mem_start (snd (question_set_loop mem_env [JObj question_set_b] 0 mem_start))
       =
      [Called ''transformService.transformQuestionSetData'' [JObj question_set_b],
       Called ''questionSetRepo.findOne'' [where_identifier (JStr ''qs_2'')],
       Called ''questionSetRepo.save'' [JObj question_set_b],
       Logged DEBUG ''Created new question set'' None [(''identifier'', JStr ''qs_2'')]]
   \<and> questionSetRepo_update mem_env (field_of question_set_b ''identifier'')
       (AList.update ''updated_at'' (JDate (Date_now mem_env (world mem_stored))) question_set_b)
           (world mem_stored) =
       (Inr (), (world mem_stored)\<lparr>question_sets := [(JStr ''qs_2'', AList.update
           ''updated_at'' (JDate 1000) question_set_b)]\<rparr>)
   \<and> fst (question_set_loop mem_env [JObj question_set_b] 0 mem_stored) = Inr 1
   \<and> new_events mem_stored (snd (question_set_loop mem_env [JObj question_set_b] 0
       mem_stored)) =
      [Called ''transformService.transformQuestionSetData'' [JObj question_set_b],
       Called ''questionSetRepo.findOne'' [where_identifier (JStr ''qs_2'')],
       Called ''questionSetRepo.update''
          [JObj [(''identifier'', JStr ''qs_2'')],
           JObj (AList.update ''updated_at'' (JDate 1000) question_set_b)],
       Logged DEBUG ''Updated existing question set'' None [(''identifier'', JStr ''qs_2'')]]
   \<and> fetchCourseData mem_env (world mem_start) =
     (Inr \<lparr>resp_success = True, resp_data = Some [JObj course_a, JObj course_b, JObj
         course_c]\<rparr>,
      world mem_start)
   \<and> list_all (\<lambda>x. \<not> nullish x) [JObj course_a, JObj course_b, JObj course_c]
   \<and> fst (processCourseData mem_env mem_start) = Inr \<lparr>totalProcessed = 2, duration =
       0\<rparr>
   \<and> length (filter (is_item_failure ''Failed to process course data'')
               (new_events mem_start (snd (processCourseData mem_env mem_start)))) = 1
   \<and> fetchQuestionSetData mem_env (world mem_start) =
     (Inr \<lparr>resp_success = True, resp_data = Some [JObj question_set_a, JObj
         question_set_b]\<rparr>,
      world mem_start)
   \<and> list_all (\<lambda>x. \<not> nullish x) [JObj question_set_a, JObj question_set_b]
   \<and> fst (processQuestionSetData mem_env mem_start) = Inr \<lparr>totalProcessed = 1,
       duration = 0\<rparr>
   \<and> length (filter (is_item_failure ''Failed to process question set data'')
               (new_events mem_start (snd (processQuestionSetData mem_env mem_start)))) = 1
   \<and> \<not> isRunning (jobStatus mem_start)
   \<and> (\<forall>w. \<exists>r. fst (fetchCourseData steady_env w) = Inr r
              \<and> (\<forall>items. available_items r = Some items \<longrightarrow>
                    list_all (\<lambda>x. \<not> nullish x) items))
   \<and> (\<forall>w. \<exists>r. fst (fetchQuestionSetData steady_env w) = Inr r
              \<and> (\<forall>items. available_items r = Some items \<longrightarrow>
                    list_all (\<lambda>x. \<not> nullish x) items))
   \<and> successfulExecutions (jobStatus (snd (executeCronJob steady_env mem_start))) = 1
   \<and> failedExecutions (jobStatus (snd (executeCronJob steady_env mem_start))) = 0"
proof -
  have cidG: "get_prop (JObj course_a) ''identifier'' = Inr (JStr ''do_1'')"
    by (simp add: mem_defs)
  have cidB: "get_prop (JObj course_b) ''identifier'' = Inr (JStr ''do_2'')"
    by (simp add: mem_defs)
  have cfG: "field_of course_a ''identifier'' = JStr ''do_1''"
    by (simp add: mem_defs)
  have c1_h0: "transformExternalCourseData mem_env (JObj course_b) (world mem_start) = (Inl (Exn
      ErrorC ''name is missing''), world mem_start)"
    by (simp add: mem_defs)
  have c1_eq: "course_loop mem_env [JObj course_b] 0 mem_start =
      (Inr 0, mem_start\<lparr>world := world mem_start, trace := trace mem_start @
         [Called ''transformService.transformExternalCourseData'' [JObj course_b],
          Logged ERROR ''Failed to process course data'' (Some (Exn ErrorC ''name is missing''))
              [(''identifier'', JStr ''do_2'')]]\<rparr>)"
    using batch_isolates_item_failures [where env = "mem_env"
        and x = "JObj course_b"
        and rest = "[]"
        and n = "0"
        and s = "mem_start"
        and e = "Exn ErrorC ''name is missing''"
        and c = "[]"
        and wa = "world mem_start"
        and wb = "world mem_start"
        and wc = "world mem_start"
        and row = "[]"
        and ident = "JStr ''do_2''"
        and r = "\<lparr>resp_success = True, resp_data = Some [JObj course_a, JObj course_b, JObj
            course_c]\<rparr>"
        and w = "world mem_start"
        and items = "[]", THEN conjunct1]
      c1_h0 cidG cidB cfG
    by simp
  have c1_n: "fst (course_loop mem_env [JObj course_b] 0 mem_start) = Inr 0"
    unfolding c1_eq by simp
  have c1_t: "new_events mem_start (snd (course_loop mem_env [JObj course_b] 0 mem_start)) =
      [Called ''transformService.transformExternalCourseData'' [JObj course_b],
       Logged ERROR ''Failed to process course data'' (Some (Exn ErrorC ''name is missing''))
           [(''identifier'', JStr ''do_2'')]]"
    unfolding c1_eq by (simp add: new_events_def)
  have c2_h0: "transformExternalCourseData mem_env (JObj course_a) (world (mem_failing
      ''courseRepo.findOne'' mem_start)) = (Inr course_a, world (mem_failing
      ''courseRepo.findOne'' mem_start))"
    by (simp add: mem_defs)
  have c2_h1: "courseRepo_findOne mem_env (field_of course_a ''identifier'') (world (mem_failing
      ''courseRepo.findOne'' mem_start)) = (Inl (Exn ErrorC ''connection lost''), world
      (mem_failing ''courseRepo.findOne'' mem_start))"
    by (simp add: mem_defs)
  have c2_eq: "course_loop mem_env [JObj course_a] 0 (mem_failing ''courseRepo.findOne''
      mem_start) =
      (Inr 0, (mem_failing ''courseRepo.findOne'' mem_start)\<lparr>world := world (mem_failing
          ''courseRepo.findOne'' mem_start), trace := trace (mem_failing ''courseRepo.findOne''
          mem_start) @
         [Called ''transformService.transformExternalCourseData'' [JObj course_a],
          Called ''courseRepo.findOne'' [where_identifier (JStr ''do_1'')],
          Logged ERROR ''Failed to save course data'' (Some (Exn ErrorC ''connection lost''))
              [(''identifier'', JStr ''do_1'')],
          Logged ERROR ''Failed to process course data'' (Some (Exn ErrorC ''connection lost''))
              [(''identifier'', JStr ''do_1'')]]\<rparr>)"
    using batch_isolates_item_failures [where env = "mem_env"
        and x = "JObj course_a"
        and rest = "[]"
        and n = "0"
        and s = "mem_failing ''courseRepo.findOne'' mem_start"
        and e = "Exn ErrorC ''connection lost''"
        and c = "course_a"
        and wa = "world (mem_failing ''courseRepo.findOne'' mem_start)"
        and wb = "world (mem_failing ''courseRepo.findOne'' mem_start)"
        and wc = "world mem_start"
        and row = "[]"
        and ident = "JStr ''do_1''"
        and r = "\<lparr>resp_success = True, resp_data = Some [JObj course_a, JObj course_b, JObj
            course_c]\<rparr>"
        and w = "world mem_start"
        and items = "[]", THEN conjunct2, THEN conjunct1]
      c2_h0 c2_h1 cidG cidB cfG
    by simp
  have c2_n: "fst (course_loop mem_env [JObj course_a] 0 (mem_failing ''courseRepo.findOne''
      mem_start)) = Inr 0"
    unfolding c2_eq by simp
  have c2_t: "new_events (mem_failing ''courseRepo.findOne'' mem_start) (snd (course_loop mem_env
      [JObj course_a] 0 (mem_failing ''courseRepo.findOne'' mem_start))) =
      [Called ''transformService.transformExternalCourseData'' [JObj course_a],
       Called ''courseRepo.findOne'' [where_identifier (JStr ''do_1'')],
       Logged ERROR ''Failed to save course data'' (Some (Exn ErrorC ''connection lost''))
           [(''identifier'', JStr ''do_1'')],
       Logged ERROR ''Failed to process course data'' (Some (Exn ErrorC ''connection lost''))
           [(''identifier'', JStr ''do_1'')]]"
    unfolding c2_eq by (simp add: new_events_def)
  have c3_h0: "transformExternalCourseData mem_env (JObj course_a) (world (mem_failing
      ''courseRepo.save'' mem_start)) = (Inr course_a, world (mem_failing ''courseRepo.save''
      mem_start))"
    by (simp add: mem_defs)
  have c3_h1: "courseRepo_findOne mem_env (field_of course_a ''identifier'') (world (mem_failing
      ''courseRepo.save'' mem_start)) = (Inr None, world (mem_failing ''courseRepo.save''
      mem_start))"
    by (simp add: mem_defs)
  have c3_h2: "courseRepo_save mem_env course_a (world (mem_failing ''courseRepo.save''
      mem_start)) = (Inl (Exn ErrorC ''connection lost''), world (mem_failing ''courseRepo.save''
      mem_start))"
    by (simp add: mem_defs)
  have c3_eq: "course_loop mem_env [JObj course_a] 0 (mem_failing ''courseRepo.save'' mem_start) =
      (Inr 0, (mem_failing ''courseRepo.save'' mem_start)\<lparr>world := world (mem_failing
          ''courseRepo.save'' mem_start), trace := trace (mem_failing ''courseRepo.save''
          mem_start) @
         [Called ''transformService.transformExternalCourseData'' [JObj course_a],
          Called ''courseRepo.findOne'' [where_identifier (JStr ''do_1'')],
          Called ''courseRepo.save'' [JObj course_a],
          Logged ERROR ''Failed to save course data'' (Some (Exn ErrorC ''connection lost''))
              [(''identifier'', JStr ''do_1'')],
          Logged ERROR ''Failed to process course data'' (Some (Exn ErrorC ''connection lost''))
              [(''identifier'', JStr ''do_1'')]]\<rparr>)"
    using batch_isolates_item_failures [where env = "mem_env"
        and x = "JObj course_a"
        and rest = "[]"
        and n = "0"
        and s = "mem_failing ''courseRepo.save'' mem_start"
        and e = "Exn ErrorC ''connection lost''"
        and c = "course_a"
        and wa = "world (mem_failing ''courseRepo.save'' mem_start)"
        and wb = "world (mem_failing ''courseRepo.save'' mem_start)"
        and wc = "world (mem_failing ''courseRepo.save'' mem_start)"
        and row = "[]"
        and ident = "JStr ''do_1''"
        and r = "\<lparr>resp_success = True, resp_data = Some [JObj course_a, JObj course_b, JObj
            course_c]\<rparr>"
        and w = "world mem_start"
        and items = "[]", THEN conjunct2, THEN conjunct2, THEN conjunct1]
      c3_h0 c3_h1 c3_h2 cidG cidB cfG
    by simp
  have c3_n: "fst (course_loop mem_env [JObj course_a] 0 (mem_failing ''courseRepo.save''
      mem_start)) = Inr 0"
    unfolding c3_eq by simp
  have c3_t: "new_events (mem_failing ''courseRepo.save'' mem_start) (snd (course_loop mem_env
      [JObj course_a] 0 (mem_failing ''courseRepo.save'' mem_start))) =
      [Called ''transformService.transformExternalCourseData'' [JObj course_a],
       Called ''courseRepo.findOne'' [where_identifier (JStr ''do_1'')],
       Called ''courseRepo.save'' [JObj course_a],
       Logged ERROR ''Failed to save course data'' (Some (Exn ErrorC ''connection lost''))
           [(''identifier'', JStr ''do_1'')],
       Logged ERROR ''Failed to process course data'' (Some (Exn ErrorC ''connection lost''))
           [(''identifier'', JStr ''do_1'')]]"
    unfolding c3_eq by (simp add: new_events_def)
  have c4_h0: "transformExternalCourseData mem_env (JObj course_a) (world (mem_failing
      ''courseRepo.update'' mem_stored)) = (Inr course_a, world (mem_failing ''courseRepo.update''
      mem_stored))"
    by (simp add: mem_defs)
  have c4_h1: "courseRepo_findOne mem_env (field_of course_a ''identifier'') (world (mem_failing
      ''courseRepo.update'' mem_stored)) = (Inr (Some course_a), world (mem_failing
      ''courseRepo.update'' mem_stored))"
    by (simp add: mem_defs)
  have c4_h2: "courseRepo_update mem_env (field_of course_a ''identifier'')
       (AList.update ''updated_at'' (JDate (Date_now mem_env (world (mem_failing
           ''courseRepo.update'' mem_stored)))) course_a) (world (mem_failing
           ''courseRepo.update'' mem_stored)) = (Inl (Exn ErrorC ''connection lost''), world
           (mem_failing ''courseRepo.update'' mem_stored))"
    by (simp add: mem_defs)
  have c4_h3: "Date_now mem_env (world (mem_failing ''courseRepo.update'' mem_stored)) = 1000"
    by (simp add: mem_defs)
  have c4_eq: "course_loop mem_env [JObj course_a] 0 (mem_failing ''courseRepo.update''
      mem_stored) =
      (Inr 0, (mem_failing ''courseRepo.update'' mem_stored)\<lparr>world := world (mem_failing
          ''courseRepo.update'' mem_stored), trace := trace (mem_failing ''courseRepo.update''
          mem_stored) @
         [Called ''transformService.transformExternalCourseData'' [JObj course_a],
          Called ''courseRepo.findOne'' [where_identifier (JStr ''do_1'')],
          Called ''courseRepo.update''
          [JObj [(''identifier'', JStr ''do_1'')],
           JObj (AList.update ''updated_at'' (JDate 1000) course_a)],
          Logged ERROR ''Failed to save course data'' (Some (Exn ErrorC ''connection lost''))
              [(''identifier'', JStr ''do_1'')],
          Logged ERROR ''Failed to process course data'' (Some (Exn ErrorC ''connection lost''))
              [(''identifier'', JStr ''do_1'')]]\<rparr>)"
    using batch_isolates_item_failures [where env = "mem_env"
        and x = "JObj course_a"
        and rest = "[]"
        and n = "0"
        and s = "mem_failing ''courseRepo.update'' mem_stored"
        and e = "Exn ErrorC ''connection lost''"
        and c = "course_a"
        and wa = "world (mem_failing ''courseRepo.update'' mem_stored)"
        and wb = "world (mem_failing ''courseRepo.update'' mem_stored)"
        and wc = "world (mem_failing ''courseRepo.update'' mem_stored)"
        and row = "course_a"
        and ident = "JStr ''do_1''"
        and r = "\<lparr>resp_success = True, resp_data = Some [JObj course_a, JObj course_b, JObj
            course_c]\<rparr>"
        and w = "world mem_start"
        and items = "[]", THEN conjunct2, THEN conjunct2, THEN conjunct2, THEN conjunct1]
      c4_h0 c4_h1 c4_h2 c4_h3 cidG cidB cfG
    by simp
  have c4_n: "fst (course_loop mem_env [JObj course_a] 0 (mem_failing ''courseRepo.update''
      mem_stored)) = Inr 0"
    unfolding c4_eq by simp
  have c4_t: "new_events (mem_failing ''courseRepo.update'' mem_stored) (snd (course_loop mem_env
      [JObj course_a] 0 (mem_failing ''courseRepo.update'' mem_stored))) =
      [Called ''transformService.transformExternalCourseData'' [JObj course_a],
       Called ''courseRepo.findOne'' [where_identifier (JStr ''do_1'')],
       Called ''courseRepo.update''
          [JObj [(''identifier'', JStr ''do_1'')],
           JObj (AList.update ''updated_at'' (JDate 1000) course_a)],
       Logged ERROR ''Failed to save course data'' (Some (Exn ErrorC ''connection lost''))
           [(''identifier'', JStr ''do_1'')],
       Logged ERROR ''Failed to process course data'' (Some (Exn ErrorC ''connection lost''))
           [(''identifier'', JStr ''do_1'')]]"
    unfolding c4_eq by (simp add: new_events_def)
  have c5_h0: "transformExternalCourseData mem_env (JObj course_a) (world mem_start) = (Inr
      course_a, world mem_start)"
    by (simp add: mem_defs)
  have c5_h1: "courseRepo_findOne mem_env (field_of course_a ''identifier'') (world mem_start) =
      (Inr None, world mem_start)"
    by (simp add: mem_defs)
  have c5_h2: "courseRepo_save mem_env course_a (world mem_start) =
       (Inr (), (world mem_start)\<lparr>courses := [(JStr ''do_1'', course_a)]\<rparr>)"
    by (simp add: mem_defs)
  have c5_eq: "course_loop mem_env [JObj course_a] 0 mem_start =
      (Inr 1, mem_start\<lparr>world := (world mem_start)\<lparr>courses := [(JStr ''do_1'',
          course_a)]\<rparr>, trace := trace mem_start @
         [Called ''transformService.transformExternalCourseData'' [JObj course_a],
          Called ''courseRepo.findOne'' [where_identifier (JStr ''do_1'')],
          Called ''courseRepo.save'' [JObj course_a],
          Logged DEBUG ''Created new course'' None [(''identifier'', JStr ''do_1'')]]\<rparr>)"
    using batch_isolates_item_failures [where env = "mem_env"
        and x = "JObj course_a"
        and rest = "[]"
        and n = "0"
        and s = "mem_start"
        and e = "Exn ErrorC ''name is missing''"
        and c = "course_a"
        and wa = "world mem_start"
        and wb = "world mem_start"
        and wc = "(world mem_start)\<lparr>courses := [(JStr ''do_1'', course_a)]\<rparr>"
        and row = "[]"
        and ident = "JNull"
        and r = "\<lparr>resp_success = True, resp_data = Some [JObj course_a, JObj course_b, JObj
            course_c]\<rparr>"
        and w = "world mem_start"
        and items = "[]", THEN conjunct2, THEN conjunct2, THEN conjunct2, THEN conjunct2, THEN
            conjunct1]
      c5_h0 c5_h1 c5_h2 cidG cidB cfG
    by simp
  have c5_n: "fst (course_loop mem_env [JObj course_a] 0 mem_start) = Inr 1"
    unfolding c5_eq by simp
  have c5_t: "new_events mem_start (snd (course_loop mem_env [JObj course_a] 0 mem_start)) =
      [Called ''transformService.transformExternalCourseData'' [JObj course_a],
       Called ''courseRepo.findOne'' [where_identifier (JStr ''do_1'')],
       Called ''courseRepo.save'' [JObj course_a],
       Logged DEBUG ''Created new course'' None [(''identifier'', JStr ''do_1'')]]"
    unfolding c5_eq by (simp add: new_events_def)
  have c6_h0: "transformExternalCourseData mem_env (JObj course_a) (world mem_stored) = (Inr
      course_a, world mem_stored)"
    by (simp add: mem_defs)
  have c6_h1: "courseRepo_findOne mem_env (field_of course_a ''identifier'') (world mem_stored) =
      (Inr (Some course_a), world mem_stored)"
    by (simp add: mem_defs)
  have c6_h2: "courseRepo_update mem_env (field_of course_a ''identifier'')
       (AList.update ''updated_at'' (JDate (Date_now mem_env (world mem_stored))) course_a) (world
           mem_stored) =
       (Inr (), (world mem_stored)\<lparr>courses := [(JStr ''do_1'', AList.update ''updated_at''
           (JDate 1000) course_a)]\<rparr>)"
    by (simp add: mem_defs mem_update_def merge_fields_def)
  have c6_h3: "Date_now mem_env (world mem_stored) = 1000"
    by (simp add: mem_defs)
  have c6_eq: "course_loop mem_env [JObj course_a] 0 mem_stored =
      (Inr 1, mem_stored\<lparr>world := (world mem_stored)\<lparr>courses := [(JStr ''do_1'',
          AList.update ''updated_at'' (JDate 1000) course_a)]\<rparr>, trace := trace mem_stored @
         [Called ''transformService.transformExternalCourseData'' [JObj course_a],
          Called ''courseRepo.findOne'' [where_identifier (JStr ''do_1'')],
          Called ''courseRepo.update''
          [JObj [(''identifier'', JStr ''do_1'')],
           JObj (AList.update ''updated_at'' (JDate 1000) course_a)],
          Logged DEBUG ''Updated existing course'' None [(''identifier'', JStr
              ''do_1'')]]\<rparr>)"
    using batch_isolates_item_failures [where env = "mem_env"
        and x = "JObj course_a"
        and rest = "[]"
        and n = "0"
        and s = "mem_stored"
        and e = "Exn ErrorC ''name is missing''"
        and c = "course_a"
        and wa = "world mem_stored"
        and wb = "world mem_stored"
        and wc = "(world mem_stored)\<lparr>courses := [(JStr ''do_1'', AList.update
            ''updated_at'' (JDate 1000) course_a)]\<rparr>"
        and row = "course_a"
        and ident = "JNull"
        and r = "\<lparr>resp_success = True, resp_data = Some [JObj course_a, JObj course_b, JObj
            course_c]\<rparr>"
        and w = "world mem_start"
        and items = "[]", THEN conjunct2, THEN conjunct2, THEN conjunct2, THEN conjunct2, THEN
            conjunct2, THEN conjunct1]
      c6_h0 c6_h1 c6_h2 c6_h3 cidG cidB cfG
    by simp
  have c6_n: "fst (course_loop mem_env [JObj course_a] 0 mem_stored) = Inr 1"
    unfolding c6_eq by simp
  have c6_t: "new_events mem_stored (snd (course_loop mem_env [JObj course_a] 0 mem_stored)) =
      [Called ''transformService.transformExternalCourseData'' [JObj course_a],
       Called ''courseRepo.findOne'' [where_identifier (JStr ''do_1'')],
       Called ''courseRepo.update''
          [JObj [(''identifier'', JStr ''do_1'')],
           JObj (AList.update ''updated_at'' (JDate 1000) course_a)],
       Logged DEBUG ''Updated existing course'' None [(''identifier'', JStr ''do_1'')]]"
    unfolding c6_eq by (simp add: new_events_def)
  have qidG: "get_prop (JObj question_set_b) ''identifier'' = Inr (JStr ''qs_2'')"
    by (simp add: mem_defs)
  have qidB: "get_prop (JObj question_set_a) ''identifier'' = Inr (JStr ''qs_1'')"
    by (simp add: mem_defs)
  have qfG: "field_of question_set_b ''identifier'' = JStr ''qs_2''"
    by (simp add: mem_defs)
  have q1_h0: "transformQuestionSetData mem_env (JObj question_set_a) (world mem_start) = (Inl
      (Exn ErrorC ''name is missing''), world mem_start)"
    by (simp add: mem_defs)
  have q1_eq: "question_set_loop mem_env [JObj question_set_a] 0 mem_start =
      (Inr 0, mem_start\<lparr>world := world mem_start, trace := trace mem_start @
         [Called ''transformService.transformQuestionSetData'' [JObj question_set_a],
          Logged ERROR ''Failed to process question set data'' (Some (Exn ErrorC
              ''name is missing'')) [(''identifier'', JStr ''qs_1'')]]\<rparr>)"
    using batch_isolates_item_failures [where env = "mem_env"
        and x = "JObj question_set_a"
        and rest = "[]"
        and n = "0"
        and s = "mem_start"
        and e = "Exn ErrorC ''name is missing''"
        and c = "[]"
        and wa = "world mem_start"
        and wb = "world mem_start"
        and wc = "world mem_start"
        and row = "[]"
        and ident = "JStr ''qs_1''"
        and r = "\<lparr>resp_success = True, resp_data = Some [JObj course_a, JObj course_b, JObj
            course_c]\<rparr>"
        and w = "world mem_start"
        and items = "[]", THEN conjunct2, THEN conjunct2, THEN conjunct2, THEN conjunct2, THEN
            conjunct2, THEN conjunct2, THEN conjunct1]
      q1_h0 qidG qidB qfG
    by simp
  have q1_n: "fst (question_set_loop mem_env [JObj question_set_a] 0 mem_start) = Inr 0"
    unfolding q1_eq by simp
  have q1_t: "new_events mem_start (snd (question_set_loop mem_env [JObj question_set_a] 0
      mem_start)) =
      [Called ''transformService.transformQuestionSetData'' [JObj question_set_a],
       Logged ERROR ''Failed to process question set data'' (Some (Exn ErrorC
           ''name is missing'')) [(''identifier'', JStr ''qs_1'')]]"
    unfolding q1_eq by (simp add: new_events_def)
  have q2_h0: "transformQuestionSetData mem_env (JObj question_set_b) (world (mem_failing
      ''questionSetRepo.findOne'' mem_start)) = (Inr question_set_b, world (mem_failing
      ''questionSetRepo.findOne'' mem_start))"
    by (simp add: mem_defs)
  have q2_h1: "questionSetRepo_findOne mem_env (field_of question_set_b ''identifier'') (world
      (mem_failing ''questionSetRepo.findOne'' mem_start)) = (Inl (Exn ErrorC
      ''connection lost''), world (mem_failing ''questionSetRepo.findOne'' mem_start))"
    by (simp add: mem_defs)
  have q2_eq: "question_set_loop mem_env [JObj question_set_b] 0 (mem_failing
      ''questionSetRepo.findOne'' mem_start) =
      (Inr 0, (mem_failing ''questionSetRepo.findOne'' mem_start)\<lparr>world := world
          (mem_failing ''questionSetRepo.findOne'' mem_start), trace := trace (mem_failing
          ''questionSetRepo.findOne'' mem_start) @
         [Called ''transformService.transformQuestionSetData'' [JObj question_set_b],
          Called ''questionSetRepo.findOne'' [where_identifier (JStr ''qs_2'')],
          Logged ERROR ''Failed to save question set data'' (Some (Exn ErrorC
              ''connection lost'')) [(''identifier'', JStr ''qs_2'')],
          Logged ERROR ''Failed to process question set data'' (Some (Exn ErrorC
              ''connection lost'')) [(''identifier'', JStr ''qs_2'')]]\<rparr>)"
    using batch_isolates_item_failures [where env = "mem_env"
        and x = "JObj question_set_b"
        and rest = "[]"
        and n = "0"
        and s = "mem_failing ''questionSetRepo.findOne'' mem_start"
        and e = "Exn ErrorC ''connection lost''"
        and c = "question_set_b"
        and wa = "world (mem_failing ''questionSetRepo.findOne'' mem_start)"
        and wb = "world (mem_failing ''questionSetRepo.findOne'' mem_start)"
        and wc = "world mem_start"
        and row = "[]"
        and ident = "JStr ''qs_2''"
        and r = "\<lparr>resp_success = True, resp_data = Some [JObj course_a, JObj course_b, JObj
            course_c]\<rparr>"
        and w = "world mem_start"
        and items = "[]", THEN conjunct2, THEN conjunct2, THEN conjunct2, THEN conjunct2, THEN
            conjunct2, THEN conjunct2, THEN conjunct2, THEN conjunct1]
      q2_h0 q2_h1 qidG qidB qfG
    by simp
  have q2_n: "fst (question_set_loop mem_env [JObj question_set_b] 0 (mem_failing
      ''questionSetRepo.findOne'' mem_start)) = Inr 0"
    unfolding q2_eq by simp
  have q2_t: "new_events (mem_failing ''questionSetRepo.findOne'' mem_start) (snd
      (question_set_loop mem_env [JObj question_set_b] 0 (mem_failing ''questionSetRepo.findOne''
      mem_start))) =
      [Called ''transformService.transformQuestionSetData'' [JObj question_set_b],
       Called ''questionSetRepo.findOne'' [where_identifier (JStr ''qs_2'')],
       Logged ERROR ''Failed to save question set data'' (Some (Exn ErrorC ''connection lost''))
           [(''identifier'', JStr ''qs_2'')],
       Logged ERROR ''Failed to process question set data'' (Some (Exn ErrorC
           ''connection lost'')) [(''identifier'', JStr ''qs_2'')]]"
    unfolding q2_eq by (simp add: new_events_def)
  have q3_h0: "transformQuestionSetData mem_env (JObj question_set_b) (world (mem_failing
      ''questionSetRepo.save'' mem_start)) = (Inr question_set_b, world (mem_failing
      ''questionSetRepo.save'' mem_start))"
    by (simp add: mem_defs)
  have q3_h1: "questionSetRepo_findOne mem_env (field_of question_set_b ''identifier'') (world
      (mem_failing ''questionSetRepo.save'' mem_start)) = (Inr None, world (mem_failing
      ''questionSetRepo.save'' mem_start))"
    by (simp add: mem_defs)
  have q3_h2: "questionSetRepo_save mem_env question_set_b (world (mem_failing
      ''questionSetRepo.save'' mem_start)) = (Inl (Exn ErrorC ''connection lost''), world
      (mem_failing ''questionSetRepo.save'' mem_start))"
    by (simp add: mem_defs)
  have q3_eq: "question_set_loop mem_env [JObj question_set_b] 0 (mem_failing
      ''questionSetRepo.save'' mem_start) =
      (Inr 0, (mem_failing ''questionSetRepo.save'' mem_start)\<lparr>world := world (mem_failing
          ''questionSetRepo.save'' mem_start), trace := trace (mem_failing
          ''questionSetRepo.save'' mem_start) @
         [Called ''transformService.transformQuestionSetData'' [JObj question_set_b],
          Called ''questionSetRepo.findOne'' [where_identifier (JStr ''qs_2'')],
          Called ''questionSetRepo.save'' [JObj question_set_b],
          Logged ERROR ''Failed to save question set data'' (Some (Exn ErrorC
              ''connection lost'')) [(''identifier'', JStr ''qs_2'')],
          Logged ERROR ''Failed to process question set data'' (Some (Exn ErrorC
              ''connection lost'')) [(''identifier'', JStr ''qs_2'')]]\<rparr>)"
    using batch_isolates_item_failures [where env = "mem_env"
        and x = "JObj question_set_b"
        and rest = "[]"
        and n = "0"
        and s = "mem_failing ''questionSetRepo.save'' mem_start"
        and e = "Exn ErrorC ''connection lost''"
        and c = "question_set_b"
        and wa = "world (mem_failing ''questionSetRepo.save'' mem_start)"
        and wb = "world (mem_failing ''questionSetRepo.save'' mem_start)"
        and wc = "world (mem_failing ''questionSetRepo.save'' mem_start)"
        and row = "[]"
        and ident = "JStr ''qs_2''"
        and r = "\<lparr>resp_success = True, resp_data = Some [JObj course_a, JObj course_b, JObj
            course_c]\<rparr>"
        and w = "world mem_start"
        and items = "[]", THEN conjunct2, THEN conjunct2, THEN conjunct2, THEN conjunct2, THEN
            conjunct2, THEN conjunct2, THEN conjunct2, THEN conjunct2, THEN conjunct1]
      q3_h0 q3_h1 q3_h2 qidG qidB qfG
    by simp
  have q3_n: "fst (question_set_loop mem_env [JObj question_set_b] 0 (mem_failing
      ''questionSetRepo.save'' mem_start)) = Inr 0"
    unfolding q3_eq by simp
  have q3_t: "new_events (mem_failing ''questionSetRepo.save'' mem_start) (snd (question_set_loop
      mem_env [JObj question_set_b] 0 (mem_failing ''questionSetRepo.save'' mem_start))) =
      [Called ''transformService.transformQuestionSetData'' [JObj question_set_b],
       Called ''questionSetRepo.findOne'' [where_identifier (JStr ''qs_2'')],
       Called ''questionSetRepo.save'' [JObj question_set_b],
       Logged ERROR ''Failed to save question set data'' (Some (Exn ErrorC ''connection lost''))
           [(''identifier'', JStr ''qs_2'')],
       Logged ERROR ''Failed to process question set data'' (Some (Exn ErrorC
           ''connection lost'')) [(''identifier'', JStr ''qs_2'')]]"
    unfolding q3_eq by (simp add: new_events_def)
  have q4_h0: "transformQuestionSetData mem_env (JObj question_set_b) (world (mem_failing
      ''questionSetRepo.update'' mem_stored)) = (Inr question_set_b, world (mem_failing
      ''questionSetRepo.update'' mem_stored))"
    by (simp add: mem_defs)
  have q4_h1: "questionSetRepo_findOne mem_env (field_of question_set_b ''identifier'') (world
      (mem_failing ''questionSetRepo.update'' mem_stored)) = (Inr (Some question_set_b), world
      (mem_failing ''questionSetRepo.update'' mem_stored))"
    by (simp add: mem_defs)
  have q4_h2: "questionSetRepo_update mem_env (field_of question_set_b ''identifier'')
       (AList.update ''updated_at'' (JDate (Date_now mem_env (world (mem_failing
           ''questionSetRepo.update'' mem_stored)))) question_set_b) (world (mem_failing
           ''questionSetRepo.update'' mem_stored)) = (Inl (Exn ErrorC ''connection lost''), world
           (mem_failing ''questionSetRepo.update'' mem_stored))"
    by (simp add: mem_defs)
  have q4_h3: "Date_now mem_env (world (mem_failing ''questionSetRepo.update'' mem_stored)) =
      1000"
    by (simp add: mem_defs)
  have q4_eq: "question_set_loop mem_env [JObj question_set_b] 0 (mem_failing
      ''questionSetRepo.update'' mem_stored) =
      (Inr 0, (mem_failing ''questionSetRepo.update'' mem_stored)\<lparr>world := world
          (mem_failing ''questionSetRepo.update'' mem_stored), trace := trace (mem_failing
          ''questionSetRepo.update'' mem_stored) @
         [Called ''transformService.transformQuestionSetData'' [JObj question_set_b],
          Called ''questionSetRepo.findOne'' [where_identifier (JStr ''qs_2'')],
          Called ''questionSetRepo.update''
          [JObj [(''identifier'', JStr ''qs_2'')],
           JObj (AList.update ''updated_at'' (JDate 1000) question_set_b)],
          Logged ERROR ''Failed to save question set data'' (Some (Exn ErrorC
              ''connection lost'')) [(''identifier'', JStr ''qs_2'')],
          Logged ERROR ''Failed to process question set data'' (Some (Exn ErrorC
              ''connection lost'')) [(''identifier'', JStr ''qs_2'')]]\<rparr>)"
    using batch_isolates_item_failures [where env = "mem_env"
        and x = "JObj question_set_b"
        and rest = "[]"
        and n = "0"
        and s = "mem_failing ''questionSetRepo.update'' mem_stored"
        and e = "Exn ErrorC ''connection lost''"
        and c = "question_set_b"
        and wa = "world (mem_failing ''questionSetRepo.update'' mem_stored)"
        and wb = "world (mem_failing ''questionSetRepo.update'' mem_stored)"
        and wc = "world (mem_failing ''questionSetRepo.update'' mem_stored)"
        and row = "question_set_b"
        and ident = "JStr ''qs_2''"
        and r = "\<lparr>resp_success = True, resp_data = Some [JObj course_a, JObj course_b, JObj
            course_c]\<rparr>"
        and w = "world mem_start"
        and items = "[]", THEN conjunct2, THEN conjunct2, THEN conjunct2, THEN conjunct2, THEN
            conjunct2, THEN conjunct2, THEN conjunct2, THEN conjunct2, THEN conjunct2, THEN
            conjunct1]
      q4_h0 q4_h1 q4_h2 q4_h3 qidG qidB qfG
    by simp
  have q4_n: "fst (question_set_loop mem_env [JObj question_set_b] 0 (mem_failing
      ''questionSetRepo.update'' mem_stored)) = Inr 0"
    unfolding q4_eq by simp
  have q4_t: "new_events (mem_failing ''questionSetRepo.update'' mem_stored) (snd
      (question_set_loop mem_env [JObj question_set_b] 0 (mem_failing ''questionSetRepo.update''
      mem_stored))) =
      [Called ''transformService.transformQuestionSetData'' [JObj question_set_b],
       Called ''questionSetRepo.findOne'' [where_identifier (JStr ''qs_2'')],
       Called ''questionSetRepo.update''
          [JObj [(''identifier'', JStr ''qs_2'')],
           JObj (AList.update ''updated_at'' (JDate 1000) question_set_b)],
       Logged ERROR ''Failed to save question set data'' (Some (Exn ErrorC ''connection lost''))
           [(''identifier'', JStr ''qs_2'')],
       Logged ERROR ''Failed to process question set data'' (Some (Exn ErrorC
           ''connection lost'')) [(''identifier'', JStr ''qs_2'')]]"
    unfolding q4_eq by (simp add: new_events_def)
  have q5_h0: "transformQuestionSetData mem_env (JObj question_set_b) (world mem_start) = (Inr
      question_set_b, world mem_start)"
    by (simp add: mem_defs)
  have q5_h1: "questionSetRepo_findOne mem_env (field_of question_set_b ''identifier'') (world
      mem_start) = (Inr None, world mem_start)"
    by (simp add: mem_defs)
  have q5_h2: "questionSetRepo_save mem_env question_set_b (world mem_start) =
       (Inr (), (world mem_start)\<lparr>question_sets := [(JStr ''qs_2'',
           question_set_b)]\<rparr>)"
    by (simp add: mem_defs)
  have q5_eq: "question_set_loop mem_env [JObj question_set_b] 0 mem_start =
      (Inr 1, mem_start\<lparr>world := (world mem_start)\<lparr>question_sets := [(JStr ''qs_2'',
          question_set_b)]\<rparr>, trace := trace mem_start @
         [Called ''transformService.transformQuestionSetData'' [JObj question_set_b],
          Called ''questionSetRepo.findOne'' [where_identifier (JStr ''qs_2'')],
          Called ''questionSetRepo.save'' [JObj question_set_b],
          Logged DEBUG ''Created new question set'' None [(''identifier'', JStr
              ''qs_2'')]]\<rparr>)"
    using batch_isolates_item_failures [where env = "mem_env"
        and x = "JObj question_set_b"
        and rest = "[]"
        and n = "0"
        and s = "mem_start"
        and e = "Exn ErrorC ''name is missing''"
        and c = "question_set_b"
        and wa = "world mem_start"
        and wb = "world mem_start"
        and wc = "(world mem_start)\<lparr>question_sets := [(JStr ''qs_2'',
            question_set_b)]\<rparr>"
        and row = "[]"
        and ident = "JNull"
        and r = "\<lparr>resp_success = True, resp_data = Some [JObj course_a, JObj course_b, JObj
            course_c]\<rparr>"
        and w = "world mem_start"
        and items = "[]", THEN conjunct2, THEN conjunct2, THEN conjunct2, THEN conjunct2, THEN
            conjunct2, THEN conjunct2, THEN conjunct2, THEN conjunct2, THEN conjunct2, THEN
            conjunct2, THEN conjunct1]
      q5_h0 q5_h1 q5_h2 qidG qidB qfG
    by simp
  have q5_n: "fst (question_set_loop mem_env [JObj question_set_b] 0 mem_start) = Inr 1"
    unfolding q5_eq by simp
  have q5_t: "new_events mem_start (snd (question_set_loop mem_env [JObj question_set_b] 0
      mem_start)) =
      [Called ''transformService.transformQuestionSetData'' [JObj question_set_b],
       Called ''questionSetRepo.findOne'' [where_identifier (JStr ''qs_2'')],
       Called ''questionSetRepo.save'' [JObj question_set_b],
       Logged DEBUG ''Created new question set'' None [(''identifier'', JStr ''qs_2'')]]"
    unfolding q5_eq by (simp add: new_events_def)
  have q6_h0: "transformQuestionSetData mem_env (JObj question_set_b) (world mem_stored) = (Inr
      question_set_b, world mem_stored)"
    by (simp add: mem_defs)
  have q6_h1: "questionSetRepo_findOne mem_env (field_of question_set_b ''identifier'') (world
      mem_stored) = (Inr (Some question_set_b), world mem_stored)"
    by (simp add: mem_defs)
  have q6_h2: "questionSetRepo_update mem_env (field_of question_set_b ''identifier'')
       (AList.update ''updated_at'' (JDate (Date_now mem_env (world mem_stored))) question_set_b)
           (world mem_stored) =
       (Inr (), (world mem_stored)\<lparr>question_sets := [(JStr ''qs_2'', AList.update
           ''updated_at'' (JDate 1000) question_set_b)]\<rparr>)"
    by (simp add: mem_defs mem_update_def merge_fields_def)
  have q6_h3: "Date_now mem_env (world mem_stored) = 1000"
    by (simp add: mem_defs)
  have q6_eq: "question_set_loop mem_env [JObj question_set_b] 0 mem_stored =
      (Inr 1, mem_stored\<lparr>world := (world mem_stored)\<lparr>question_sets := [(JStr
          ''qs_2'', AList.update ''updated_at'' (JDate 1000) question_set_b)]\<rparr>, trace :=
          trace mem_stored @
         [Called ''transformService.transformQuestionSetData'' [JObj question_set_b],
          Called ''questionSetRepo.findOne'' [where_identifier (JStr ''qs_2'')],
          Called ''questionSetRepo.update''
          [JObj [(''identifier'', JStr ''qs_2'')],
           JObj (AList.update ''updated_at'' (JDate 1000) question_set_b)],
          Logged DEBUG ''Updated existing question set'' None [(''identifier'', JStr
              ''qs_2'')]]\<rparr>)"
    using batch_isolates_item_failures [where env = "mem_env"
        and x = "JObj question_set_b"
        and rest = "[]"
        and n = "0"
        and s = "mem_stored"
        and e = "Exn ErrorC ''name is missing''"
        and c = "question_set_b"
        and wa = "world mem_stored"
        and wb = "world mem_stored"
        and wc = "(world mem_stored)\<lparr>question_sets := [(JStr ''qs_2'', AList.update
            ''updated_at'' (JDate 1000) question_set_b)]\<rparr>"
        and row = "question_set_b"
        and ident = "JNull"
        and r = "\<lparr>resp_success = True, resp_data = Some [JObj course_a, JObj course_b, JObj
            course_c]\<rparr>"
        and w = "world mem_start"
        and items = "[]", THEN conjunct2, THEN conjunct2, THEN conjunct2, THEN conjunct2, THEN
            conjunct2, THEN conjunct2, THEN conjunct2, THEN conjunct2, THEN conjunct2, THEN
            conjunct2, THEN conjunct2, THEN conjunct1]
      q6_h0 q6_h1 q6_h2 q6_h3 qidG qidB qfG
    by simp
  have q6_n: "fst (question_set_loop mem_env [JObj question_set_b] 0 mem_stored) = Inr 1"
    unfolding q6_eq by simp
  have q6_t: "new_events mem_stored (snd (question_set_loop mem_env [JObj question_set_b] 0
      mem_stored)) =
      [Called ''transformService.transformQuestionSetData'' [JObj question_set_b],
       Called ''questionSetRepo.findOne'' [where_identifier (JStr ''qs_2'')],
       Called ''questionSetRepo.update''
          [JObj [(''identifier'', JStr ''qs_2'')],
           JObj (AList.update ''updated_at'' (JDate 1000) question_set_b)],
       Logged DEBUG ''Updated existing question set'' None [(''identifier'', JStr ''qs_2'')]]"
    unfolding q6_eq by (simp add: new_events_def)
  have cb_f: "fetchCourseData mem_env (world mem_start) =
     (Inr \<lparr>resp_success = True, resp_data = Some [JObj course_a, JObj course_b, JObj
         course_c]\<rparr>,
      world mem_start)"
    by (simp add: mem_defs)
  have cb_a: "available_items \<lparr>resp_success = True, resp_data = Some [JObj course_a, JObj
      course_b, JObj course_c]\<rparr>
     = Some [JObj course_a, JObj course_b, JObj course_c]"
    by (simp add: available_items_def)
  have cb_nn: "list_all (\<lambda>x. \<not> nullish x) [JObj course_a, JObj course_b, JObj
      course_c]"
    by simp
  have cb_run: "fst (processCourseData mem_env mem_start) = Inr \<lparr>totalProcessed = 2,
      duration = 0\<rparr>"
    by code_simp
  from batch_isolates_item_failures [where env = "mem_env"
        and x = "JNull"
        and rest = "[]"
        and n = "0"
        and s = "mem_start"
        and e = "Exn ErrorC ''name is missing''"
        and c = "[]"
        and wa = "world mem_start"
        and wb = "world mem_start"
        and wc = "world mem_start"
        and row = "[]"
        and ident = "JNull"
        and r = "\<lparr>resp_success = True, resp_data = Some [JObj course_a, JObj course_b, JObj
            course_c]\<rparr>"
        and w = "world mem_start"
        and items = "[JObj course_a, JObj course_b, JObj course_c]", THEN conjunct2, THEN
            conjunct2, THEN conjunct2, THEN conjunct2, THEN conjunct2, THEN conjunct2, THEN
            conjunct2, THEN conjunct2, THEN conjunct2, THEN conjunct2, THEN conjunct2, THEN
            conjunct2, THEN conjunct1]
    cb_f cb_a cb_nn obtain cn cd where
    cb_k: "fst (processCourseData mem_env mem_start) = Inr \<lparr>totalProcessed = cn, duration =
        cd\<rparr>"
    and cb_c: "cn + length (filter (is_item_failure ''Failed to process course data'')
               (new_events mem_start (snd (processCourseData mem_env mem_start))))
             = length [JObj course_a, JObj course_b, JObj course_c]"
    by blast
  have cb_one: "length (filter (is_item_failure ''Failed to process course data'')
               (new_events mem_start (snd (processCourseData mem_env mem_start)))) = 1"
    using cb_k cb_c cb_run by simp
  have qb_f: "fetchQuestionSetData mem_env (world mem_start) =
     (Inr \<lparr>resp_success = True, resp_data = Some [JObj question_set_a, JObj
         question_set_b]\<rparr>,
      world mem_start)"
    by (simp add: mem_defs)
  have qb_a: "available_items \<lparr>resp_success = True, resp_data = Some [JObj question_set_a,
      JObj question_set_b]\<rparr>
     = Some [JObj question_set_a, JObj question_set_b]"
    by (simp add: available_items_def)
  have qb_nn: "list_all (\<lambda>x. \<not> nullish x) [JObj question_set_a, JObj question_set_b]"
    by simp
  have qb_run: "fst (processQuestionSetData mem_env mem_start) = Inr \<lparr>totalProcessed = 1,
      duration = 0\<rparr>"
    by code_simp
  from batch_isolates_item_failures [where env = "mem_env"
        and x = "JNull"
        and rest = "[]"
        and n = "0"
        and s = "mem_start"
        and e = "Exn ErrorC ''name is missing''"
        and c = "[]"
        and wa = "world mem_start"
        and wb = "world mem_start"
        and wc = "world mem_start"
        and row = "[]"
        and ident = "JNull"
        and r = "\<lparr>resp_success = True, resp_data = Some [JObj question_set_a, JObj
            question_set_b]\<rparr>"
        and w = "world mem_start"
        and items = "[JObj question_set_a, JObj question_set_b]", THEN conjunct2, THEN conjunct2,
            THEN conjunct2, THEN conjunct2, THEN conjunct2, THEN conjunct2, THEN conjunct2, THEN
            conjunct2, THEN conjunct2, THEN conjunct2, THEN conjunct2, THEN conjunct2, THEN
            conjunct2, THEN conjunct1]
    qb_f qb_a qb_nn obtain qn qd where
    qb_k: "fst (processQuestionSetData mem_env mem_start) = Inr \<lparr>totalProcessed = qn,
        duration = qd\<rparr>"
    and qb_c: "qn + length (filter (is_item_failure ''Failed to process question set data'')
               (new_events mem_start (snd (processQuestionSetData mem_env mem_start))))
             = length [JObj question_set_a, JObj question_set_b]"
    by blast
  have qb_one: "length (filter (is_item_failure ''Failed to process question set data'')
               (new_events mem_start (snd (processQuestionSetData mem_env mem_start)))) = 1"
    using qb_k qb_c qb_run by simp
  have idle: "\<not> isRunning (jobStatus mem_start)"
    by (rule mem_start_idle)
  have s_fetchCourseData: "\<forall>w. \<exists>r. fst (fetchCourseData steady_env w) = Inr r
              \<and> (\<forall>items. available_items r = Some items \<longrightarrow>
                    list_all (\<lambda>x. \<not> nullish x) items)"
    by (auto simp: steady_env_def mem_env_def available_items_def)
  have s_fetchQuestionSetData: "\<forall>w. \<exists>r. fst (fetchQuestionSetData steady_env w) =
      Inr r
              \<and> (\<forall>items. available_items r = Some items \<longrightarrow>
                    list_all (\<lambda>x. \<not> nullish x) items)"
    by (auto simp: steady_env_def mem_env_def available_items_def)
  have zero1: "successfulExecutions (jobStatus mem_start) = 0"
    by (simp add: mem_start_def initial_jobStatus_def)
  have zero2: "failedExecutions (jobStatus mem_start) = 0"
    by (simp add: mem_start_def initial_jobStatus_def)
  note steady = batch_isolates_item_failures [where env = "steady_env"
        and x = "JNull"
        and rest = "[]"
        and n = "0"
        and s = "mem_start"
        and e = "Exn ErrorC ''name is missing''"
        and c = "[]"
        and wa = "world mem_start"
        and wb = "world mem_start"
        and wc = "world mem_start"
        and row = "[]"
        and ident = "JNull"
        and r = "\<lparr>resp_success = True, resp_data = Some [JObj course_a, JObj course_b, JObj
            course_c]\<rparr>"
        and w = "world mem_start"
        and items = "[]", THEN conjunct2, THEN conjunct2, THEN conjunct2, THEN conjunct2, THEN
            conjunct2, THEN conjunct2, THEN conjunct2, THEN conjunct2, THEN conjunct2, THEN
            conjunct2, THEN conjunct2, THEN conjunct2, THEN conjunct2, THEN conjunct2]
  have run1: "successfulExecutions (jobStatus (snd (executeCronJob steady_env mem_start))) = 1"
    using steady idle s_fetchCourseData s_fetchQuestionSetData zero1 by simp
  have run2: "failedExecutions (jobStatus (snd (executeCronJob steady_env mem_start))) = 0"
    using steady idle s_fetchCourseData s_fetchQuestionSetData zero2 by simp
  show ?thesis
    by (intro conjI c1_h0 c1_n c1_t c2_h1 c2_n c2_t c3_h2 c3_n c3_t c4_h2 c4_n c4_t c5_h2 c5_n
        c5_t c6_h2 c6_n c6_t q1_h0 q1_n q1_t q2_h1 q2_n q2_t q3_h2 q3_n q3_t q4_h2 q4_n q4_t q5_h2
        q5_n q5_t q6_h2 q6_n q6_t cb_f cb_nn cb_run cb_one qb_f qb_nn qb_run qb_one idle
        s_fetchCourseData s_fetchQuestionSetData run1 run2)
qed

text \<open>
  C6 as it was stated covers every batch. A batch can hold an item that is \<open>null\<close>: the
  transformation throws on it, the \<open>catch\<close> of the loop reads its \<open>identifier\<close> for the
  error line, and that read throws a TypeError outside every per-item \<open>try\<close>. The
  sub-pull ends with the TypeError, the item after the \<open>null\<close> is never handed to the
  transformation, no per-item error line is written, and the run is recorded as failed.
\<close>

theorem null_item_aborts_batch:
  "fetchCourseData mem_env (world mem_null_batch) =
     (Inr \<lparr>resp_success = True, resp_data = Some [JNull, JObj course_c]\<rparr>,
      world mem_null_batch)
   \<and> fst (processCourseData mem_env mem_null_batch) =
       Inl (Exn TypeErrorC ''Cannot read properties of null (reading identifier)'')
   \<and> filter (is_call ''transformService.transformExternalCourseData'')
        (new_events mem_null_batch (snd (processCourseData mem_env mem_null_batch))) =
       [Called ''transformService.transformExternalCourseData'' [JNull]]
   \<and> filter (is_item_failure ''Failed to process course data'')
        (new_events mem_null_batch (snd (processCourseData mem_env mem_null_batch))) = []
   \<and> successfulExecutions (jobStatus (snd (executeCronJob mem_env mem_null_batch))) = 0
   \<and> failedExecutions (jobStatus (snd (executeCronJob mem_env mem_null_batch))) = 1
   \<and> lastError (jobStatus (snd (executeCronJob mem_env mem_null_batch))) =
       Some ''Cannot read properties of null (reading identifier)''"
proof (intro conjI)
  show "fetchCourseData mem_env (world mem_null_batch) =
     (Inr \<lparr>resp_success = True, resp_data = Some [JNull, JObj course_c]\<rparr>,
      world mem_null_batch)"
    by (simp add: mem_env_def mem_null_batch_def mem_start_def)
  show "fst (processCourseData mem_env mem_null_batch) =
       Inl (Exn TypeErrorC ''Cannot read properties of null (reading identifier)'')"
    by code_simp
  show "filter (is_call ''transformService.transformExternalCourseData'')
        (new_events mem_null_batch (snd (processCourseData mem_env mem_null_batch))) =
       [Called ''transformService.transformExternalCourseData'' [JNull]]"
    by code_simp
  show "filter (is_item_failure ''Failed to process course data'')
        (new_events mem_null_batch (snd (processCourseData mem_env mem_null_batch))) = []"
    by code_simp
  show "successfulExecutions (jobStatus (snd (executeCronJob mem_env mem_null_batch))) = 0"
    by code_simp
  show "failedExecutions (jobStatus (snd (executeCronJob mem_env mem_null_batch))) = 1"
    by code_simp
  show "lastError (jobStatus (snd (executeCronJob mem_env mem_null_batch))) =
       Some ''Cannot read properties of null (reading identifier)''"
    by code_simp
qed

section \<open>Saving an item\<close>

lemma mem_insert_course:
  "courseRepo_findOne mem_env (field_of course_a ''identifier'') (world mem_start) =
     (Inr None, world mem_start)
   \<and> courseRepo_save mem_env course_a (world mem_start) =
     (Inr (), (world mem_start)\<lparr>courses := [(JStr ''do_1'', course_a)]\<rparr>)"
  by (simp add: mem_env_def mem_guard_def mem_start_def course_a_def field_of_def)

lemma mem_update_course:
  "courseRepo_findOne mem_env (field_of course_a ''identifier'') (world mem_stored) =
     (Inr (Some course_a), world mem_stored)
   \<and> courseRepo_update mem_env (field_of course_a ''identifier'')
       (AList.update ''updated_at'' (JDate (Date_now mem_env (world mem_stored))) course_a)
       (world mem_stored) =
     (Inr (), (world mem_stored)\<lparr>courses :=
        [(JStr ''do_1'', course_a @ [(''updated_at'', JDate 1000)])]\<rparr>)"
  by (simp add: mem_env_def mem_guard_def mem_stored_def mem_start_def course_a_def field_of_def
      mem_update_def merge_fields_def)

lemma mem_insert_question_set:
  "questionSetRepo_findOne mem_env (field_of question_set_b ''identifier'') (world mem_start) =
     (Inr None, world mem_start)
   \<and> questionSetRepo_save mem_env question_set_b (world mem_start) =
     (Inr (), (world mem_start)\<lparr>question_sets := [(JStr ''qs_2'', question_set_b)]\<rparr>)"
  by (simp add: mem_env_def mem_guard_def mem_start_def question_set_b_def field_of_def)

lemma mem_update_question_set:
  "questionSetRepo_findOne mem_env (field_of question_set_b ''identifier'') (world mem_stored) =
     (Inr (Some question_set_b), world mem_stored)
   \<and> questionSetRepo_update mem_env (field_of question_set_b ''identifier'')
       (AList.update ''updated_at'' (JDate (Date_now mem_env (world mem_stored))) question_set_b)
       (world mem_stored) =
     (Inr (), (world mem_stored)\<lparr>question_sets :=
        [(JStr ''qs_2'', question_set_b @ [(''updated_at'', JDate 1000)])]\<rparr>)"
  by (simp add: mem_env_def mem_guard_def mem_stored_def mem_start_def question_set_b_def field_of_def
      mem_update_def merge_fields_def)

text \<open>
  C9, as amended. \<open>saveCourseData\<close> and \<open>saveQuestionSetData\<close> look the row up by
  \<open>identifier\<close>. When the repository finds a row, \<open>update\<close> is called for that
  identifier with every field of the record and a fresh \<open>updated_at\<close>. When it finds
  none, \<open>save\<close> is called with the record as it was given: the function adds no
  \<open>updated_at\<close> on that path (the entity and the schema, which may supply one, are not
  part of this code).
\<close>

theorem save_looks_up_then_updates_or_inserts:
  "(courseRepo_findOne env (field_of c ''identifier'') (world s) = (Inr None, w1)
      \<and> courseRepo_save env c w1 = (Inr (), w2) \<longrightarrow>
    saveCourseData env c s =
      (Inr (), s\<lparr>world := w2, trace := trace s @
         [Called ''courseRepo.findOne'' [where_identifier (field_of c ''identifier'')],
          Called ''courseRepo.save'' [JObj c],
          Logged DEBUG ''Created new course'' None
            [(''identifier'', field_of c ''identifier'')]]\<rparr>))
   \<and> (courseRepo_findOne env (field_of c ''identifier'') (world s) = (Inr (Some row), w1)
      \<and> courseRepo_update env (field_of c ''identifier'')
           (AList.update ''updated_at'' (JDate (Date_now env w1)) c) w1 = (Inr (), w2) \<longrightarrow>
    saveCourseData env c s =
      (Inr (), s\<lparr>world := w2, trace := trace s @
         [Called ''courseRepo.findOne'' [where_identifier (field_of c ''identifier'')],
          Called ''courseRepo.update''
            [JObj [(''identifier'', field_of c ''identifier'')],
             JObj (AList.update ''updated_at'' (JDate (Date_now env w1)) c)],
          Logged DEBUG ''Updated existing course'' None
            [(''identifier'', field_of c ''identifier'')]]\<rparr>))
   \<and> (questionSetRepo_findOne env (field_of c ''identifier'') (world s) = (Inr None, w1)
      \<and> questionSetRepo_save env c w1 = (Inr (), w2) \<longrightarrow>
    saveQuestionSetData env c s =
      (Inr (), s\<lparr>world := w2, trace := trace s @
         [Called ''questionSetRepo.findOne'' [where_identifier (field_of c ''identifier'')],
          Called ''questionSetRepo.save'' [JObj c],
          Logged DEBUG ''Created new question set'' None
            [(''identifier'', field_of c ''identifier'')]]\<rparr>))
   \<and> (questionSetRepo_findOne env (field_of c ''identifier'') (world s) = (Inr (Some row), w1)
      \<and> questionSetRepo_update env (field_of c ''identifier'')
           (AList.update ''updated_at'' (JDate (Date_now env w1)) c) w1 = (Inr (), w2) \<longrightarrow>
    saveQuestionSetData env c s =
      (Inr (), s\<lparr>world := w2, trace := trace s @
         [Called ''questionSetRepo.findOne'' [where_identifier (field_of c ''identifier'')],
          Called ''questionSetRepo.update''
            [JObj [(''identifier'', field_of c ''identifier'')],
             JObj (AList.update ''updated_at'' (JDate (Date_now env w1)) c)],
          Logged DEBUG ''Updated existing question set'' None
            [(''identifier'', field_of c ''identifier'')]]\<rparr>))
   \<and> field_of (AList.update ''updated_at'' (JDate t) c) ''updated_at'' = JDate t
   \<and> (k \<noteq> ''updated_at'' \<longrightarrow>
        field_of (AList.update ''updated_at'' (JDate t) c) k = field_of c k)"
  by (simp add: saveCourseData_def saveQuestionSetData_def prog_defs field_of_def update_conv')

theorem save_looks_up_then_updates_or_inserts_witness:
  "(courseRepo_findOne mem_env (field_of course_a ''identifier'') (world mem_start) =
     (Inr None, world mem_start)
    \<and> courseRepo_save mem_env course_a (world mem_start) =
     (Inr (), (world mem_start)\<lparr>courses := [(JStr ''do_1'', course_a)]\<rparr>))
   \<and> fst (saveCourseData mem_env course_a mem_start) = Inr ()
   \<and> (courseRepo_findOne mem_env (field_of course_a ''identifier'') (world mem_stored) =
     (Inr (Some course_a), world mem_stored)
    \<and> courseRepo_update mem_env (field_of course_a ''identifier'')
       (AList.update ''updated_at'' (JDate (Date_now mem_env (world mem_stored))) course_a)
       (world mem_stored) =
     (Inr (), (world mem_stored)\<lparr>courses :=
        [(JStr ''do_1'', course_a @ [(''updated_at'', JDate 1000)])]\<rparr>))
   \<and> courses (world (snd (saveCourseData mem_env course_a mem_stored))) =
       [(JStr ''do_1'', course_a @ [(''updated_at'', JDate 1000)])]
   \<and> (questionSetRepo_findOne mem_env (field_of question_set_b ''identifier'')
         (world mem_start) = (Inr None, world mem_start)
    \<and> questionSetRepo_save mem_env question_set_b (world mem_start) =
     (Inr (), (world mem_start)\<lparr>question_sets := [(JStr ''qs_2'', question_set_b)]\<rparr>))
   \<and> fst (saveQuestionSetData mem_env question_set_b mem_start) = Inr ()
   \<and> (questionSetRepo_findOne mem_env (field_of question_set_b ''identifier'')
         (world mem_stored) = (Inr (Some question_set_b), world mem_stored)
    \<and> questionSetRepo_update mem_env (field_of question_set_b ''identifier'')
       (AList.update ''updated_at'' (JDate (Date_now mem_env (world mem_stored))) question_set_b)
       (world mem_stored) =
     (Inr (), (world mem_stored)\<lparr>question_sets :=
        [(JStr ''qs_2'', question_set_b @ [(''updated_at'', JDate 1000)])]\<rparr>))
   \<and> question_sets (world (snd (saveQuestionSetData mem_env question_set_b mem_stored))) =
       [(JStr ''qs_2'', question_set_b @ [(''updated_at'', JDate 1000)])]
   \<and> ''identifier'' \<noteq> ''updated_at''
   \<and> field_of (AList.update ''updated_at'' (JDate 1000) course_a) ''identifier'' = JStr ''do_1''"
proof -
  have k: "''identifier'' \<noteq> ''updated_at''" by simp
  have f: "field_of course_a ''identifier'' = JStr ''do_1''"
    by (simp add: course_a_def field_of_def)
  note a = save_looks_up_then_updates_or_inserts
    [where env = mem_env and c = course_a and s = mem_start and ?w1.0 = "world mem_start"
       and ?w2.0 = "(world mem_start)\<lparr>courses := [(JStr ''do_1'', course_a)]\<rparr>"
       and k = "''identifier''" and t = 1000]
  note b = save_looks_up_then_updates_or_inserts
    [where env = mem_env and c = course_a and s = mem_stored and ?w1.0 = "world mem_stored"
       and row = course_a
       and ?w2.0 = "(world mem_stored)\<lparr>courses :=
           [(JStr ''do_1'', course_a @ [(''updated_at'', JDate 1000)])]\<rparr>"]
  note c = save_looks_up_then_updates_or_inserts
    [where env = mem_env and c = question_set_b and s = mem_start
       and ?w1.0 = "world mem_start"
       and ?w2.0 = "(world mem_start)\<lparr>question_sets := [(JStr ''qs_2'', question_set_b)]\<rparr>"]
  note d = save_looks_up_then_updates_or_inserts
    [where env = mem_env and c = question_set_b and s = mem_stored
       and ?w1.0 = "world mem_stored" and row = question_set_b
       and ?w2.0 = "(world mem_stored)\<lparr>question_sets :=
           [(JStr ''qs_2'', question_set_b @ [(''updated_at'', JDate 1000)])]\<rparr>"]
  have r1: "fst (saveCourseData mem_env course_a mem_start) = Inr ()"
    using a mem_insert_course by simp
  have r2: "courses (world (snd (saveCourseData mem_env course_a mem_stored))) =
       [(JStr ''do_1'', course_a @ [(''updated_at'', JDate 1000)])]"
    using b mem_update_course by simp
  have r3: "fst (saveQuestionSetData mem_env question_set_b mem_start) = Inr ()"
    using c mem_insert_question_set by simp
  have r4: "question_sets (world (snd (saveQuestionSetData mem_env question_set_b mem_stored))) =
       [(JStr ''qs_2'', question_set_b @ [(''updated_at'', JDate 1000)])]"
    using d mem_update_question_set by simp
  have r5: "field_of (AList.update ''updated_at'' (JDate 1000) course_a) ''identifier'' =
       JStr ''do_1''"
    using a k f by simp
  show ?thesis
    using mem_insert_course mem_update_course mem_insert_question_set mem_update_question_set
      r1 r2 r3 r4 r5 k by blast
qed

text \<open>
  C9 as it was stated fails on the insert path: a new course without an
  \<open>updated_at\<close> field is handed to \<open>save\<close> unchanged, and the row stored has none.
\<close>

theorem insert_passes_record_unchanged:
  "fst (saveCourseData mem_env course_a mem_start) = Inr ()
   \<and> courses (world (snd (saveCourseData mem_env course_a mem_start))) =
       [(JStr ''do_1'', course_a)]
   \<and> new_events mem_start (snd (saveCourseData mem_env course_a mem_start)) =
       [Called ''courseRepo.findOne'' [where_identifier (JStr ''do_1'')],
        Called ''courseRepo.save'' [JObj course_a],
        Logged DEBUG ''Created new course'' None [(''identifier'', JStr ''do_1'')]]
   \<and> field_of course_a ''updated_at'' = JUndefined"
  by code_simp

section \<open>The message boundary\<close>

lemma contained_ret: "contained (ret a)"
  by (simp add: contained_def ret_def)

lemma contained_logger: "contained (logger l m e meta)"
  by (simp add: contained_def logger_def)

lemma contained_console: "contained (console m args)"
  by (simp add: contained_def console_def)

lemma contained_lift_error: "contained (lift_error r)"
  by (cases r) (simp_all add: contained_def lift_error_def)

lemma contained_bindE:
  assumes m: "contained m" and f: "\<And>a. contained (f a)"
  shows "contained (bindE m f)"
  unfolding contained_def
proof (intro allI impI)
  fix s t
  assume thrown: "fst (bindE m f s) = Inl t"
  obtain r s1 where ms: "m s = (r, s1)" by (cases "m s")
  show "\<not> nullish_thrown t"
  proof (cases r)
    case (Inl u)
    with ms thrown have "fst (m s) = Inl t" by (simp add: bindE_def)
    with m show ?thesis by (simp add: contained_def)
  next
    case (Inr a)
    with ms thrown have "fst (f a s1) = Inl t" by (simp add: bindE_def)
    with f [of a] show ?thesis by (simp add: contained_def)
  qed
qed

lemma contained_if: "contained a \<Longrightarrow> contained b \<Longrightarrow> contained (if c then a else b)"
  by simp

lemma contained_option:
  "contained a \<Longrightarrow> (\<And>x. contained (b x)) \<Longrightarrow> contained (case v of None \<Rightarrow> a | Some x \<Rightarrow> b x)"
  by (cases v) simp_all

lemma contained_discard: "contained m \<Longrightarrow> contained (discard m)"
  unfolding discard_def by (intro contained_bindE contained_ret)

lemma contained_call:
  assumes "\<forall>name d w t. fst (handler env name d w) = Inl t \<longrightarrow> \<not> nullish_thrown t"
  shows "contained (call env name d)"
  unfolding contained_def
proof (intro allI impI)
  fix s :: "('a, 'b) st_scheme" and t
  assume "fst (call env name d s) = Inl t"
  then have "fst (handler env name d (world s)) = Inl t"
    by (cases "handler env name d (world s)") (simp add: call_def ext_def)
  with assms show "\<not> nullish_thrown t" by blast
qed

lemmas contained_intros = contained_bindE contained_if contained_option contained_discard
  contained_ret contained_logger contained_console contained_lift_error

lemma contained_processEvent:
  assumes "\<forall>name d w t. fst (handler env name d w) = Inl t \<longrightarrow> \<not> nullish_thrown t"
  shows "contained (processEvent env topic event)"
  unfolding processEvent_def received_banner_def handleUserEvent_def handleEventEvent_def
    handleAttendanceEvent_def handleAssessmentEvent_def handleCourseEvent_def
    handleContentEvent_def
  by (intro contained_intros contained_call [OF assms])

lemma contained_legacy_processEvent:
  assumes "\<forall>name d w t. fst (handler env name d w) = Inl t \<longrightarrow> \<not> nullish_thrown t"
  shows "contained (legacy_processEvent env topic event)"
  unfolding legacy_processEvent_def handleUserEvent_def legacy_handleEventEvent_def
    legacy_handleAttendanceEvent_def
  by (intro contained_intros contained_call [OF assms])

lemma contained_eachMessage_try:
  assumes "\<forall>name d w t. fst (handler env name d w) = Inl t \<longrightarrow> \<not> nullish_thrown t"
  shows "contained (eachMessage_try env topic v)"
  unfolding eachMessage_try_def
  by (intro contained_intros contained_processEvent [OF assms])

lemma contained_legacy_eachMessage_try:
  assumes "\<forall>name d w t. fst (handler env name d w) = Inl t \<longrightarrow> \<not> nullish_thrown t"
  shows "contained (legacy_eachMessage_try env topic v)"
  unfolding legacy_eachMessage_try_def
  by (intro contained_intros contained_legacy_processEvent [OF assms])

lemma message_of_value: "\<not> nullish_thrown t \<Longrightarrow> \<exists>mm. message_of t = Inr mm"
proof (cases t)
  case (Error_object e)
  then show ?thesis by simp
next
  case (Thrown_value v)
  assume "\<not> nullish_thrown t"
  with Thrown_value show ?thesis by (cases v) simp_all
qed

lemma report_line:
  "message_of t = Inr mm \<Longrightarrow>
   report_message_error env t s =
     (Inr (), s\<lparr>trace := trace s @
        [Logged ERROR (''Error processing Kafka message: '' @ tpl env mm) (error_of t) []]\<rparr>)"
  by (simp add: report_message_error_def bindE_def lift_error_def logger_def)

lemma caught_returns:
  assumes "contained body"
  shows "fst (try_catch body (report_message_error env) s) = Inr ()"
proof -
  obtain r s1 where b: "body s = (r, s1)" by (cases "body s")
  show ?thesis
  proof (cases r)
    case (Inr u)
    with b show ?thesis by (simp add: try_catch_def)
  next
    case (Inl t)
    with b have "fst (body s) = Inl t" by simp
    with assms have "\<not> nullish_thrown t" unfolding contained_def by blast
    from message_of_value [OF this] obtain mm where "message_of t = Inr mm" by blast
    from report_line [OF this, of env s1] b Inl show ?thesis by (simp add: try_catch_def)
  qed
qed

lemma eachMessage_returns:
  assumes "\<forall>name d w t. fst (handler env name d w) = Inl t \<longrightarrow> \<not> nullish_thrown t"
  shows "fst (eachMessage env topic v s) = Inr ()"
  unfolding eachMessage_def by (rule caught_returns [OF contained_eachMessage_try [OF assms]])

lemma legacy_eachMessage_returns:
  assumes "\<forall>name d w t. fst (handler env name d w) = Inl t \<longrightarrow> \<not> nullish_thrown t"
  shows "fst (legacy_eachMessage env topic v s) = Inr ()"
  unfolding legacy_eachMessage_def
  by (rule caught_returns [OF contained_legacy_eachMessage_try [OF assms]])

lemma consume_returns:
  assumes "\<forall>name d w t. fst (handler env name d w) = Inl t \<longrightarrow> \<not> nullish_thrown t"
  shows "fst (consume env msgs s) = Inr ()"
proof (induction msgs arbitrary: s)
  case Nil
  show ?case by (simp add: ret_def)
next
  case (Cons m ms)
  obtain r s1 where e: "eachMessage env (fst m) (snd m) s = (r, s1)"
    by (cases "eachMessage env (fst m) (snd m) s")
  with eachMessage_returns [OF assms, of "fst m" "snd m" s] have "r = Inr ()" by simp
  with e Cons.IH [of s1] show ?case by (simp add: bindE_def)
qed

lemma legacy_consume_returns:
  assumes "\<forall>name d w t. fst (handler env name d w) = Inl t \<longrightarrow> \<not> nullish_thrown t"
  shows "fst (legacy_consume env msgs s) = Inr ()"
proof (induction msgs arbitrary: s)
  case Nil
  show ?case by (simp add: ret_def)
next
  case (Cons m ms)
  obtain r s1 where e: "legacy_eachMessage env (fst m) (snd m) s = (r, s1)"
    by (cases "legacy_eachMessage env (fst m) (snd m) s")
  with legacy_eachMessage_returns [OF assms, of "fst m" "snd m" s] have "r = Inr ()" by simp
  with e Cons.IH [of s1] show ?case by (simp add: bindE_def)
qed

lemma caught_line:
  assumes "body s = (Inl t, s1)" and "message_of t = Inr mm"
  shows "try_catch body (report_message_error env) s =
           (Inr (), s1\<lparr>trace := trace s1 @
              [Logged ERROR (''Error processing Kafka message: '' @ tpl env mm)
                 (error_of t) []]\<rparr>)"
  using assms report_line [of t mm env s1] by (simp add: try_catch_def)

lemmas router_defs = processEvent_def legacy_processEvent_def destructure_def
  received_banner_def handleUserEvent_def handleCourseEvent_def handleContentEvent_def
  eachMessage_def eachMessage_try_def legacy_eachMessage_def legacy_eachMessage_try_def
  report_message_error_def tpl_def field_of_def

lemma user_delete_rejected:
  assumes "raw \<noteq> []" and "JSON_parse env raw = Inr (JObj kvs)"
    and "field_of kvs ''eventType'' = JStr ''USER_DELETED''"
    and "truthy (field_of kvs ''data'')"
    and "handler env ''userHandler.handleUserDelete'' (field_of kvs ''data'') (world s) =
           (Inl t, w1)"
  shows "eachMessage_try env ''user-topic'' (Some raw) s =
           (Inl t, s\<lparr>world := w1, trace := trace s @
              [Console ''=== KAFKA MESSAGE RECEIVED ==='' [],
               Console ''Topic:'' [JStr ''user-topic''],
               Console ''EventType:'' [JStr ''USER_DELETED''],
               Console ''Data:'' [JSON_stringify env (field_of kvs ''data'') 2],
               Console ''==============================='' [],
               Called ''userHandler.handleUserDelete'' [field_of kvs ''data'']]\<rparr>)"
    and "legacy_eachMessage_try env ''user-topic'' (Some raw) s =
           (Inl t, s\<lparr>world := w1, trace := trace s @
              [Logged DEBUG (''Received event from topic ['' @ ''user-topic'' @ '']: '' @ raw)
                 None [],
               Called ''userHandler.handleUserDelete'' [field_of kvs ''data'']]\<rparr>)"
  using assms
  by (simp_all add: eachMessage_try_def legacy_eachMessage_try_def processEvent_def
      legacy_processEvent_def destructure_def received_banner_def handleUserEvent_def
      prog_defs)

lemma demo_handlers:
  "\<forall>name d w t. fst (handler js_demo_env name d w) = Inl t \<longrightarrow> \<not> nullish_thrown t"
  by (auto simp: js_demo_env_def split: if_splits)

lemma demo_delete_try:
  "fst (eachMessage_try js_demo_env ''user-topic'' (Some ''delete-user'') js_start) =
     Inl (Error_object (Exn ErrorC ''user not found''))"
  "fst (legacy_eachMessage_try js_demo_env ''user-topic'' (Some ''delete-user'') js_start) =
     Inl (Error_object (Exn ErrorC ''user not found''))"
  by (simp_all add: router_defs prog_defs js_demo_env_def js_start_def delete_event_def)

lemma demo_consume_calls:
  "filter is_any_call
     (trace (snd (consume js_demo_env
        [(''user-topic'', Some ''oops''), (''user-topic'', Some ''delete-user''),
         (''user-topic'', Some ''enrollment'')] js_start))) =
     [Called ''userHandler.handleUserDelete'' [JObj [(''identifier'', JStr ''u1'')]],
      Called ''courseHandler.handleCourseEnrollmentCreated'' [JObj [(''userId'', JStr ''u1'')]]]"
  by (simp add: router_defs prog_defs js_demo_env_def js_start_def delete_event_def
      enrollment_event_def)

text \<open>
  C3, as amended. As long as no handler rejects with \<open>undefined\<close> or \<open>null\<close>, the
  callback given to the consumer returns normally for every message, in both routers:
  whatever \<open>JSON.parse\<close>, the destructuring or a handler throws. What the \<open>try\<close> block
  throws is caught and leaves one error line made of its message: so does a text that
  does not parse, and so does a rejection of the user handler, in both routers. A
  consumer that hands over a list of messages then reaches every one of them: the run
  over \<open>m # msgs\<close> is the run over \<open>msgs\<close> from the state \<open>m\<close> left.
\<close>

theorem message_boundary_absorbs_errors:
  assumes "\<forall>name d w t. fst (handler env name d w) = Inl t \<longrightarrow> \<not> nullish_thrown t"
  shows "fst (eachMessage env topic v s) = Inr ()
   \<and> fst (legacy_eachMessage env topic v s) = Inr ()
   \<and> fst (consume env msgs s) = Inr ()
   \<and> fst (legacy_consume env msgs s) = Inr ()
   \<and> consume env (m # msgs) s = consume env msgs (snd (eachMessage env (fst m) (snd m) s))
   \<and> legacy_consume env (m # msgs) s =
       legacy_consume env msgs (snd (legacy_eachMessage env (fst m) (snd m) s))
   \<and> (raw \<noteq> [] \<and> JSON_parse env raw = Inl e \<longrightarrow>
        eachMessage env topic (Some raw) s =
          (Inr (), s\<lparr>trace := trace s @
             [Logged ERROR (''Error processing Kafka message: '' @ message e) (Some e) []]\<rparr>)
        \<and> legacy_eachMessage env topic (Some raw) s =
          (Inr (), s\<lparr>trace := trace s @
             [Logged ERROR (''Error processing Kafka message: '' @ message e) (Some e) []]\<rparr>))
   \<and> (eachMessage_try env topic v s = (Inl t, s1) \<and> message_of t = Inr mm \<longrightarrow>
        eachMessage env topic v s =
          (Inr (), s1\<lparr>trace := trace s1 @
             [Logged ERROR (''Error processing Kafka message: '' @ tpl env mm)
                (error_of t) []]\<rparr>))
   \<and> (legacy_eachMessage_try env topic v s = (Inl t, s1) \<and> message_of t = Inr mm \<longrightarrow>
        legacy_eachMessage env topic v s =
          (Inr (), s1\<lparr>trace := trace s1 @
             [Logged ERROR (''Error processing Kafka message: '' @ tpl env mm)
                (error_of t) []]\<rparr>))
   \<and> (raw \<noteq> [] \<and> JSON_parse env raw = Inr (JObj kvs)
        \<and> field_of kvs ''eventType'' = JStr ''USER_DELETED''
        \<and> truthy (field_of kvs ''data'')
        \<and> handler env ''userHandler.handleUserDelete'' (field_of kvs ''data'') (world s) =
            (Inl t, w1)
        \<and> message_of t = Inr mm \<longrightarrow>
        filter is_error_line
          (new_events s (snd (eachMessage env ''user-topic'' (Some raw) s))) =
          [Logged ERROR (''Error processing Kafka message: '' @ tpl env mm) (error_of t) []]
        \<and> filter is_error_line
          (new_events s (snd (legacy_eachMessage env ''user-topic'' (Some raw) s))) =
          [Logged ERROR (''Error processing Kafka message: '' @ tpl env mm) (error_of t) []])"
proof -
  have a: "consume env (m # msgs) s = consume env msgs (snd (eachMessage env (fst m) (snd m) s))"
    using eachMessage_returns [OF assms, of "fst m" "snd m" s]
    by (cases "eachMessage env (fst m) (snd m) s") (simp add: bindE_def)
  have b: "legacy_consume env (m # msgs) s =
       legacy_consume env msgs (snd (legacy_eachMessage env (fst m) (snd m) s))"
    using legacy_eachMessage_returns [OF assms, of "fst m" "snd m" s]
    by (cases "legacy_eachMessage env (fst m) (snd m) s") (simp add: bindE_def)
  have c: "raw \<noteq> [] \<and> JSON_parse env raw = Inl e \<longrightarrow>
        eachMessage env topic (Some raw) s =
          (Inr (), s\<lparr>trace := trace s @
             [Logged ERROR (''Error processing Kafka message: '' @ message e) (Some e) []]\<rparr>)
        \<and> legacy_eachMessage env topic (Some raw) s =
          (Inr (), s\<lparr>trace := trace s @
             [Logged ERROR (''Error processing Kafka message: '' @ message e) (Some e) []]\<rparr>)"
    by (simp add: eachMessage_def eachMessage_try_def legacy_eachMessage_def
        legacy_eachMessage_try_def report_message_error_def tpl_def prog_defs)
  have d: "eachMessage_try env topic v s = (Inl t, s1) \<and> message_of t = Inr mm \<longrightarrow>
        eachMessage env topic v s =
          (Inr (), s1\<lparr>trace := trace s1 @
             [Logged ERROR (''Error processing Kafka message: '' @ tpl env mm)
                (error_of t) []]\<rparr>)"
    unfolding eachMessage_def using caught_line [of "eachMessage_try env topic v" s t s1 mm env]
    by blast
  have e: "legacy_eachMessage_try env topic v s = (Inl t, s1) \<and> message_of t = Inr mm \<longrightarrow>
        legacy_eachMessage env topic v s =
          (Inr (), s1\<lparr>trace := trace s1 @
             [Logged ERROR (''Error processing Kafka message: '' @ tpl env mm)
                (error_of t) []]\<rparr>)"
    unfolding legacy_eachMessage_def
    using caught_line [of "legacy_eachMessage_try env topic v" s t s1 mm env]
    by blast
  have f: "raw \<noteq> [] \<and> JSON_parse env raw = Inr (JObj kvs)
        \<and> field_of kvs ''eventType'' = JStr ''USER_DELETED''
        \<and> truthy (field_of kvs ''data'')
        \<and> handler env ''userHandler.handleUserDelete'' (field_of kvs ''data'') (world s) =
            (Inl t, w1)
        \<and> message_of t = Inr mm \<longrightarrow>
        filter is_error_line
          (new_events s (snd (eachMessage env ''user-topic'' (Some raw) s))) =
          [Logged ERROR (''Error processing Kafka message: '' @ tpl env mm) (error_of t) []]
        \<and> filter is_error_line
          (new_events s (snd (legacy_eachMessage env ''user-topic'' (Some raw) s))) =
          [Logged ERROR (''Error processing Kafka message: '' @ tpl env mm) (error_of t) []]"
  proof (intro impI)
    assume h: "raw \<noteq> [] \<and> JSON_parse env raw = Inr (JObj kvs)
        \<and> field_of kvs ''eventType'' = JStr ''USER_DELETED''
        \<and> truthy (field_of kvs ''data'')
        \<and> handler env ''userHandler.handleUserDelete'' (field_of kvs ''data'') (world s) =
            (Inl t, w1)
        \<and> message_of t = Inr mm"
    then have mm: "message_of t = Inr mm" by blast
    from h have hs: "raw \<noteq> []" "JSON_parse env raw = Inr (JObj kvs)"
      "field_of kvs ''eventType'' = JStr ''USER_DELETED''" "truthy (field_of kvs ''data'')"
      "handler env ''userHandler.handleUserDelete'' (field_of kvs ''data'') (world s) =
         (Inl t, w1)"
      by blast+
    note tr = user_delete_rejected(1) [OF hs]
    note tr' = user_delete_rejected(2) [OF hs]
    have one: "filter is_error_line
          (new_events s (snd (eachMessage env ''user-topic'' (Some raw) s))) =
          [Logged ERROR (''Error processing Kafka message: '' @ tpl env mm) (error_of t) []]"
      unfolding eachMessage_def
        caught_line [where body = "eachMessage_try env ''user-topic'' (Some raw)" and s = s
          and env = env, OF tr mm]
      by (simp add: new_events_def)
    have two: "filter is_error_line
          (new_events s (snd (legacy_eachMessage env ''user-topic'' (Some raw) s))) =
          [Logged ERROR (''Error processing Kafka message: '' @ tpl env mm) (error_of t) []]"
      unfolding legacy_eachMessage_def
        caught_line [where body = "legacy_eachMessage_try env ''user-topic'' (Some raw)"
          and s = s and env = env, OF tr' mm]
      by (simp add: new_events_def)
    from one two show "filter is_error_line
          (new_events s (snd (eachMessage env ''user-topic'' (Some raw) s))) =
          [Logged ERROR (''Error processing Kafka message: '' @ tpl env mm) (error_of t) []]
        \<and> filter is_error_line
          (new_events s (snd (legacy_eachMessage env ''user-topic'' (Some raw) s))) =
          [Logged ERROR (''Error processing Kafka message: '' @ tpl env mm) (error_of t) []]"
      by blast
  qed
  show ?thesis
    using eachMessage_returns [OF assms] legacy_eachMessage_returns [OF assms]
      consume_returns [OF assms] legacy_consume_returns [OF assms] a b c d e f
    by blast
qed

theorem message_boundary_absorbs_errors_witness:
  "(\<forall>name d w. handler js_demo_env name d w =
                   (Inl (Error_object (Exn ErrorC ''user not found'')), w + 1)
                \<or> handler js_demo_env name d w = (Inr d, w + 1))
   \<and> ''oops'' \<noteq> []
   \<and> JSON_parse js_demo_env ''oops'' = Inl (Exn SyntaxErrorC ''Unexpected token in JSON'')
   \<and> eachMessage js_demo_env ''user-topic'' (Some ''oops'') js_start =
       (Inr (), js_start\<lparr>trace := trace js_start @
          [Logged ERROR ''Error processing Kafka message: Unexpected token in JSON''
             (Some (Exn SyntaxErrorC ''Unexpected token in JSON'')) []]\<rparr>)
   \<and> legacy_eachMessage js_demo_env ''user-topic'' (Some ''oops'') js_start =
       (Inr (), js_start\<lparr>trace := trace js_start @
          [Logged ERROR ''Error processing Kafka message: Unexpected token in JSON''
             (Some (Exn SyntaxErrorC ''Unexpected token in JSON'')) []]\<rparr>)
   \<and> ''delete-user'' \<noteq> []
   \<and> JSON_parse js_demo_env ''delete-user'' =
       Inr (JObj [(''eventType'', JStr ''USER_DELETED''),
                  (''data'', JObj [(''identifier'', JStr ''u1'')])])
   \<and> handler js_demo_env ''userHandler.handleUserDelete''
        (JObj [(''identifier'', JStr ''u1'')]) (world js_start) =
       (Inl (Error_object (Exn ErrorC ''user not found'')), 1)
   \<and> message_of (Error_object (Exn ErrorC ''user not found'')) = Inr (JStr ''user not found'')
   \<and> fst (eachMessage_try js_demo_env ''user-topic'' (Some ''delete-user'') js_start) =
       Inl (Error_object (Exn ErrorC ''user not found''))
   \<and> fst (legacy_eachMessage_try js_demo_env ''user-topic'' (Some ''delete-user'') js_start) =
       Inl (Error_object (Exn ErrorC ''user not found''))
   \<and> fst (eachMessage js_demo_env ''user-topic'' (Some ''delete-user'') js_start) = Inr ()
   \<and> fst (legacy_eachMessage js_demo_env ''user-topic'' (Some ''delete-user'') js_start) = Inr ()
   \<and> filter is_error_line
       (new_events js_start
          (snd (eachMessage js_demo_env ''user-topic'' (Some ''delete-user'') js_start))) =
       [Logged ERROR ''Error processing Kafka message: user not found''
          (Some (Exn ErrorC ''user not found'')) []]
   \<and> filter is_error_line
       (new_events js_start
          (snd (legacy_eachMessage js_demo_env ''user-topic'' (Some ''delete-user'') js_start))) =
       [Logged ERROR ''Error processing Kafka message: user not found''
          (Some (Exn ErrorC ''user not found'')) []]
   \<and> fst (consume js_demo_env
        [(''user-topic'', Some ''oops''), (''user-topic'', Some ''delete-user''),
         (''user-topic'', Some ''enrollment'')] js_start) = Inr ()
   \<and> filter is_any_call
       (trace (snd (consume js_demo_env
          [(''user-topic'', Some ''oops''), (''user-topic'', Some ''delete-user''),
           (''user-topic'', Some ''enrollment'')] js_start))) =
       [Called ''userHandler.handleUserDelete'' [JObj [(''identifier'', JStr ''u1'')]],
        Called ''courseHandler.handleCourseEnrollmentCreated''
          [JObj [(''userId'', JStr ''u1'')]]]"
proof -
  have h0: "\<forall>name d w. handler js_demo_env name d w =
                   (Inl (Error_object (Exn ErrorC ''user not found'')), w + 1)
                \<or> handler js_demo_env name d w = (Inr d, w + 1)"
    by (simp add: js_demo_env_def)
  have n1: "''oops'' \<noteq> []" and n2: "''delete-user'' \<noteq> []" by simp_all
  have p1: "JSON_parse js_demo_env ''oops'' = Inl (Exn SyntaxErrorC ''Unexpected token in JSON'')"
    by (simp add: js_demo_env_def)
  have p2: "JSON_parse js_demo_env ''delete-user'' =
       Inr (JObj [(''eventType'', JStr ''USER_DELETED''),
                  (''data'', JObj [(''identifier'', JStr ''u1'')])])"
    by (simp add: js_demo_env_def delete_event_def)
  have et: "field_of [(''eventType'', JStr ''USER_DELETED''),
                      (''data'', JObj [(''identifier'', JStr ''u1'')])] ''eventType'' =
              JStr ''USER_DELETED''"
    and dt: "field_of [(''eventType'', JStr ''USER_DELETED''),
                      (''data'', JObj [(''identifier'', JStr ''u1'')])] ''data'' =
              JObj [(''identifier'', JStr ''u1'')]"
    by (simp_all add: field_of_def)
  have hd: "handler js_demo_env ''userHandler.handleUserDelete''
        (JObj [(''identifier'', JStr ''u1'')]) (world js_start) =
       (Inl (Error_object (Exn ErrorC ''user not found'')), 1)"
    by (simp add: js_demo_env_def js_start_def)
  have mo: "message_of (Error_object (Exn ErrorC ''user not found'')) =
              Inr (JStr ''user not found'')"
    by simp
  note a = message_boundary_absorbs_errors
    [OF demo_handlers, where topic = "''user-topic''" and s = js_start
       and raw = "''oops''" and e = "Exn SyntaxErrorC ''Unexpected token in JSON''"]
  note b = message_boundary_absorbs_errors
    [OF demo_handlers, where topic = "''user-topic''" and s = js_start
       and v = "Some ''delete-user''" and raw = "''delete-user''"
       and kvs = "[(''eventType'', JStr ''USER_DELETED''),
                   (''data'', JObj [(''identifier'', JStr ''u1'')])]"
       and t = "Error_object (Exn ErrorC ''user not found'')"
       and ?w1.0 = 1 and mm = "JStr ''user not found''"
       and msgs = "[(''user-topic'', Some ''oops''), (''user-topic'', Some ''delete-user''),
                    (''user-topic'', Some ''enrollment'')]"]
  have r1: "eachMessage js_demo_env ''user-topic'' (Some ''oops'') js_start =
       (Inr (), js_start\<lparr>trace := trace js_start @
          [Logged ERROR ''Error processing Kafka message: Unexpected token in JSON''
             (Some (Exn SyntaxErrorC ''Unexpected token in JSON'')) []]\<rparr>)"
    and r1': "legacy_eachMessage js_demo_env ''user-topic'' (Some ''oops'') js_start =
       (Inr (), js_start\<lparr>trace := trace js_start @
          [Logged ERROR ''Error processing Kafka message: Unexpected token in JSON''
             (Some (Exn SyntaxErrorC ''Unexpected token in JSON'')) []]\<rparr>)"
    using a n1 p1 by simp_all
  have r2: "fst (eachMessage js_demo_env ''user-topic'' (Some ''delete-user'') js_start) = Inr ()"
    and r2': "fst (legacy_eachMessage js_demo_env ''user-topic'' (Some ''delete-user'') js_start)
               = Inr ()"
    and r3: "fst (consume js_demo_env
        [(''user-topic'', Some ''oops''), (''user-topic'', Some ''delete-user''),
         (''user-topic'', Some ''enrollment'')] js_start) = Inr ()"
    using b by blast+
  have r4: "filter is_error_line
       (new_events js_start
          (snd (eachMessage js_demo_env ''user-topic'' (Some ''delete-user'') js_start))) =
       [Logged ERROR ''Error processing Kafka message: user not found''
          (Some (Exn ErrorC ''user not found'')) []]"
    and r4': "filter is_error_line
       (new_events js_start
          (snd (legacy_eachMessage js_demo_env ''user-topic'' (Some ''delete-user'') js_start))) =
       [Logged ERROR ''Error processing Kafka message: user not found''
          (Some (Exn ErrorC ''user not found'')) []]"
    using b n2 p2 et dt hd mo by (simp_all add: tpl_def)
  show ?thesis
    using h0 n1 n2 p1 p2 hd mo demo_delete_try r1 r1' r2 r2' r3 r4 r4' demo_consume_calls
    by blast
qed

text \<open>
  C3 as it was stated fails when a handler rejects with \<open>undefined\<close>: the \<open>catch\<close>
  throws a TypeError on \<open>error.message\<close>, the callback rejects with it in both
  routers, no error line is written, and the consumer loop modelled above does not
  reach the next message.
\<close>

theorem nullish_rejection_escapes:
  "handler js_reject_env ''userHandler.handleUserDelete''
     (JObj [(''identifier'', JStr ''u1'')]) 0 = (Inl (Thrown_value JUndefined), 1)
   \<and> fst (eachMessage js_reject_env ''user-topic'' (Some ''delete-user'') js_start) =
       Inl (Error_object
              (Exn TypeErrorC ''Cannot read properties of undefined (reading message)''))
   \<and> filter is_error_line
       (trace (snd (eachMessage js_reject_env ''user-topic'' (Some ''delete-user'') js_start)))
       = []
   \<and> fst (legacy_eachMessage js_reject_env ''user-topic'' (Some ''delete-user'') js_start) =
       Inl (Error_object
              (Exn TypeErrorC ''Cannot read properties of undefined (reading message)''))
   \<and> filter is_any_call
       (trace (snd (consume js_reject_env
          [(''user-topic'', Some ''delete-user''), (''user-topic'', Some ''enrollment'')]
          js_start))) =
       [Called ''userHandler.handleUserDelete'' [JObj [(''identifier'', JStr ''u1'')]]]"
  by (simp add: router_defs prog_defs js_reject_env_def js_demo_env_def js_start_def
      delete_event_def enrollment_event_def)

section \<open>Routing\<close>




text \<open>
  C5, as amended. In the router that has the course and the content handler, an envelope
  with a truthy \<open>data\<close> and the event type \<open>COURSE_ENROLLMENT_CREATED\<close> (respectively
  \<open>CONTENT_TRACKING_CREATED\<close>) makes exactly one call, of
  \<open>courseHandler.handleCourseEnrollmentCreated\<close> (respectively
  \<open>contentHandler.handleContentTrackingCreated\<close>) on \<open>data\<close>, whatever the topic: the
  outcome and the world are those of that call, and no warning of the dispatch by topic
  is written. The earlier router in \<open>kafka/kafka-consumer.ts\<close> has neither handler and
  dispatches by topic only.
\<close>

theorem override_routing_ignores_topic:
  assumes "field_of kvs ''data'' = d" and "truthy d"
  shows "(field_of kvs ''eventType'' = JStr ''COURSE_ENROLLMENT_CREATED'' \<longrightarrow>
            filter is_any_call (new_events s (snd (processEvent env topic (JObj kvs) s))) =
              [Called ''courseHandler.handleCourseEnrollmentCreated'' [d]]
            \<and> filter is_warning (new_events s (snd (processEvent env topic (JObj kvs) s))) = []
            \<and> fst (processEvent env topic (JObj kvs) s) =
                fst (discard (call env ''courseHandler.handleCourseEnrollmentCreated'' d) s)
            \<and> world (snd (processEvent env topic (JObj kvs) s)) =
                world (snd (call env ''courseHandler.handleCourseEnrollmentCreated'' d s)))
         \<and> (field_of kvs ''eventType'' = JStr ''CONTENT_TRACKING_CREATED'' \<longrightarrow>
            filter is_any_call (new_events s (snd (processEvent env topic (JObj kvs) s))) =
              [Called ''contentHandler.handleContentTrackingCreated'' [d]]
            \<and> filter is_warning (new_events s (snd (processEvent env topic (JObj kvs) s))) = []
            \<and> fst (processEvent env topic (JObj kvs) s) =
                fst (discard (call env ''contentHandler.handleContentTrackingCreated'' d) s)
            \<and> world (snd (processEvent env topic (JObj kvs) s)) =
                world (snd (call env ''contentHandler.handleContentTrackingCreated'' d s)))"
proof (intro conjI impI)
  assume e: "field_of kvs ''eventType'' = JStr ''COURSE_ENROLLMENT_CREATED''"
  obtain r w where c: "handler env ''courseHandler.handleCourseEnrollmentCreated'' d (world s) = (r, w)"
    by (cases "handler env ''courseHandler.handleCourseEnrollmentCreated'' d (world s)")
  have run: "processEvent env topic (JObj kvs) s =
      ((case r of Inl x \<Rightarrow> Inl x | Inr v \<Rightarrow> Inr ()),
       s\<lparr>world := w, trace := trace s @
         [Console ''=== KAFKA MESSAGE RECEIVED ==='' [],
          Console ''Topic:'' [JStr topic],
          Console ''EventType:'' [JStr ''COURSE_ENROLLMENT_CREATED''],
          Console ''Data:'' [JSON_stringify env d 2],
          Console ''==============================='' [],
          Console ''ROUTING: Course enrollment event detected, routing to course handler'' [],
          Console (''[KafkaConsumer] handleCourseEvent called with eventType: ''
                     @ ''COURSE_ENROLLMENT_CREATED'') [],
          Console ''[KafkaConsumer] Course event data:'' [JSON_stringify env d 2],
          Logged LOG (''Handling course-event type: '' @ ''COURSE_ENROLLMENT_CREATED'') None [],
          Console ''[KafkaConsumer] Calling courseHandler.handleCourseEnrollmentCreated...'' [],
          Called ''courseHandler.handleCourseEnrollmentCreated'' [d]]\<rparr>)"
    using assms e c
    by (cases r)
      (simp_all add: processEvent_def destructure_def received_banner_def handleCourseEvent_def
        tpl_def prog_defs)
  show "filter is_any_call (new_events s (snd (processEvent env topic (JObj kvs) s))) =
              [Called ''courseHandler.handleCourseEnrollmentCreated'' [d]]"
    unfolding run by (simp add: new_events_def)
  show "filter is_warning (new_events s (snd (processEvent env topic (JObj kvs) s))) = []"
    unfolding run by (simp add: new_events_def)
  show "fst (processEvent env topic (JObj kvs) s) =
                fst (discard (call env ''courseHandler.handleCourseEnrollmentCreated'' d) s)"
    unfolding run using c by (cases r) (simp_all add: prog_defs)
  show "world (snd (processEvent env topic (JObj kvs) s)) =
                world (snd (call env ''courseHandler.handleCourseEnrollmentCreated'' d s))"
    unfolding run using c by (simp add: prog_defs)
next
  assume e: "field_of kvs ''eventType'' = JStr ''CONTENT_TRACKING_CREATED''"
  obtain r w where c: "handler env ''contentHandler.handleContentTrackingCreated'' d (world s) = (r, w)"
    by (cases "handler env ''contentHandler.handleContentTrackingCreated'' d (world s)")
  have run: "processEvent env topic (JObj kvs) s =
      ((case r of Inl x \<Rightarrow> Inl x | Inr v \<Rightarrow> Inr ()),
       s\<lparr>world := w, trace := trace s @
         [Console ''=== KAFKA MESSAGE RECEIVED ==='' [],
          Console ''Topic:'' [JStr topic],
          Console ''EventType:'' [JStr ''CONTENT_TRACKING_CREATED''],
          Console ''Data:'' [JSON_stringify env d 2],
          Console ''==============================='' [],
          Console ''ROUTING: Content tracking event detected, routing to content handler'' [],
          Console (''[KafkaConsumer] handleContentEvent called with eventType: ''
                     @ ''CONTENT_TRACKING_CREATED'') [],
          Console ''[KafkaConsumer] Content event data:'' [JSON_stringify env d 2],
          Logged LOG (''Handling content-event type: '' @ ''CONTENT_TRACKING_CREATED'') None [],
          Console ''[KafkaConsumer] Calling contentHandler.handleContentTrackingCreated...'' [],
          Called ''contentHandler.handleContentTrackingCreated'' [d]]\<rparr>)"
    using assms e c
    by (cases r)
      (simp_all add: processEvent_def destructure_def received_banner_def handleContentEvent_def
        tpl_def prog_defs)
  show "filter is_any_call (new_events s (snd (processEvent env topic (JObj kvs) s))) =
              [Called ''contentHandler.handleContentTrackingCreated'' [d]]"
    unfolding run by (simp add: new_events_def)
  show "filter is_warning (new_events s (snd (processEvent env topic (JObj kvs) s))) = []"
    unfolding run by (simp add: new_events_def)
  show "fst (processEvent env topic (JObj kvs) s) =
                fst (discard (call env ''contentHandler.handleContentTrackingCreated'' d) s)"
    unfolding run using c by (cases r) (simp_all add: prog_defs)
  show "world (snd (processEvent env topic (JObj kvs) s)) =
                world (snd (call env ''contentHandler.handleContentTrackingCreated'' d s))"
    unfolding run using c by (simp add: prog_defs)
qed

lemma enrollment_event_fields:
  "field_of [(''eventType'', JStr ''COURSE_ENROLLMENT_CREATED''),
             (''data'', JObj [(''userId'', JStr ''u1'')])] ''data'' = JObj [(''userId'', JStr ''u1'')]"
  "field_of [(''eventType'', JStr ''COURSE_ENROLLMENT_CREATED''),
             (''data'', JObj [(''userId'', JStr ''u1'')])] ''eventType'' =
     JStr ''COURSE_ENROLLMENT_CREATED''"
  by (simp_all add: field_of_def)

lemma tracking_event_fields:
  "field_of [(''eventType'', JStr ''CONTENT_TRACKING_CREATED''),
             (''data'', JObj [(''contentId'', JStr ''c9'')])] ''data'' = JObj [(''contentId'', JStr ''c9'')]"
  "field_of [(''eventType'', JStr ''CONTENT_TRACKING_CREATED''),
             (''data'', JObj [(''contentId'', JStr ''c9'')])] ''eventType'' =
     JStr ''CONTENT_TRACKING_CREATED''"
  by (simp_all add: field_of_def)

theorem override_routing_ignores_topic_witness:
  "truthy (JObj [(''userId'', JStr ''u1'')])
   \<and> truthy (JObj [(''contentId'', JStr ''c9'')])
   \<and> filter is_any_call
       (new_events js_start (snd (processEvent js_demo_env ''user-topic'' enrollment_event js_start))) =
       [Called ''courseHandler.handleCourseEnrollmentCreated'' [JObj [(''userId'', JStr ''u1'')]]]
   \<and> filter is_any_call
       (new_events js_start
          (snd (processEvent js_demo_env ''assessment-topic'' enrollment_event js_start))) =
       [Called ''courseHandler.handleCourseEnrollmentCreated'' [JObj [(''userId'', JStr ''u1'')]]]
   \<and> filter is_any_call
       (new_events js_start (snd (processEvent js_demo_env ''user-topic'' tracking_event js_start))) =
       [Called ''contentHandler.handleContentTrackingCreated''
          [JObj [(''contentId'', JStr ''c9'')]]]"
proof -
  have t1: "truthy (JObj [(''userId'', JStr ''u1'')])" by simp
  have t2: "truthy (JObj [(''contentId'', JStr ''c9'')])" by simp
  note a = override_routing_ignores_topic [OF enrollment_event_fields(1) t1,
      of js_start js_demo_env "''user-topic''"]
  note b = override_routing_ignores_topic [OF enrollment_event_fields(1) t1,
      of js_start js_demo_env "''assessment-topic''"]
  note c = override_routing_ignores_topic [OF tracking_event_fields(1) t2,
      of js_start js_demo_env "''user-topic''"]
  show ?thesis
    using a b c t1 t2 enrollment_event_fields(2) tracking_event_fields(2)
    by (simp add: enrollment_event_def tracking_event_def)
qed

text \<open>
  C5 as it was stated fails on the earlier router: the enrollment event on
  \<open>user-topic\<close> goes to the user dispatch, which does not know the event type, and on
  \<open>course-topic\<close> it meets an unhandled topic; no handler is called in either case.
\<close>

theorem legacy_router_dispatches_by_topic:
  "new_events js_start (snd (legacy_processEvent js_demo_env ''user-topic'' enrollment_event js_start)) =
     [Logged WARN ''Unhandled user eventType: COURSE_ENROLLMENT_CREATED'' None []]
   \<and> new_events js_start (snd (legacy_processEvent js_demo_env ''course-topic'' enrollment_event js_start)) =
     [Logged WARN ''Unhandled Kafka topic: course-topic'' None []]
   \<and> filter is_any_call
       (new_events js_start (snd (legacy_processEvent js_demo_env ''user-topic'' enrollment_event js_start))) = []"
  by code_simp

section \<open>The project handler\<close>

text \<open>
  C7. A project-sync payload (a JSON object) that passes the four validator calls and
  for which the transformation returns a value of length zero makes
  \<open>handleProjectSyncUpdate\<close> return the success object with \<open>completedTasks\<close>,
  \<open>inserted\<close> and \<open>skipped\<close> all zero. The only call it has made is the
  transformation: no call on the database service.
\<close>

theorem empty_completed_set_short_circuits:
  assumes "validateRequired env (field_of kvs ''_id'') ''Project ID (_id)'' = None"
    and "validateString env (field_of kvs ''_id'') ''_id'' = None"
    and "validateRequired env (field_of kvs ''solutionId'') ''Solution ID'' = None"
    and "validateRequired env (field_of kvs ''tasks'') ''Tasks array'' = None"
    and "collaborator env ''transformService.transformProjectTaskTrackingData'' (JObj kvs)
           (world s) = (Inr trackingRecords, w)"
    and "get_prop trackingRecords ''length'' = Inr (JNum 0)"
  shows "fst (handleProjectSyncUpdate env (JObj kvs) s) =
           Inr (JObj [(''success'', JBool True),
                      (''projectId'', field_of kvs ''solutionId''),
                      (''status'', field_of kvs ''status''),
                      (''totalTasks'', length_or_0 (field_of kvs ''tasks'')),
                      (''completedTasks'', JNum 0),
                      (''inserted'', JNum 0),
                      (''skipped'', JNum 0)])
         \<and> filter is_any_call (new_events s (snd (handleProjectSyncUpdate env (JObj kvs) s))) =
             [Called ''transformService.transformProjectTaskTrackingData'' [JObj kvs]]
         \<and> filter is_storage_call
              (new_events s (snd (handleProjectSyncUpdate env (JObj kvs) s))) = []
         \<and> world (snd (handleProjectSyncUpdate env (JObj kvs) s)) = w"
  using assms
  by (simp add: handleProjectSyncUpdate_def handleProjectSyncUpdate_try_def prog_defs
      new_events_def)

theorem empty_completed_set_short_circuits_witness:
  "validateRequired js_demo_env (JStr ''p1'') ''Project ID (_id)'' = None
   \<and> validateString js_demo_env (JStr ''p1'') ''_id'' = None
   \<and> validateRequired js_demo_env (JStr ''s1'') ''Solution ID'' = None
   \<and> collaborator js_demo_env ''transformService.transformProjectTaskTrackingData''
        sync_payload (world js_start) = (Inr (JArr []), 1)
   \<and> get_prop (JArr []) ''length'' = Inr (JNum 0)
   \<and> fst (handleProjectSyncUpdate js_demo_env sync_payload js_start) =
       Inr (JObj [(''success'', JBool True), (''projectId'', JStr ''s1''),
                  (''status'', JStr ''started''), (''totalTasks'', JNum 1),
                  (''completedTasks'', JNum 0), (''inserted'', JNum 0), (''skipped'', JNum 0)])
   \<and> filter is_storage_call
        (new_events js_start (snd (handleProjectSyncUpdate js_demo_env sync_payload js_start))) = []"
proof -
  let ?kvs = "[(''_id'', JStr ''p1''), (''solutionId'', JStr ''s1''), (''userId'', JStr ''u1''),
           (''status'', JStr ''started''),
           (''tasks'', JArr [JObj [(''taskId'', JStr ''t1''), (''status'', JStr ''notStarted'')]])]"
  have v1: "validateRequired js_demo_env (field_of ?kvs ''_id'') ''Project ID (_id)'' = None"
    by (simp add: js_demo_env_def field_of_def)
  have v2: "validateString js_demo_env (field_of ?kvs ''_id'') ''_id'' = None"
    by (simp add: js_demo_env_def field_of_def)
  have v3: "validateRequired js_demo_env (field_of ?kvs ''solutionId'') ''Solution ID'' = None"
    by (simp add: js_demo_env_def field_of_def)
  have v4: "validateRequired js_demo_env (field_of ?kvs ''tasks'') ''Tasks array'' = None"
    by (simp add: js_demo_env_def field_of_def)
  have tr: "collaborator js_demo_env ''transformService.transformProjectTaskTrackingData''
              (JObj ?kvs) (world js_start) = (Inr (JArr []), 1)"
    by (simp add: js_demo_env_def js_start_def completed_tasks_def field_of_def)
  have z: "get_prop (JArr []) ''length'' = Inr (JNum 0)" by simp
  from empty_completed_set_short_circuits [OF v1 v2 v3 v4 tr z] v1 v2 v3 tr z
  show ?thesis
    by (simp add: sync_payload_def field_of_def length_or_0_def)
qed

lemmas project_defs = handleProjectCreated_try_def handleProjectSyncUpdate_try_def field_of_def
  tpl_def length_or_0_def completed_tasks_def

lemma created_try_storage_failure:
  "fst (handleProjectCreated_try js_demo_env created_payload js_start) =
     Inl (Exn ErrorC ''connection refused'')"
  by (simp add: project_defs prog_defs js_demo_env_def js_start_def created_payload_def)

lemma created_try_validation_failure:
  "fst (handleProjectCreated_try js_demo_env (JObj []) js_start) =
     Inl (Exn ValidationErrorC ''projectTemplate is required'')"
  by (simp add: project_defs prog_defs js_demo_env_def js_start_def)

lemma sync_try_validation_failure:
  "fst (handleProjectSyncUpdate_try js_demo_env (JObj []) js_start) =
     Inl (Exn ValidationErrorC ''Project ID (_id) is required'')"
  by (simp add: project_defs prog_defs js_demo_env_def js_start_def)

lemma sync_try_type_error:
  "fst (handleProjectSyncUpdate_try js_demo_env JNull js_start) =
     Inl (Exn TypeErrorC ''Cannot read properties of null (reading _id)'')"
  by (simp add: project_defs prog_defs js_demo_env_def js_start_def)

text \<open>
  C8. Whatever the \<open>try\<close> block of \<open>handleProjectCreated\<close> or of
  \<open>handleProjectSyncUpdate\<close> throws: a \<open>ValidationError\<close> leaves the handler as a new
  error whose message is \<open>Validation failed: \<close> followed by the original message, and
  any other error leaves it unchanged. In particular a payload whose first validated
  field is rejected by the validator raises the prefixed error before any collaborator
  is called.
\<close>

theorem validation_errors_are_prefixed:
  "(fst (handleProjectCreated_try env d s) = Inl e \<and> cls e = ValidationErrorC \<longrightarrow>
      fst (handleProjectCreated env d s) = Inl (Exn ErrorC (''Validation failed: '' @ message e)))
   \<and> (fst (handleProjectCreated_try env d s) = Inl e \<and> cls e \<noteq> ValidationErrorC \<longrightarrow>
      fst (handleProjectCreated env d s) = Inl e)
   \<and> (fst (handleProjectSyncUpdate_try env d s) = Inl e \<and> cls e = ValidationErrorC \<longrightarrow>
      fst (handleProjectSyncUpdate env d s) =
        Inl (Exn ErrorC (''Validation failed: '' @ message e)))
   \<and> (fst (handleProjectSyncUpdate_try env d s) = Inl e \<and> cls e \<noteq> ValidationErrorC \<longrightarrow>
      fst (handleProjectSyncUpdate env d s) = Inl e)
   \<and> (validateRequired env (field_of kvs ''projectTemplate'') ''projectTemplate'' = Some e
        \<and> cls e = ValidationErrorC \<longrightarrow>
      handleProjectCreated env (JObj kvs) s =
        (Inl (Exn ErrorC (''Validation failed: '' @ message e)),
         s\<lparr>trace := trace s @
            [Console ''Validation failed in handleProjectCreated:'' [JStr (message e)]]\<rparr>))
   \<and> (validateRequired env (field_of kvs ''_id'') ''Project ID (_id)'' = Some e
        \<and> cls e = ValidationErrorC \<longrightarrow>
      handleProjectSyncUpdate env (JObj kvs) s =
        (Inl (Exn ErrorC (''Validation failed: '' @ message e)),
         s\<lparr>trace := trace s @
            [Console ''Validation failed in handleProjectSyncUpdate:'' [JStr (message e)]]\<rparr>))"
proof (intro conjI impI)
  assume "fst (handleProjectCreated_try env d s) = Inl e \<and> cls e = ValidationErrorC"
  then show "fst (handleProjectCreated env d s) =
      Inl (Exn ErrorC (''Validation failed: '' @ message e))"
    by (cases "handleProjectCreated_try env d s")
      (simp add: handleProjectCreated_def project_catch_def prog_defs)
next
  assume "fst (handleProjectCreated_try env d s) = Inl e \<and> cls e \<noteq> ValidationErrorC"
  then show "fst (handleProjectCreated env d s) = Inl e"
    by (cases "handleProjectCreated_try env d s")
      (simp add: handleProjectCreated_def project_catch_def prog_defs)
next
  assume "fst (handleProjectSyncUpdate_try env d s) = Inl e \<and> cls e = ValidationErrorC"
  then show "fst (handleProjectSyncUpdate env d s) =
      Inl (Exn ErrorC (''Validation failed: '' @ message e))"
    by (cases "handleProjectSyncUpdate_try env d s")
      (simp add: handleProjectSyncUpdate_def project_catch_def prog_defs)
next
  assume "fst (handleProjectSyncUpdate_try env d s) = Inl e \<and> cls e \<noteq> ValidationErrorC"
  then show "fst (handleProjectSyncUpdate env d s) = Inl e"
    by (cases "handleProjectSyncUpdate_try env d s")
      (simp add: handleProjectSyncUpdate_def project_catch_def prog_defs)
next
  assume "validateRequired env (field_of kvs ''projectTemplate'') ''projectTemplate'' = Some e
        \<and> cls e = ValidationErrorC"
  then show "handleProjectCreated env (JObj kvs) s =
        (Inl (Exn ErrorC (''Validation failed: '' @ message e)),
         s\<lparr>trace := trace s @
            [Console ''Validation failed in handleProjectCreated:'' [JStr (message e)]]\<rparr>)"
    by (simp add: handleProjectCreated_def handleProjectCreated_try_def project_catch_def
        prog_defs)
next
  assume "validateRequired env (field_of kvs ''_id'') ''Project ID (_id)'' = Some e
        \<and> cls e = ValidationErrorC"
  then show "handleProjectSyncUpdate env (JObj kvs) s =
        (Inl (Exn ErrorC (''Validation failed: '' @ message e)),
         s\<lparr>trace := trace s @
            [Console ''Validation failed in handleProjectSyncUpdate:'' [JStr (message e)]]\<rparr>)"
    by (simp add: handleProjectSyncUpdate_def handleProjectSyncUpdate_try_def project_catch_def
        prog_defs)
qed

theorem validation_errors_are_prefixed_witness:
  "fst (handleProjectCreated_try js_demo_env (JObj []) js_start) =
     Inl (Exn ValidationErrorC ''projectTemplate is required'')
   \<and> cls (Exn ValidationErrorC ''projectTemplate is required'') = ValidationErrorC
   \<and> fst (handleProjectCreated js_demo_env (JObj []) js_start) =
       Inl (Exn ErrorC ''Validation failed: projectTemplate is required'')
   \<and> fst (handleProjectCreated_try js_demo_env created_payload js_start) =
       Inl (Exn ErrorC ''connection refused'')
   \<and> cls (Exn ErrorC ''connection refused'') \<noteq> ValidationErrorC
   \<and> fst (handleProjectCreated js_demo_env created_payload js_start) =
       Inl (Exn ErrorC ''connection refused'')
   \<and> fst (handleProjectSyncUpdate_try js_demo_env (JObj []) js_start) =
       Inl (Exn ValidationErrorC ''Project ID (_id) is required'')
   \<and> cls (Exn ValidationErrorC ''Project ID (_id) is required'') = ValidationErrorC
   \<and> fst (handleProjectSyncUpdate js_demo_env (JObj []) js_start) =
       Inl (Exn ErrorC ''Validation failed: Project ID (_id) is required'')
   \<and> fst (handleProjectSyncUpdate_try js_demo_env JNull js_start) =
       Inl (Exn TypeErrorC ''Cannot read properties of null (reading _id)'')
   \<and> cls (Exn TypeErrorC ''Cannot read properties of null (reading _id)'') \<noteq> ValidationErrorC
   \<and> fst (handleProjectSyncUpdate js_demo_env JNull js_start) =
       Inl (Exn TypeErrorC ''Cannot read properties of null (reading _id)'')
   \<and> validateRequired js_demo_env (field_of [] ''projectTemplate'') ''projectTemplate'' =
       Some (Exn ValidationErrorC ''projectTemplate is required'')
   \<and> validateRequired js_demo_env (field_of [] ''_id'') ''Project ID (_id)'' =
       Some (Exn ValidationErrorC ''Project ID (_id) is required'')
   \<and> handleProjectSyncUpdate js_demo_env (JObj []) js_start =
       (Inl (Exn ErrorC ''Validation failed: Project ID (_id) is required''),
        js_start\<lparr>trace := trace js_start @
           [Console ''Validation failed in handleProjectSyncUpdate:''
              [JStr ''Project ID (_id) is required'']]\<rparr>)"
proof -
  have v1: "validateRequired js_demo_env (field_of [] ''projectTemplate'') ''projectTemplate'' =
       Some (Exn ValidationErrorC ''projectTemplate is required'')"
    by (simp add: js_demo_env_def field_of_def)
  have v2: "validateRequired js_demo_env (field_of [] ''_id'') ''Project ID (_id)'' =
       Some (Exn ValidationErrorC ''Project ID (_id) is required'')"
    by (simp add: js_demo_env_def field_of_def)
  note a = validation_errors_are_prefixed
    [of js_demo_env "JObj []" js_start "Exn ValidationErrorC ''projectTemplate is required''" "[]"]
  note b = validation_errors_are_prefixed
    [of js_demo_env created_payload js_start "Exn ErrorC ''connection refused''" "[]"]
  note c = validation_errors_are_prefixed
    [of js_demo_env "JObj []" js_start
        "Exn ValidationErrorC ''Project ID (_id) is required''" "[]"]
  note d = validation_errors_are_prefixed
    [of js_demo_env JNull js_start
        "Exn TypeErrorC ''Cannot read properties of null (reading _id)''" "[]"]
  have r1: "fst (handleProjectCreated js_demo_env (JObj []) js_start) =
       Inl (Exn ErrorC ''Validation failed: projectTemplate is required'')"
    using a created_try_validation_failure by simp
  have r2: "fst (handleProjectCreated js_demo_env created_payload js_start) =
       Inl (Exn ErrorC ''connection refused'')"
    using b created_try_storage_failure by simp
  have r3: "fst (handleProjectSyncUpdate js_demo_env (JObj []) js_start) =
       Inl (Exn ErrorC ''Validation failed: Project ID (_id) is required'')"
    using c sync_try_validation_failure by simp
  have r4: "fst (handleProjectSyncUpdate js_demo_env JNull js_start) =
       Inl (Exn TypeErrorC ''Cannot read properties of null (reading _id)'')"
    using d sync_try_type_error by simp
  have r5: "handleProjectSyncUpdate js_demo_env (JObj []) js_start =
       (Inl (Exn ErrorC ''Validation failed: Project ID (_id) is required''),
        js_start\<lparr>trace := trace js_start @
           [Console ''Validation failed in handleProjectSyncUpdate:''
              [JStr ''Project ID (_id) is required'']]\<rparr>)"
    using c v2 by simp
  show ?thesis
    using created_try_validation_failure created_try_storage_failure
      sync_try_validation_failure sync_try_type_error v1 v2 r1 r2 r3 r4 r5
    by simp
qed

end
